theory Spec2Isabelle
  imports Complex_Main
begin

section \<open>Expressions of the simulation engine\<close>

text \<open>
  \<^verbatim>\<open>tempering.py\<close> hands the engine two kinds of text: the energy function of a custom
  force (a main expression followed by definitions of intermediate variables, separated by
  semicolons) and the protocol's scale-factor expressions in \<^verbatim>\<open>lambda\<close>. The texts are
  modelled by their syntax trees. The evaluator gives the mathematical value of an
  expression in exact real arithmetic: it is the meaning of the text that the program
  writes, not the engine's evaluation of it in double precision, whose rounding, overflow
  and simplification of the text are outside this model. Where an expression has no
  value in the reals (a quotient whose divisor is zero, the root of a negative number, an
  unbound variable) the evaluator gives \<open>None\<close>.
\<close>

datatype expr =
    ENum real
  | EVar string
  | EAdd expr expr
  | ESub expr expr
  | EMul expr expr
  | EDiv expr expr
  | EPow expr nat
  | ECos expr
  | EExp expr
  | ESqrt expr
  | EDelta expr
  | EStep expr
  | ESelect expr expr expr

type_synonym env = "string \<Rightarrow> real option"

fun binop :: "(real \<Rightarrow> real \<Rightarrow> real option) \<Rightarrow> real option \<Rightarrow> real option \<Rightarrow> real option" where
  "binop f (Some x) (Some y) = f x y"
| "binop f _ _ = None"

text \<open>
  \<open>delta(x)\<close> is 1 at \<open>x = 0\<close> and 0 elsewhere, \<open>step(x)\<close> is 0 for \<open>x < 0\<close> and 1 otherwise,
  \<open>select(x, y, z)\<close> is \<open>z\<close> when \<open>x = 0\<close> and \<open>y\<close> otherwise.
\<close>

fun evaluate :: "env \<Rightarrow> expr \<Rightarrow> real option" where
  "evaluate env (ENum c) = Some c"
| "evaluate env (EVar v) = env v"
| "evaluate env (EAdd a b) = binop (\<lambda>x y. Some (x + y)) (evaluate env a) (evaluate env b)"
| "evaluate env (ESub a b) = binop (\<lambda>x y. Some (x - y)) (evaluate env a) (evaluate env b)"
| "evaluate env (EMul a b) = binop (\<lambda>x y. Some (x * y)) (evaluate env a) (evaluate env b)"
| "evaluate env (EDiv a b) =
     binop (\<lambda>x y. if y = 0 then None else Some (x / y)) (evaluate env a) (evaluate env b)"
| "evaluate env (EPow a n) = map_option (\<lambda>x. x ^ n) (evaluate env a)"
| "evaluate env (ECos a) = map_option cos (evaluate env a)"
| "evaluate env (EExp a) = map_option exp (evaluate env a)"
| "evaluate env (ESqrt a) =
     (case evaluate env a of None \<Rightarrow> None | Some x \<Rightarrow> if x < 0 then None else Some (sqrt x))"
| "evaluate env (EDelta a) = map_option (\<lambda>x. if x = 0 then 1 else 0) (evaluate env a)"
| "evaluate env (EStep a) = map_option (\<lambda>x. if x < 0 then 0 else 1) (evaluate env a)"
| "evaluate env (ESelect c a b) =
     (case evaluate env c of
        None \<Rightarrow> None
      | Some x \<Rightarrow> if x = 0 then evaluate env b else evaluate env a)"

text \<open>
  An energy function \<^verbatim>\<open>main; v1 = e1; v2 = e2; ...\<close>: a definition may use the variables
  defined after it, so the definitions are bound from the last to the first.
\<close>

type_synonym expression = "expr \<times> (string \<times> expr) list"

definition bind_definition :: "string \<times> expr \<Rightarrow> env \<Rightarrow> env" where
  "bind_definition d env = env(fst d := evaluate env (snd d))"

definition evaluate_expression :: "env \<Rightarrow> expression \<Rightarrow> real option" where
  "evaluate_expression env e = evaluate (foldr bind_definition (snd e) env) (fst e)"

section \<open>Forces and systems\<close>

text \<open>
  The engine's objects are modelled by the containers they expose. Particle indices are
  Python integers. A harmonic bond is \<open>(p1, p2, length, k)\<close>, a harmonic angle
  \<open>(p1, p2, p3, theta0, k)\<close>, a periodic torsion \<open>(p1, p2, p3, p4, periodicity, phase, k)\<close>;
  a nonbonded particle is \<open>(charge, sigma, epsilon)\<close>, an exception
  \<open>(p1, p2, chargeProd, sigma, epsilon)\<close>; a parameter offset is
  \<open>(parameter, index, chargeScale, sigmaScale, epsilonScale)\<close>.
\<close>

datatype nonbonded_method = NoCutoff | CutoffNonPeriodic | CutoffPeriodic | Ewald | PME | LJPME

record nonbonded_force =
  nb_method :: nonbonded_method
  reaction_field_dielectric :: real
  cutoff_distance :: real
  use_switching_function :: bool
  switching_distance :: real
  pme_parameters :: "real \<times> int \<times> int \<times> int"
  ewald_error_tolerance :: real
  nb_use_dispersion_correction :: bool
  nb_global_parameters :: "(string \<times> real) list"
  nb_particles :: "(real \<times> real \<times> real) list"
  particle_parameter_offsets :: "(string \<times> int \<times> real \<times> real \<times> real) list"
  nb_exceptions :: "(int \<times> int \<times> real \<times> real \<times> real) list"
  exception_parameter_offsets :: "(string \<times> nat \<times> real \<times> real \<times> real) list"

text \<open>
  A custom bond, angle or torsion force: its energy function, the names of its per-term
  parameters, its global parameters with their default values, and its terms (the
  particles and the values of the per-term parameters).
\<close>

record custom_force =
  energy_function :: expression
  per_term_parameters :: "string list"
  global_parameters :: "(string \<times> real) list"
  force_terms :: "(int list \<times> real list) list"

datatype force =
    HarmonicBondForce "(int \<times> int \<times> real \<times> real) list"
  | HarmonicAngleForce "(int \<times> int \<times> int \<times> real \<times> real) list"
  | PeriodicTorsionForce "(int \<times> int \<times> int \<times> int \<times> int \<times> real \<times> real) list"
  | NonbondedForce nonbonded_force
  | MonteCarloBarostat "real \<times> real \<times> int"
  | CustomBondForce custom_force
  | CustomAngleForce custom_force
  | CustomTorsionForce custom_force
  | OtherForce string

text \<open>\<^verbatim>\<open>type(force).__name__\<close>; a force of any other class is known by its class name only.\<close>

fun type_name :: "force \<Rightarrow> string" where
  "type_name (HarmonicBondForce _) = ''HarmonicBondForce''"
| "type_name (HarmonicAngleForce _) = ''HarmonicAngleForce''"
| "type_name (PeriodicTorsionForce _) = ''PeriodicTorsionForce''"
| "type_name (NonbondedForce _) = ''NonbondedForce''"
| "type_name (MonteCarloBarostat _) = ''MonteCarloBarostat''"
| "type_name (CustomBondForce _) = ''CustomBondForce''"
| "type_name (CustomAngleForce _) = ''CustomAngleForce''"
| "type_name (CustomTorsionForce _) = ''CustomTorsionForce''"
| "type_name (OtherForce name) = name"

type_synonym vec3 = "real \<times> real \<times> real"

record system =
  particles :: "real list"
  constraints :: "(int \<times> int \<times> real) list"
  forces :: "force list"
  default_periodic_box_vectors :: "vec3 \<times> vec3 \<times> vec3"

text \<open>\<^verbatim>\<open>openmm.System()\<close> and \<^verbatim>\<open>openmm.NonbondedForce()\<close>: the engine's fresh objects.\<close>

definition System :: system where
  "System = \<lparr>particles = [], constraints = [], forces = [],
     default_periodic_box_vectors = ((2, 0, 0), (0, 2, 0), (0, 0, 2))\<rparr>"

definition NonbondedForce_new :: nonbonded_force where
  "NonbondedForce_new = \<lparr>nb_method = NoCutoff, reaction_field_dielectric = 78.3,
     cutoff_distance = 1, use_switching_function = False, switching_distance = - 1,
     pme_parameters = (0, 0, 0, 0), ewald_error_tolerance = 5 / 10000,
     nb_use_dispersion_correction = True, nb_global_parameters = [], nb_particles = [],
     particle_parameter_offsets = [], nb_exceptions = [],
     exception_parameter_offsets = []\<rparr>"

definition CustomForce_new :: "expression \<Rightarrow> custom_force" where
  "CustomForce_new energy = \<lparr>energy_function = energy, per_term_parameters = [],
     global_parameters = [], force_terms = []\<rparr>"

datatype py_error =
    AssertionError
  | KeyError string
  | ValueError "string set"
  | AttributeError
  | OpenMMException

subsection \<open>Methods of the engine's objects\<close>

definition addParticle :: "real \<Rightarrow> system \<Rightarrow> nat \<times> system" where
  "addParticle mass s = (length (particles s), s\<lparr>particles := particles s @ [mass]\<rparr>)"

definition addForce :: "force \<Rightarrow> system \<Rightarrow> nat \<times> system" where
  "addForce f s = (length (forces s), s\<lparr>forces := forces s @ [f]\<rparr>)"

definition addConstraint :: "int \<Rightarrow> int \<Rightarrow> real \<Rightarrow> system \<Rightarrow> system" where
  "addConstraint atom1 atom2 len s = s\<lparr>constraints := constraints s @ [(atom1, atom2, len)]\<rparr>"

definition addPerTermParameter :: "string \<Rightarrow> custom_force \<Rightarrow> custom_force" where
  "addPerTermParameter name cf = cf\<lparr>per_term_parameters := per_term_parameters cf @ [name]\<rparr>"

definition addGlobalParameter :: "string \<Rightarrow> real \<Rightarrow> custom_force \<Rightarrow> custom_force" where
  "addGlobalParameter name v cf = cf\<lparr>global_parameters := global_parameters cf @ [(name, v)]\<rparr>"

text \<open>
  The methods called through \<^verbatim>\<open>_out_system_forces[...]\<close>: each is a method of one
  class; on an object of another class the call fails.
\<close>

fun addBond :: "int \<Rightarrow> int \<Rightarrow> real list \<Rightarrow> force \<Rightarrow> py_error + unit \<times> force" where
  "addBond p1 p2 parameters (CustomBondForce cf) =
     Inr ((), CustomBondForce (cf\<lparr>force_terms := force_terms cf @ [([p1, p2], parameters)]\<rparr>))"
| "addBond _ _ _ _ = Inl AttributeError"

fun addAngle :: "int \<Rightarrow> int \<Rightarrow> int \<Rightarrow> real list \<Rightarrow> force \<Rightarrow> py_error + unit \<times> force" where
  "addAngle p1 p2 p3 parameters (CustomAngleForce cf) =
     Inr ((), CustomAngleForce (cf\<lparr>force_terms := force_terms cf @ [([p1, p2, p3], parameters)]\<rparr>))"
| "addAngle _ _ _ _ _ = Inl AttributeError"

fun addTorsion :: "int \<Rightarrow> int \<Rightarrow> int \<Rightarrow> int \<Rightarrow> real list \<Rightarrow> force \<Rightarrow> py_error + unit \<times> force" where
  "addTorsion p1 p2 p3 p4 parameters (CustomTorsionForce cf) =
     Inr ((), CustomTorsionForce
       (cf\<lparr>force_terms := force_terms cf @ [([p1, p2, p3, p4], parameters)]\<rparr>))"
| "addTorsion _ _ _ _ _ _ = Inl AttributeError"

fun addNonbondedParticle :: "real \<Rightarrow> real \<Rightarrow> real \<Rightarrow> force \<Rightarrow> py_error + unit \<times> force" where
  "addNonbondedParticle q sigma epsilon (NonbondedForce nb) =
     Inr ((), NonbondedForce (nb\<lparr>nb_particles := nb_particles nb @ [(q, sigma, epsilon)]\<rparr>))"
| "addNonbondedParticle _ _ _ _ = Inl AttributeError"

fun addParticleParameterOffset ::
  "string \<Rightarrow> int \<Rightarrow> real \<Rightarrow> real \<Rightarrow> real \<Rightarrow> force \<Rightarrow> py_error + unit \<times> force" where
  "addParticleParameterOffset parameter particle_idx charge_scale sigma_scale epsilon_scale
       (NonbondedForce nb) =
     Inr ((), NonbondedForce (nb\<lparr>particle_parameter_offsets := particle_parameter_offsets nb @
       [(parameter, particle_idx, charge_scale, sigma_scale, epsilon_scale)]\<rparr>))"
| "addParticleParameterOffset _ _ _ _ _ _ = Inl AttributeError"

text \<open>\<^verbatim>\<open>addException\<close> returns the index of the exception it adds.\<close>

fun addException :: "int \<Rightarrow> int \<Rightarrow> real \<Rightarrow> real \<Rightarrow> real \<Rightarrow> force \<Rightarrow> py_error + nat \<times> force" where
  "addException p1 p2 charge_prod sigma epsilon (NonbondedForce nb) =
     Inr (length (nb_exceptions nb),
       NonbondedForce (nb\<lparr>nb_exceptions := nb_exceptions nb @
         [(p1, p2, charge_prod, sigma, epsilon)]\<rparr>))"
| "addException _ _ _ _ _ _ = Inl AttributeError"

fun addExceptionParameterOffset ::
  "string \<Rightarrow> nat \<Rightarrow> real \<Rightarrow> real \<Rightarrow> real \<Rightarrow> force \<Rightarrow> py_error + unit \<times> force" where
  "addExceptionParameterOffset parameter exc_idx charge_prod_scale sigma_scale epsilon_scale
       (NonbondedForce nb) =
     Inr ((), NonbondedForce (nb\<lparr>exception_parameter_offsets := exception_parameter_offsets nb @
       [(parameter, exc_idx, charge_prod_scale, sigma_scale, epsilon_scale)]\<rparr>))"
| "addExceptionParameterOffset _ _ _ _ _ _ = Inl AttributeError"

fun addNonbondedGlobalParameter :: "string \<Rightarrow> real \<Rightarrow> force \<Rightarrow> py_error + unit \<times> force" where
  "addNonbondedGlobalParameter name v (NonbondedForce nb) =
     Inr ((), NonbondedForce (nb\<lparr>nb_global_parameters := nb_global_parameters nb @ [(name, v)]\<rparr>))"
| "addNonbondedGlobalParameter _ _ _ = Inl AttributeError"

fun setUseDispersionCorrection :: "bool \<Rightarrow> force \<Rightarrow> py_error + unit \<times> force" where
  "setUseDispersionCorrection b (NonbondedForce nb) =
     Inr ((), NonbondedForce (nb\<lparr>nb_use_dispersion_correction := b\<rparr>))"
| "setUseDispersionCorrection _ _ = Inl AttributeError"

text \<open>\<^verbatim>\<open>getParticleParameters(index)\<close> fails on an index the force has no particle for.\<close>

definition getParticleParameters :: "nonbonded_force \<Rightarrow> nat \<Rightarrow> py_error + real \<times> real \<times> real" where
  "getParticleParameters nb particle_idx =
     (if particle_idx < length (nb_particles nb) then Inr (nb_particles nb ! particle_idx)
      else Inl OpenMMException)"

section \<open>The REST factory\<close>

text \<open>
  The attributes of a \<^verbatim>\<open>RESTFactory\<close> object, without their leading underscore.
  \<open>og_system_forces\<close> is the dictionary from class names to the forces of the original
  system. The forces of the output system are shared between \<open>out_system\<close> and the
  dictionary \<open>out_system_forces\<close>: the system's list of forces is the store, and the
  dictionary holds, for a class name, the position of the force in that list.
  An attribute that \<^verbatim>\<open>__init__\<close> has not assigned yet holds the fresh value
  (\<open>System\<close>, \<open>NoCutoff\<close>).
\<close>

record rest_factory =
  use_dispersion_correction :: bool
  num_particles :: nat
  og_system :: system
  og_system_forces :: "string \<rightharpoonup> force"
  out_system_forces :: "string \<rightharpoonup> nat"
  solute_region :: "int list"
  solvent_region :: "int list"
  global_params :: "string list"
  nonbonded_method :: nonbonded_method
  out_system :: system

text \<open>
  A method either raises, and the result is the exception with the object as it is at
  that moment, or it returns, and the result is the object as the method leaves it.
\<close>

type_synonym outcome = "py_error \<times> rest_factory + rest_factory"

fun run_steps :: "(rest_factory \<Rightarrow> outcome) list \<Rightarrow> rest_factory \<Rightarrow> outcome" where
  "run_steps [] self = Inr self"
| "run_steps (step # steps) self =
     (case step self of Inl e \<Rightarrow> Inl e | Inr self' \<Rightarrow> run_steps steps self')"

definition known_forces :: "string set" where
  "known_forces = {''HarmonicBondForce'', ''HarmonicAngleForce'', ''PeriodicTorsionForce'',
     ''NonbondedForce'', ''MonteCarloBarostat''}"

text \<open>
  \<^verbatim>\<open>self._out_system_forces[name].method(...)\<close>: the lookup in the dictionary, the call
  on the force it refers to, and the force's new state in the output system.
\<close>

definition call_out_force ::
  "string \<Rightarrow> (force \<Rightarrow> py_error + 'r \<times> force) \<Rightarrow> rest_factory \<Rightarrow>
     py_error \<times> rest_factory + 'r \<times> rest_factory" where
  "call_out_force name meth self =
     (case out_system_forces self name of
        None \<Rightarrow> Inl (KeyError name, self)
      | Some idx \<Rightarrow>
          (case meth (forces (out_system self) ! idx) of
             Inl e \<Rightarrow> Inl (e, self)
           | Inr (r, f') \<Rightarrow>
               Inr (r, self\<lparr>out_system :=
                 (out_system self)\<lparr>forces := (forces (out_system self))[idx := f']\<rparr>\<rparr>)))"

definition call_out_force_unit ::
  "string \<Rightarrow> (force \<Rightarrow> py_error + unit \<times> force) \<Rightarrow> rest_factory \<Rightarrow> outcome" where
  "call_out_force_unit name meth self = map_sum id snd (call_out_force name meth self)"

text \<open>
  \<^verbatim>\<open>self._out_system.addForce(force)\<close> followed by
  \<^verbatim>\<open>self._out_system_forces[force.__class__.__name__] = force\<close>.
\<close>

definition install_force :: "force \<Rightarrow> rest_factory \<Rightarrow> rest_factory" where
  "install_force f self =
     (let (idx, s) = addForce f (out_system self)
      in self\<lparr>out_system := s, out_system_forces := (out_system_forces self)(type_name f \<mapsto> idx)\<rparr>)"

subsection \<open>The classifier\<close>

text \<open>
  \<^verbatim>\<open>get_identifier\<close> takes an integer or a sequence of integers. The identifiers are
  0 for solute, 1 for solvent and 2 for inter, as the energy functions read them.
\<close>

datatype particles_arg = OneParticle int | Particles "int list"

fun get_identifier :: "rest_factory \<Rightarrow> particles_arg \<Rightarrow> int" where
  "get_identifier self (OneParticle p) = (if p \<in> set (solute_region self) then 0 else 1)"
| "get_identifier self (Particles ps) =
     (if list_all (\<lambda>x. x \<in> set (solvent_region self)) ps then 1
      else if list_all (\<lambda>x. x \<in> set (solute_region self)) ps then 0
      else 2)"

definition SoluteOnly :: int where "SoluteOnly = 0"
definition SolventOnly :: int where "SolventOnly = 1"
definition Inter :: int where "Inter = 2"

subsection \<open>The energy functions of the custom forces\<close>

definition scaling_expression :: "bool \<Rightarrow> (string \<times> expr) list" where
  "scaling_expression nb =
     (let last_line =
        (if \<not> nb then
           [(''_is_solute'', EDelta (EVar ''identifier'')),
            (''_is_solvent'', EDelta (ESub (ENum 1) (EVar ''identifier''))),
            (''_is_inter'', EDelta (ESub (ENum 2) (EVar ''identifier'')))]
         else
           [(''_is_solute'', EDelta (EAdd (EVar ''identifier1'') (EVar ''identifier2''))),
            (''_is_solvent'',
               EDelta (ESub (ENum 2) (EAdd (EVar ''identifier1'') (EVar ''identifier2'')))),
            (''_is_inter'',
               EDelta (ESub (ENum 1) (EAdd (EVar ''identifier1'') (EVar ''identifier2''))))])
      in [(''scale_factor'',
            EAdd (EAdd (EMul (EVar ''solute_scale'') (EVar ''_is_solute''))
                       (EMul (EVar ''solvent_scale'') (EVar ''_is_solvent'')))
                 (EMul (EVar ''inter_scale'') (EVar ''_is_inter''))),
          (''solvent_scale'', ENum 1)] @ last_line)"

text \<open>
  The loop \<^verbatim>\<open>for q in [...]: force.addGlobalParameter(q, v); self._global_params.append(q)\<close>
  of the three \<^verbatim>\<open>_add_*_force_terms\<close> methods for the bonded kinds.
\<close>

definition add_global_parameters ::
  "string list \<Rightarrow> real \<Rightarrow> custom_force \<times> rest_factory \<Rightarrow> custom_force \<times> rest_factory" where
  "add_global_parameters qs v state =
     foldl (\<lambda>(cf, self) q.
       (addGlobalParameter q v cf, self\<lparr>global_params := global_params self @ [q]\<rparr>)) state qs"

definition bond_energy_expression :: expression where
  "bond_energy_expression =
     (EMul (EDiv (EVar ''K'') (ENum 2)) (EPow (ESub (EVar ''r'') (EVar ''length'')) 2),
      [(''K'', EMul (EVar ''k'') (EVar ''scale_factor''))] @ scaling_expression False)"

definition angle_energy_expression :: expression where
  "angle_energy_expression =
     (EMul (EDiv (EVar ''K'') (ENum 2)) (EPow (ESub (EVar ''theta'') (EVar ''theta0'')) 2),
      [(''K'', EMul (EVar ''k'') (EVar ''scale_factor''))] @ scaling_expression False)"

definition torsion_energy_expression :: expression where
  "torsion_energy_expression =
     (EMul (EVar ''K'')
        (EAdd (ENum 1)
           (ECos (ESub (EMul (EVar ''periodicity'') (EVar ''theta'')) (EVar ''phase'')))),
      [(''K'', EMul (EVar ''k'') (EVar ''scale_factor''))] @ scaling_expression False)"

definition add_bond_force_terms :: "rest_factory \<Rightarrow> outcome" where
  "add_bond_force_terms self =
     (let core_energy_expression = bond_energy_expression;
          custom_core_force = CustomForce_new core_energy_expression;
          custom_core_force = addPerTermParameter ''length'' custom_core_force;
          custom_core_force = addPerTermParameter ''k'' custom_core_force;
          custom_core_force = addPerTermParameter ''identifier'' custom_core_force;
          (custom_core_force, self) =
             add_global_parameters [''solute_scale'', ''inter_scale''] 1 (custom_core_force, self)
      in Inr (install_force (CustomBondForce custom_core_force) self))"

definition add_angle_force_terms :: "rest_factory \<Rightarrow> outcome" where
  "add_angle_force_terms self =
     (let core_energy_expression = angle_energy_expression;
          custom_core_force = CustomForce_new core_energy_expression;
          custom_core_force = addPerTermParameter ''theta0'' custom_core_force;
          custom_core_force = addPerTermParameter ''k'' custom_core_force;
          custom_core_force = addPerTermParameter ''identifier'' custom_core_force;
          (custom_core_force, self) =
             add_global_parameters [''solute_scale'', ''inter_scale''] 1 (custom_core_force, self)
      in Inr (install_force (CustomAngleForce custom_core_force) self))"

definition add_torsion_force_terms :: "rest_factory \<Rightarrow> outcome" where
  "add_torsion_force_terms self =
     (let core_energy_expression = torsion_energy_expression;
          custom_core_force = CustomForce_new core_energy_expression;
          custom_core_force = addPerTermParameter ''periodicity'' custom_core_force;
          custom_core_force = addPerTermParameter ''phase'' custom_core_force;
          custom_core_force = addPerTermParameter ''k'' custom_core_force;
          custom_core_force = addPerTermParameter ''identifier'' custom_core_force;
          (custom_core_force, self) =
             add_global_parameters [''solute_scale'', ''inter_scale''] 1 (custom_core_force, self)
      in Inr (install_force (CustomTorsionForce custom_core_force) self))"

subsection \<open>The nonbonded force of the output system\<close>

text \<open>
  The settings \<^verbatim>\<open>_add_nonbonded_force_terms\<close> copies from the original nonbonded force
  through its local reference to the new force.
\<close>

definition copy_nonbonded_settings ::
  "nonbonded_method \<Rightarrow> nonbonded_force \<Rightarrow> nonbonded_force \<Rightarrow> nonbonded_force" where
  "copy_nonbonded_settings method og_nb standard_nonbonded_force =
     (let epsilon_solvent = reaction_field_dielectric og_nb;
          r_cutoff = cutoff_distance og_nb;
          switch_bool = use_switching_function og_nb;
          nb = standard_nonbonded_force\<lparr>use_switching_function := switch_bool\<rparr>;
          nb = (if switch_bool then nb\<lparr>switching_distance := switching_distance og_nb\<rparr> else nb);
          nb = (if method \<noteq> NoCutoff
                then nb\<lparr>reaction_field_dielectric := epsilon_solvent, cutoff_distance := r_cutoff\<rparr>
                else nb);
          nb = (if method \<in> {PME, Ewald}
                then nb\<lparr>pme_parameters := pme_parameters og_nb,
                        ewald_error_tolerance := ewald_error_tolerance og_nb\<rparr>
                else nb)
      in nb\<lparr>nb_method := method\<rparr>)"

definition append_global_param :: "string \<Rightarrow> rest_factory \<Rightarrow> outcome" where
  "append_global_param q self = Inr (self\<lparr>global_params := global_params self @ [q]\<rparr>)"

definition add_nonbonded_force_terms :: "rest_factory \<Rightarrow> outcome" where
  "add_nonbonded_force_terms self =
     (let (idx, s) = addForce (NonbondedForce NonbondedForce_new) (out_system self);
          self = self\<lparr>out_system := s,
                      out_system_forces := (out_system_forces self)(''NonbondedForce'' \<mapsto> idx)\<rparr>
      in case og_system_forces self ''NonbondedForce'' of
           None \<Rightarrow> Inl (KeyError ''NonbondedForce'', self)
         | Some (NonbondedForce og_nb) \<Rightarrow>
             run_steps
               [call_out_force_unit ''NonbondedForce''
                  (setUseDispersionCorrection
                     (nb_use_dispersion_correction og_nb \<and> use_dispersion_correction self)),
                call_out_force_unit ''NonbondedForce''
                  (addNonbondedGlobalParameter ''electrostatic_scale'' 0),
                append_global_param ''electrostatic_scale'',
                call_out_force_unit ''NonbondedForce''
                  (addNonbondedGlobalParameter ''steric_scale'' 0),
                append_global_param ''steric_scale'']
               (self\<lparr>out_system := (out_system self)\<lparr>forces := (forces (out_system self))
                  [idx := NonbondedForce
                     (copy_nonbonded_settings (nonbonded_method self) og_nb NonbondedForce_new)]\<rparr>\<rparr>)
         | Some _ \<Rightarrow> Inl (AttributeError, self))"

subsection \<open>Copying the terms\<close>

fun add_bonds_loop :: "(int \<times> int \<times> real \<times> real) list \<Rightarrow> rest_factory \<Rightarrow> outcome" where
  "add_bonds_loop [] self = Inr self"
| "add_bonds_loop ((p1, p2, len, k) # rest) self =
     (let identifier = get_identifier self (Particles [p1, p2])
      in case call_out_force_unit ''CustomBondForce''
                (addBond p1 p2 [len, k, real_of_int identifier]) self of
           Inl e \<Rightarrow> Inl e
         | Inr self' \<Rightarrow> add_bonds_loop rest self')"

definition add_bonds :: "rest_factory \<Rightarrow> outcome" where
  "add_bonds self =
     (case og_system_forces self ''HarmonicBondForce'' of
        None \<Rightarrow> Inl (KeyError ''HarmonicBondForce'', self)
      | Some (HarmonicBondForce og_bonds) \<Rightarrow> add_bonds_loop og_bonds self
      | Some _ \<Rightarrow> Inl (AttributeError, self))"

fun add_angles_loop ::
  "(int \<times> int \<times> int \<times> real \<times> real) list \<Rightarrow> rest_factory \<Rightarrow> outcome" where
  "add_angles_loop [] self = Inr self"
| "add_angles_loop ((p1, p2, p3, theta0, k) # rest) self =
     (let identifier = get_identifier self (Particles [p1, p2, p3])
      in case call_out_force_unit ''CustomAngleForce''
                (addAngle p1 p2 p3 [theta0, k, real_of_int identifier]) self of
           Inl e \<Rightarrow> Inl e
         | Inr self' \<Rightarrow> add_angles_loop rest self')"

definition add_angles :: "rest_factory \<Rightarrow> outcome" where
  "add_angles self =
     (case og_system_forces self ''HarmonicAngleForce'' of
        None \<Rightarrow> Inl (KeyError ''HarmonicAngleForce'', self)
      | Some (HarmonicAngleForce og_angles) \<Rightarrow> add_angles_loop og_angles self
      | Some _ \<Rightarrow> Inl (AttributeError, self))"

fun add_torsions_loop ::
  "(int \<times> int \<times> int \<times> int \<times> int \<times> real \<times> real) list \<Rightarrow> rest_factory \<Rightarrow> outcome" where
  "add_torsions_loop [] self = Inr self"
| "add_torsions_loop ((p1, p2, p3, p4, per, phase, k) # rest) self =
     (let identifier = get_identifier self (Particles [p1, p2, p3, p4])
      in case call_out_force_unit ''CustomTorsionForce''
                (addTorsion p1 p2 p3 p4 [real_of_int per, phase, k, real_of_int identifier])
                self of
           Inl e \<Rightarrow> Inl e
         | Inr self' \<Rightarrow> add_torsions_loop rest self')"

definition add_torsions :: "rest_factory \<Rightarrow> outcome" where
  "add_torsions self =
     (case og_system_forces self ''PeriodicTorsionForce'' of
        None \<Rightarrow> Inl (KeyError ''PeriodicTorsionForce'', self)
      | Some (PeriodicTorsionForce og_torsions) \<Rightarrow> add_torsions_loop og_torsions self
      | Some _ \<Rightarrow> Inl (AttributeError, self))"

text \<open>The two loops of \<^verbatim>\<open>_add_nonbondeds\<close>: over the particles, then over the exceptions.\<close>

fun add_nonbonded_particles_loop ::
  "nonbonded_force \<Rightarrow> nat list \<Rightarrow> rest_factory \<Rightarrow> outcome" where
  "add_nonbonded_particles_loop og_nb [] self = Inr self"
| "add_nonbonded_particles_loop og_nb (particle_idx # rest) self =
     (case getParticleParameters og_nb particle_idx of
        Inl e \<Rightarrow> Inl (e, self)
      | Inr (q, sigma, epsilon) \<Rightarrow>
          (let identifier = get_identifier self (OneParticle (int particle_idx))
           in case (if identifier = 1 then
                      call_out_force_unit ''NonbondedForce''
                        (addNonbondedParticle q sigma epsilon) self
                    else
                      run_steps
                        [call_out_force_unit ''NonbondedForce''
                           (addNonbondedParticle q sigma epsilon),
                         call_out_force_unit ''NonbondedForce''
                           (addParticleParameterOffset ''electrostatic_scale'' (int particle_idx)
                              q (0 * sigma) (epsilon * 0)),
                         call_out_force_unit ''NonbondedForce''
                           (addParticleParameterOffset ''steric_scale'' (int particle_idx)
                              (q * 0) (0 * sigma) epsilon)]
                        self) of
                Inl e \<Rightarrow> Inl e
              | Inr self' \<Rightarrow> add_nonbonded_particles_loop og_nb rest self'))"

fun add_nonbonded_exceptions_loop ::
  "(int \<times> int \<times> real \<times> real \<times> real) list \<Rightarrow> rest_factory \<Rightarrow> outcome" where
  "add_nonbonded_exceptions_loop [] self = Inr self"
| "add_nonbonded_exceptions_loop ((p1, p2, chargeProd, sigma, epsilon) # rest) self =
     (let identifier = get_identifier self (Particles [p1, p2])
      in case call_out_force ''NonbondedForce'' (addException p1 p2 chargeProd sigma epsilon)
                self of
           Inl e \<Rightarrow> Inl e
         | Inr (exc_idx, self') \<Rightarrow>
             (case (if identifier = 1 then Inr self'
                    else if identifier = 0 then
                      call_out_force_unit ''NonbondedForce''
                        (addExceptionParameterOffset ''steric_scale'' exc_idx
                           chargeProd (0 * sigma) epsilon) self'
                    else if identifier = 2 then
                      call_out_force_unit ''NonbondedForce''
                        (addExceptionParameterOffset ''electrostatic_scale'' exc_idx
                           chargeProd (0 * sigma) epsilon) self'
                    else Inr self') of
                Inl e \<Rightarrow> Inl e
              | Inr self'' \<Rightarrow> add_nonbonded_exceptions_loop rest self''))"

definition add_nonbondeds :: "rest_factory \<Rightarrow> outcome" where
  "add_nonbondeds self =
     (case og_system_forces self ''NonbondedForce'' of
        None \<Rightarrow> Inl (KeyError ''NonbondedForce'', self)
      | Some (NonbondedForce og_nb) \<Rightarrow>
          run_steps
            [add_nonbonded_particles_loop og_nb [0..<num_particles self],
             add_nonbonded_exceptions_loop (nb_exceptions og_nb)]
            self
      | Some _ \<Rightarrow> Inl (AttributeError, self))"

subsection \<open>The constructor\<close>

definition handle_constraints :: "rest_factory \<Rightarrow> outcome" where
  "handle_constraints self =
     Inr (foldl (\<lambda>self (atom1, atom2, len).
            self\<lparr>out_system := addConstraint atom1 atom2 len (out_system self)\<rparr>)
          self (constraints (og_system self)))"

definition copy_particles :: "rest_factory \<Rightarrow> outcome" where
  "copy_particles self =
     Inr (foldl (\<lambda>self particle_idx.
            self\<lparr>out_system :=
              snd (addParticle (particles (og_system self) ! particle_idx) (out_system self))\<rparr>)
          self [0..<num_particles self])"

definition copy_barostat :: "rest_factory \<Rightarrow> outcome" where
  "copy_barostat self =
     (case og_system_forces self ''MonteCarloBarostat'' of
        Some barostat \<Rightarrow> Inr (install_force barostat self)
      | None \<Rightarrow> Inr self)"

definition copy_box_vectors :: "rest_factory \<Rightarrow> outcome" where
  "copy_box_vectors self =
     Inr (self\<lparr>out_system := (out_system self)\<lparr>default_periodic_box_vectors :=
       default_periodic_box_vectors (og_system self)\<rparr>\<rparr>)"

definition check_unknown_forces :: "rest_factory \<Rightarrow> outcome" where
  "check_unknown_forces self =
     (let force_names = dom (og_system_forces self);
          unknown_forces = force_names - known_forces
      in if unknown_forces \<noteq> {} then Inl (ValueError unknown_forces, self) else Inr self)"

text \<open>
  \<^verbatim>\<open>RESTFactory(system, solute_region, use_dispersion_correction)\<close>. In the dictionary of
  the original forces a later force of a class replaces an earlier one of the same class.
\<close>

definition RESTFactory :: "system \<Rightarrow> int list \<Rightarrow> bool \<Rightarrow> outcome" where
  "RESTFactory system solute_region_arg use_dispersion_correction_arg =
     (let self = \<lparr>use_dispersion_correction = use_dispersion_correction_arg,
                   num_particles = length (particles system),
                   og_system = system,
                   og_system_forces = map_of (rev (map (\<lambda>f. (type_name f, f)) (forces system))),
                   out_system_forces = Map.empty,
                   solute_region = solute_region_arg,
                   solvent_region =
                     filter (\<lambda>i. i \<notin> set solute_region_arg)
                       (map int [0..<length (particles system)]),
                   global_params = [],
                   nonbonded_method = NoCutoff,
                   out_system = System\<rparr>
      in if \<not> set solute_region_arg \<subseteq> set (map int [0..<num_particles self])
         then Inl (AssertionError, self)
         else
           (case og_system_forces self ''NonbondedForce'' of
              None \<Rightarrow> Inl (KeyError ''NonbondedForce'', self)
            | Some (NonbondedForce og_nb) \<Rightarrow>
                run_steps
                  [copy_particles, copy_barostat, copy_box_vectors, check_unknown_forces,
                   handle_constraints,
                   add_bond_force_terms, add_bonds,
                   add_angle_force_terms, add_angles,
                   add_torsion_force_terms, add_torsions,
                   add_nonbonded_force_terms, add_nonbondeds]
                  (self\<lparr>nonbonded_method := nb_method og_nb, out_system := System\<rparr>)
            | Some _ \<Rightarrow> Inl (AttributeError, self)))"

definition REST_system :: "rest_factory \<Rightarrow> system" where
  "REST_system self = out_system self"

subsection \<open>The protocol\<close>

text \<open>
  \<^verbatim>\<open>get_protocol(T_min, T_max)\<close> formats the two temperatures into four expressions in
  \<^verbatim>\<open>lambda\<close> and returns them in a dictionary. It reads \<^verbatim>\<open>self._global_params\<close> into a
  local variable that it never uses, so the object is left out of the model.
\<close>

definition base_temperature_expression :: "real \<Rightarrow> real \<Rightarrow> expr \<Rightarrow> expr" where
  "base_temperature_expression T_min T_max exponand =
     EAdd (ENum T_min)
       (EDiv (EMul (ESub (ENum T_max) (ENum T_min))
                   (ESub (EExp (EMul (ENum 2) exponand)) (ENum 1)))
             (ESub (EExp (ENum 1)) (ENum 1)))"

definition temperature_expression :: "real \<Rightarrow> real \<Rightarrow> expr" where
  "temperature_expression T_min T_max =
     (let exponand_1 = EVar ''lambda'';
          exponand_2 = ESub (ENum 1) (EVar ''lambda'')
      in ESelect (EStep (ESub (EVar ''lambda'') (ENum 0.5)))
           (base_temperature_expression T_min T_max exponand_2)
           (base_temperature_expression T_min T_max exponand_1))"

definition get_protocol :: "real \<Rightarrow> real \<Rightarrow> py_error + (string \<rightharpoonup> expr)" where
  "get_protocol T_min T_max =
     (let alchemical_dict =
        [''solute_scale'' \<mapsto> EDiv (ENum T_min) (temperature_expression T_min T_max),
         ''inter_scale'' \<mapsto> ESqrt (EDiv (ENum T_min) (temperature_expression T_min T_max)),
         ''steric_scale'' \<mapsto>
            ESub (EDiv (ENum T_min) (temperature_expression T_min T_max)) (ENum 1),
         ''electrostatic_scale'' \<mapsto>
            ESub (ESqrt (EDiv (ENum T_min) (temperature_expression T_min T_max))) (ENum 1)]
      in Inr alchemical_dict)"

text \<open>The value of an expression in \<^verbatim>\<open>lambda\<close>, and of an entry of a protocol.\<close>

definition at_lambda :: "real \<Rightarrow> env" where
  "at_lambda lam v = (if v = ''lambda'' then Some lam else None)"

definition protocol_value :: "py_error + (string \<rightharpoonup> expr) \<Rightarrow> string \<Rightarrow> real \<Rightarrow> real option" where
  "protocol_value result name lam =
     (case result of
        Inl e \<Rightarrow> None
      | Inr alchemical_dict \<Rightarrow>
          (case alchemical_dict name of None \<Rightarrow> None | Some e \<Rightarrow> evaluate (at_lambda lam) e))"

section \<open>The energies and parameters that the forces define\<close>

text \<open>
  The energy of a term of a custom force: the value of the energy function, in exact real
  arithmetic, where the force's variable (\<open>r\<close> or \<open>theta\<close>) is the term's geometry, the
  per-term parameters are the term's values and the global parameters are those of the
  simulation context.
\<close>

definition term_environment :: "custom_force \<Rightarrow> (string \<Rightarrow> real) \<Rightarrow> string \<Rightarrow> real \<Rightarrow> real list \<Rightarrow> env" where
  "term_environment cf context variable x values v =
     (if v = variable then Some x
      else (case map_of (zip (per_term_parameters cf) values) v of
              Some y \<Rightarrow> Some y
            | None \<Rightarrow>
                (case map_of (global_parameters cf) v of
                   Some d \<Rightarrow> Some (context v)
                 | None \<Rightarrow> None)))"

definition term_energy ::
  "custom_force \<Rightarrow> (string \<Rightarrow> real) \<Rightarrow> string \<Rightarrow> real \<Rightarrow> int list \<times> real list \<Rightarrow> real option" where
  "term_energy cf context variable x t =
     evaluate_expression (term_environment cf context variable x (snd t)) (energy_function cf)"







text \<open>
  The force of a class in the output system, as \<^verbatim>\<open>_out_system_forces\<close> refers to it, and
  the contents of a force.
\<close>

definition out_force :: "rest_factory \<Rightarrow> string \<Rightarrow> force option" where
  "out_force self name =
     map_option (\<lambda>idx. forces (out_system self) ! idx) (out_system_forces self name)"

fun custom_of :: "force option \<Rightarrow> custom_force" where
  "custom_of (Some (CustomBondForce cf)) = cf"
| "custom_of (Some (CustomAngleForce cf)) = cf"
| "custom_of (Some (CustomTorsionForce cf)) = cf"
| "custom_of _ = CustomForce_new (ENum 0, [])"

fun nonbonded_of :: "force option \<Rightarrow> nonbonded_force" where
  "nonbonded_of (Some (NonbondedForce nb)) = nb"
| "nonbonded_of _ = NonbondedForce_new"

text \<open>The dictionary of the original forces, as \<^verbatim>\<open>__init__\<close> builds it.\<close>

definition og_forces :: "system \<Rightarrow> string \<rightharpoonup> force" where
  "og_forces sys = map_of (rev (map (\<lambda>f. (type_name f, f)) (forces sys)))"

section \<open>The terms the loops write\<close>

text \<open>
  What one pass of a loop of \<^verbatim>\<open>_add_bonds\<close>, \<^verbatim>\<open>_add_angles\<close>, \<^verbatim>\<open>_add_torsions\<close> and
  \<^verbatim>\<open>_add_nonbondeds\<close> adds to the force of the output system: the rewritten term of a bond,
  an angle or a torsion, and the offsets of a particle and of an exception.
\<close>

fun bond_term :: "rest_factory \<Rightarrow> int \<times> int \<times> real \<times> real \<Rightarrow> int list \<times> real list" where
  "bond_term self (p1, p2, len, k) =
     ([p1, p2], [len, k, real_of_int (get_identifier self (Particles [p1, p2]))])"

fun angle_term ::
  "rest_factory \<Rightarrow> int \<times> int \<times> int \<times> real \<times> real \<Rightarrow> int list \<times> real list" where
  "angle_term self (p1, p2, p3, theta0, k) =
     ([p1, p2, p3], [theta0, k, real_of_int (get_identifier self (Particles [p1, p2, p3]))])"

fun torsion_term ::
  "rest_factory \<Rightarrow> int \<times> int \<times> int \<times> int \<times> int \<times> real \<times> real \<Rightarrow> int list \<times> real list" where
  "torsion_term self (p1, p2, p3, p4, per, phase, k) =
     ([p1, p2, p3, p4],
      [real_of_int per, phase, k,
       real_of_int (get_identifier self (Particles [p1, p2, p3, p4]))])"

definition particle_offsets ::
  "rest_factory \<Rightarrow> nonbonded_force \<Rightarrow> nat \<Rightarrow> (string \<times> int \<times> real \<times> real \<times> real) list" where
  "particle_offsets self og_nb particle_idx =
     (case nb_particles og_nb ! particle_idx of
        (q, sigma, epsilon) \<Rightarrow>
          if get_identifier self (OneParticle (int particle_idx)) = 1 then []
          else [(''electrostatic_scale'', int particle_idx, q, 0, 0),
                (''steric_scale'', int particle_idx, 0, 0, epsilon)])"

fun exception_offsets ::
  "rest_factory \<Rightarrow> nat \<times> int \<times> int \<times> real \<times> real \<times> real \<Rightarrow>
     (string \<times> nat \<times> real \<times> real \<times> real) list" where
  "exception_offsets self (exc_idx, p1, p2, chargeProd, sigma, epsilon) =
     (let identifier = get_identifier self (Particles [p1, p2])
      in if identifier = 1 then []
         else if identifier = 0 then [(''steric_scale'', exc_idx, chargeProd, 0, epsilon)]
         else if identifier = 2 then [(''electrostatic_scale'', exc_idx, chargeProd, 0, epsilon)]
         else [])"

text \<open>
  The part of a factory that the methods called after \<^verbatim>\<open>_handle_constraints\<close> leave as it
  is, and the consistency of the dictionary of output forces with the output system: a
  class name refers to a force of the system, and two class names to two forces.
\<close>

definition frame where
  "frame self =
     (use_dispersion_correction self, num_particles self, og_system self, og_system_forces self,
      solute_region self, solvent_region self, nonbonded_method self,
      particles (out_system self), constraints (out_system self),
      default_periodic_box_vectors (out_system self))"

definition out_wf :: "rest_factory \<Rightarrow> bool" where
  "out_wf self =
     ((\<forall>n i. out_system_forces self n = Some i \<longrightarrow> i < length (forces (out_system self))) \<and>
      (\<forall>n m i. out_system_forces self n = Some i \<longrightarrow> out_system_forces self m = Some i \<longrightarrow> n = m))"

text \<open>
  \<open>updates self n g self'\<close>: from \<open>self\<close> to \<open>self'\<close> the force of class \<open>n\<close> has become \<open>g\<close>
  and nothing else of the frame and of the output forces has changed.
\<close>

definition updates :: "rest_factory \<Rightarrow> string \<Rightarrow> force \<Rightarrow> rest_factory \<Rightarrow> bool" where
  "updates self n g self' =
     (frame self' = frame self \<and> out_wf self' \<and> out_force self' = (out_force self)(n \<mapsto> g))"

section \<open>The assembled factory\<close>

text \<open>
  The custom force of a bonded kind as \<^verbatim>\<open>_add_*_force_terms\<close> creates it, the nonbonded
  force as \<^verbatim>\<open>_add_nonbonded_force_terms\<close> creates it and as \<^verbatim>\<open>_add_nonbondeds\<close> fills
  it, and the factory a successful \<^verbatim>\<open>__init__\<close> leaves behind.
\<close>

definition custom_force_0 :: "expression \<Rightarrow> string list \<Rightarrow> custom_force" where
  "custom_force_0 e ps = \<lparr>energy_function = e, per_term_parameters = ps,
     global_parameters = [(''solute_scale'', 1), (''inter_scale'', 1)], force_terms = []\<rparr>"

definition nonbonded_0 :: "rest_factory \<Rightarrow> nonbonded_force \<Rightarrow> nonbonded_force" where
  "nonbonded_0 self og_nb =
     (copy_nonbonded_settings (nonbonded_method self) og_nb NonbondedForce_new)
       \<lparr>nb_use_dispersion_correction :=
          nb_use_dispersion_correction og_nb \<and> use_dispersion_correction self,
        nb_global_parameters := [(''electrostatic_scale'', 0), (''steric_scale'', 0)]\<rparr>"

definition rewritten_nonbonded :: "rest_factory \<Rightarrow> nonbonded_force \<Rightarrow> nonbonded_force" where
  "rewritten_nonbonded self og_nb =
     (nonbonded_0 self og_nb)
       \<lparr>nb_particles := take (num_particles self) (nb_particles og_nb),
        particle_parameter_offsets :=
          concat (map (particle_offsets self og_nb) [0..<num_particles self]),
        nb_exceptions := nb_exceptions og_nb,
        exception_parameter_offsets :=
          concat (map (exception_offsets self) (enumerate 0 (nb_exceptions og_nb)))\<rparr>"

definition assembled ::
  "system \<Rightarrow> int list \<Rightarrow> bool \<Rightarrow> nonbonded_force \<Rightarrow> (int \<times> int \<times> real \<times> real) list \<Rightarrow>
   (int \<times> int \<times> int \<times> real \<times> real) list \<Rightarrow>
   (int \<times> int \<times> int \<times> int \<times> int \<times> real \<times> real) list \<Rightarrow> rest_factory \<Rightarrow> bool" where
  "assembled sys solute udc og_nb og_bonds og_angles og_torsions self =
     (use_dispersion_correction self = udc \<and>
      num_particles self = length (particles sys) \<and>
      og_system self = sys \<and>
      og_system_forces self = og_forces sys \<and>
      solute_region self = solute \<and>
      solvent_region self =
        filter (\<lambda>i. i \<notin> set solute) (map int [0..<length (particles sys)]) \<and>
      nonbonded_method self = nb_method og_nb \<and>
      particles (out_system self) = particles sys \<and>
      constraints (out_system self) = constraints sys \<and>
      default_periodic_box_vectors (out_system self) = default_periodic_box_vectors sys \<and>
      out_force self ''MonteCarloBarostat'' = og_forces sys ''MonteCarloBarostat'' \<and>
      out_force self ''CustomBondForce'' =
        Some (CustomBondForce
          ((custom_force_0 bond_energy_expression [''length'', ''k'', ''identifier''])
             \<lparr>force_terms := map (bond_term self) og_bonds\<rparr>)) \<and>
      out_force self ''CustomAngleForce'' =
        Some (CustomAngleForce
          ((custom_force_0 angle_energy_expression [''theta0'', ''k'', ''identifier''])
             \<lparr>force_terms := map (angle_term self) og_angles\<rparr>)) \<and>
      out_force self ''CustomTorsionForce'' =
        Some (CustomTorsionForce
          ((custom_force_0 torsion_energy_expression
              [''periodicity'', ''phase'', ''k'', ''identifier''])
             \<lparr>force_terms := map (torsion_term self) og_torsions\<rparr>)) \<and>
      out_force self ''NonbondedForce'' = Some (NonbondedForce (rewritten_nonbonded self og_nb)))"

section \<open>Statements about an assembly\<close>

text \<open>
  What \<^verbatim>\<open>__init__\<close> asks of the system it is given, beyond a valid solute region: a
  nonbonded, a bond, an angle and a torsion force (it looks each of them up without
  asking whether it is there; only the barostat is optional), no force of another class,
  and nonbonded parameters for each particle.
\<close>

definition equipped ::
  "system \<Rightarrow> nonbonded_force \<Rightarrow> (int \<times> int \<times> real \<times> real) list \<Rightarrow>
   (int \<times> int \<times> int \<times> real \<times> real) list \<Rightarrow>
   (int \<times> int \<times> int \<times> int \<times> int \<times> real \<times> real) list \<Rightarrow> bool" where
  "equipped sys og_nb og_bonds og_angles og_torsions =
     (og_forces sys ''NonbondedForce'' = Some (NonbondedForce og_nb) \<and>
      og_forces sys ''HarmonicBondForce'' = Some (HarmonicBondForce og_bonds) \<and>
      og_forces sys ''HarmonicAngleForce'' = Some (HarmonicAngleForce og_angles) \<and>
      og_forces sys ''PeriodicTorsionForce'' = Some (PeriodicTorsionForce og_torsions) \<and>
      dom (og_forces sys) \<subseteq> known_forces \<and>
      length (particles sys) \<le> length (nb_particles og_nb))"

definition valid_region :: "system \<Rightarrow> int list \<Rightarrow> bool" where
  "valid_region sys solute = (set solute \<subseteq> set (map int [0..<length (particles sys)]))"

text \<open>The offsets of the nonbonded force that belong to one particle or one exception.\<close>

definition offsets_of_particle ::
  "nonbonded_force \<Rightarrow> nat \<Rightarrow> (string \<times> int \<times> real \<times> real \<times> real) list" where
  "offsets_of_particle nb i =
     filter (\<lambda>offset. fst (snd offset) = int i) (particle_parameter_offsets nb)"

definition offsets_of_exception ::
  "nonbonded_force \<Rightarrow> nat \<Rightarrow> (string \<times> nat \<times> real \<times> real \<times> real) list" where
  "offsets_of_exception nb k =
     filter (\<lambda>offset. fst (snd offset) = k) (exception_parameter_offsets nb)"

text \<open>
  The stored identifier of a term of a custom force (its last per-term parameter), and
  the particles an exception is between.
\<close>

definition stored_identifiers :: "custom_force \<Rightarrow> real list" where
  "stored_identifiers cf = map (\<lambda>t. last (snd t)) (force_terms cf)"

definition exception_particles :: "int \<times> int \<times> real \<times> real \<times> real \<Rightarrow> int list" where
  "exception_particles e = [fst e, fst (snd e)]"

text \<open>
  The offsets as the specification words them: for a solute particle a steric offset of
  full sigma and epsilon; for a solute exception a steric offset on sigma and epsilon only,
  for an inter exception an electrostatic offset on the charge product only.
\<close>

definition spec_particle_offsets ::
  "nat \<Rightarrow> real \<times> real \<times> real \<Rightarrow> (string \<times> int \<times> real \<times> real \<times> real) list" where
  "spec_particle_offsets i p =
     [(''electrostatic_scale'', int i, fst p, 0, 0),
      (''steric_scale'', int i, 0, fst (snd p), snd (snd p))]"

definition spec_exception_offsets ::
  "int \<Rightarrow> nat \<Rightarrow> real \<times> real \<times> real \<Rightarrow> (string \<times> nat \<times> real \<times> real \<times> real) list" where
  "spec_exception_offsets category k p =
     (if category = SoluteOnly then [(''steric_scale'', k, 0, fst (snd p), snd (snd p))]
      else if category = Inter then [(''electrostatic_scale'', k, fst p, 0, 0)]
      else [])"

text \<open>
  The scale factor of a bonded term as the specification words it, and the specification's
  effective temperature.
\<close>

definition spec_scale_factor :: "(string \<Rightarrow> real) \<Rightarrow> int \<Rightarrow> real" where
  "spec_scale_factor context category =
     (if category = SoluteOnly then context ''solute_scale''
      else if category = SolventOnly then 1
      else context ''inter_scale'')"

definition spec_T :: "real \<Rightarrow> real \<Rightarrow> real \<Rightarrow> real" where
  "spec_T T_min T_max lam =
     (if lam \<le> 0.5 then T_min + (T_max - T_min) * (exp (2 * lam) - 1) / (exp 1 - 1)
      else T_min + (T_max - T_min) * (exp (2 * (1 - lam)) - 1) / (exp 1 - 1))"

text \<open>
  The particles of a bonded term, and the energy of a bond, an angle and a torsion whose
  force constant is multiplied by a scale factor, as the specification words it:
  \<open>E = (K/2)*(x - x0)^2\<close> and \<open>E = K*(1 + cos(periodicity*x - phase))\<close> with
  \<open>K = k_original * scale_factor\<close>.
\<close>

definition bond_particles :: "int \<times> int \<times> real \<times> real \<Rightarrow> int list" where
  "bond_particles b = [fst b, fst (snd b)]"

definition angle_particles :: "int \<times> int \<times> int \<times> real \<times> real \<Rightarrow> int list" where
  "angle_particles a = [fst a, fst (snd a), fst (snd (snd a))]"

definition torsion_particles ::
  "int \<times> int \<times> int \<times> int \<times> int \<times> real \<times> real \<Rightarrow> int list" where
  "torsion_particles t = [fst t, fst (snd t), fst (snd (snd t)), fst (snd (snd (snd t)))]"

fun spec_bond_energy :: "real \<Rightarrow> int \<times> int \<times> real \<times> real \<Rightarrow> real \<Rightarrow> real" where
  "spec_bond_energy scale_factor (p1, p2, len, k) r = ((k * scale_factor) / 2) * (r - len) ^ 2"

fun spec_angle_energy :: "real \<Rightarrow> int \<times> int \<times> int \<times> real \<times> real \<Rightarrow> real \<Rightarrow> real" where
  "spec_angle_energy scale_factor (p1, p2, p3, theta0, k) theta =
     ((k * scale_factor) / 2) * (theta - theta0) ^ 2"

fun spec_torsion_energy ::
  "real \<Rightarrow> int \<times> int \<times> int \<times> int \<times> int \<times> real \<times> real \<Rightarrow> real \<Rightarrow> real" where
  "spec_torsion_energy scale_factor (p1, p2, p3, p4, per, phase, k) theta =
     (k * scale_factor) * (1 + cos (real_of_int per * theta - phase))"

text \<open>The terms of a system refer to its particles.\<close>

definition valid_terms ::
  "system \<Rightarrow> nonbonded_force \<Rightarrow> (int \<times> int \<times> real \<times> real) list \<Rightarrow>
   (int \<times> int \<times> int \<times> real \<times> real) list \<Rightarrow>
   (int \<times> int \<times> int \<times> int \<times> int \<times> real \<times> real) list \<Rightarrow> bool" where
  "valid_terms sys og_nb og_bonds og_angles og_torsions =
     (let valid = (\<lambda>p. 0 \<le> p \<and> p < int (length (particles sys)))
      in list_all (\<lambda>(p1, p2, len, k). valid p1 \<and> valid p2) og_bonds \<and>
         list_all (\<lambda>(p1, p2, p3, theta0, k). valid p1 \<and> valid p2 \<and> valid p3) og_angles \<and>
         list_all (\<lambda>(p1, p2, p3, p4, per, phase, k). valid p1 \<and> valid p2 \<and> valid p3 \<and> valid p4)
           og_torsions \<and>
         list_all (\<lambda>(p1, p2, chargeProd, sigma, epsilon). valid p1 \<and> valid p2)
           (nb_exceptions og_nb))"

subsection \<open>Example systems\<close>

text \<open>
  Four particles, of which the first two are the solute of the examples; three bonds and
  three exceptions (inside the solute, across, and inside the solvent), an angle and a
  torsion. The reference context holds the values at which nothing is scaled, the tempered
  context those of a temperature four times the minimal one.
\<close>

definition example_nonbonded :: nonbonded_force where
  "example_nonbonded = NonbondedForce_new
     \<lparr>nb_particles := [(1 / 2, 3 / 10, 2 / 5), (- 1 / 2, 1 / 4, 1 / 5), (0, 3 / 10, 3 / 5), (0, 1 / 10, 1 / 10)],
      nb_exceptions := [(0, 1, - 1 / 8, 3 / 10, 1 / 5), (1, 2, - 1 / 10, 1 / 4, 1 / 3), (2, 3, 0, 1 / 5, 0)]\<rparr>"

definition example_bonds :: "(int \<times> int \<times> real \<times> real) list" where
  "example_bonds = [(0, 1, 3 / 20, 1000), (1, 2, 1 / 10, 2000), (2, 3, 1 / 10, 3000)]"

definition example_angles :: "(int \<times> int \<times> int \<times> real \<times> real) list" where
  "example_angles = [(0, 1, 2, 19 / 10, 400)]"

definition example_torsions :: "(int \<times> int \<times> int \<times> int \<times> int \<times> real \<times> real) list" where
  "example_torsions = [(0, 1, 2, 3, 2, 3, 5)]"

definition example_system :: system where
  "example_system =
     \<lparr>particles = [12, 1, 16, 1], constraints = [(2, 3, 1 / 10)],
      forces = [HarmonicBondForce example_bonds, HarmonicAngleForce example_angles,
                PeriodicTorsionForce example_torsions, NonbondedForce example_nonbonded,
                MonteCarloBarostat (1, 300, 50)],
      default_periodic_box_vectors = ((3, 0, 0), (0, 3, 0), (0, 0, 3))\<rparr>"

text \<open>The same system with a force of an unknown class, and one without a nonbonded force.\<close>

definition unknown_force_system :: system where
  "unknown_force_system =
     example_system\<lparr>forces := forces example_system @ [OtherForce ''CMMotionRemover'']\<rparr>"

definition no_nonbonded_system :: system where
  "no_nonbonded_system =
     \<lparr>particles = [12, 1], constraints = [],
      forces = [HarmonicBondForce [(0, 1, 3 / 20, 1000)], HarmonicAngleForce [],
                PeriodicTorsionForce []],
      default_periodic_box_vectors = ((3, 0, 0), (0, 3, 0), (0, 0, 3))\<rparr>"

definition tempered_context :: "string \<Rightarrow> real" where
  "tempered_context name =
     (if name = ''solute_scale'' then 1 / 4 else if name = ''inter_scale'' then 1 / 2
      else if name = ''steric_scale'' then - 3 / 4 else - 1 / 2)"


section \<open>The methods, step by step\<close>


lemma og_forces_type_name: "og_forces sys n = Some f \<Longrightarrow> type_name f = n"
proof -
  have "map_of (rev (map (\<lambda>f. (type_name f, f)) fs)) n = Some f \<Longrightarrow> type_name f = n" for fs
    by (induction fs) (auto split: if_splits)
  then show "og_forces sys n = Some f \<Longrightarrow> type_name f = n" by (simp add: og_forces_def)
qed

lemma get_identifier_frame: "frame a = frame b \<Longrightarrow> get_identifier a = get_identifier b"
proof (rule ext)
  fix p assume "frame a = frame b"
  then show "get_identifier a p = get_identifier b p" by (cases p) (simp_all add: frame_def)
qed

lemma bond_term_frame: "frame a = frame b \<Longrightarrow> bond_term a = bond_term b"
proof (rule ext)
  fix x assume "frame a = frame b"
  then have "get_identifier a = get_identifier b" by (rule get_identifier_frame)
  then show "bond_term a x = bond_term b x" by (cases x) (simp del: get_identifier.simps)
qed

lemma angle_term_frame: "frame a = frame b \<Longrightarrow> angle_term a = angle_term b"
proof (rule ext)
  fix x assume "frame a = frame b"
  then have "get_identifier a = get_identifier b" by (rule get_identifier_frame)
  then show "angle_term a x = angle_term b x" by (cases x) (simp del: get_identifier.simps)
qed

lemma torsion_term_frame: "frame a = frame b \<Longrightarrow> torsion_term a = torsion_term b"
proof (rule ext)
  fix x assume "frame a = frame b"
  then have "get_identifier a = get_identifier b" by (rule get_identifier_frame)
  then show "torsion_term a x = torsion_term b x" by (cases x) (simp del: get_identifier.simps)
qed

lemma particle_offsets_frame: "frame a = frame b \<Longrightarrow> particle_offsets a = particle_offsets b"
proof (intro ext)
  fix og i assume "frame a = frame b"
  then have "get_identifier a = get_identifier b" by (rule get_identifier_frame)
  then show "particle_offsets a og i = particle_offsets b og i"
    by (simp add: particle_offsets_def del: get_identifier.simps)
qed

lemma exception_offsets_frame: "frame a = frame b \<Longrightarrow> exception_offsets a = exception_offsets b"
proof (rule ext)
  fix x assume "frame a = frame b"
  then have "get_identifier a = get_identifier b" by (rule get_identifier_frame)
  then show "exception_offsets a x = exception_offsets b x"
    by (cases x) (simp del: get_identifier.simps)
qed

lemma updates_trans: "updates a n g b \<Longrightarrow> updates b n g' c \<Longrightarrow> updates a n g' c"
  by (simp add: updates_def)

lemma updates_refl: "out_wf a \<Longrightarrow> out_force a n = Some g \<Longrightarrow> updates a n g a"
  by (simp add: updates_def fun_upd_idem)

lemma updates_out_force: "updates a n g b \<Longrightarrow> out_force b n = Some g"
  by (simp add: updates_def)

lemma updates_out_wf: "updates a n g b \<Longrightarrow> out_wf b"
  by (simp add: updates_def)

lemma updates_frame: "updates a n g b \<Longrightarrow> frame b = frame a"
  by (simp add: updates_def)

lemma call_out_force_spec:
  assumes "out_wf self" "out_force self n = Some g" "meth g = Inr (r, g')"
  shows "\<exists>self'. call_out_force n meth self = Inr (r, self') \<and> updates self n g' self'"
proof -
  from assms(2) obtain idx where idx: "out_system_forces self n = Some idx"
    and g: "forces (out_system self) ! idx = g"
    by (auto simp: out_force_def)
  from assms(1) idx have lt: "idx < length (forces (out_system self))"
    by (auto simp: out_wf_def)
  let ?self' = "self\<lparr>out_system := (out_system self)\<lparr>forces := (forces (out_system self))[idx := g']\<rparr>\<rparr>"
  have 1: "call_out_force n meth self = Inr (r, ?self')"
    using idx g assms(3) by (simp add: call_out_force_def)
  have 2: "frame ?self' = frame self" by (simp add: frame_def)
  have 3: "out_wf ?self'" using assms(1) by (simp add: out_wf_def)
  have 4: "out_force ?self' = (out_force self)(n \<mapsto> g')"
  proof (rule ext)
    fix m
    show "out_force ?self' m = ((out_force self)(n \<mapsto> g')) m"
    proof (cases "m = n")
      case True
      then show ?thesis using idx lt by (simp add: out_force_def)
    next
      case False
      show ?thesis
      proof (cases "out_system_forces self m")
        case None
        then show ?thesis using False by (simp add: out_force_def)
      next
        case (Some j)
        with idx False assms(1) have "j \<noteq> idx" by (auto simp: out_wf_def)
        then show ?thesis using False Some by (simp add: out_force_def)
      qed
    qed
  qed
  from 1 2 3 4 show ?thesis by (intro exI[of _ ?self']) (simp add: updates_def)
qed

lemma call_out_force_unit_spec:
  assumes "out_wf self" "out_force self n = Some g" "meth g = Inr ((), g')"
  shows "\<exists>self'. call_out_force_unit n meth self = Inr self' \<and> updates self n g' self'"
  using call_out_force_spec[of self n g meth "()" g'] assms
  by (auto simp: call_out_force_unit_def)

lemma call_chain:
  assumes "updates a n g b" "meth g = Inr ((), g')"
  shows "\<exists>c. call_out_force_unit n meth b = Inr c \<and> updates a n g' c"
proof -
  from call_out_force_unit_spec[of b n g meth g'] updates_out_wf[OF assms(1)]
    updates_out_force[OF assms(1)] assms(2)
  obtain c where "call_out_force_unit n meth b = Inr c" "updates b n g' c" by blast
  with assms(1) show ?thesis by (blast intro: updates_trans)
qed

lemma install_force_spec:
  assumes "out_wf self"
  shows "frame (install_force f self) = frame self \<and> out_wf (install_force f self) \<and>
     out_force (install_force f self) = (out_force self)(type_name f \<mapsto> f)"
proof -
  have "out_force (install_force f self) m = ((out_force self)(type_name f \<mapsto> f)) m" for m
    using assms by (cases "out_system_forces self m")
      (auto simp: install_force_def addForce_def out_force_def out_wf_def nth_append)
  moreover have "out_wf (install_force f self)"
    using assms by (fastforce simp: install_force_def addForce_def out_wf_def less_Suc_eq split: if_splits)
  ultimately show ?thesis
    by (auto simp: install_force_def addForce_def frame_def)
qed

lemma install_force_updates: "out_wf self \<Longrightarrow> updates self (type_name f) f (install_force f self)"
  using install_force_spec[of self f] by (simp add: updates_def)

lemma add_bonds_loop_spec:
  assumes "out_wf self" "out_force self ''CustomBondForce'' = Some (CustomBondForce cf)"
  shows "\<exists>self'. add_bonds_loop bs self = Inr self' \<and>
     updates self ''CustomBondForce''
       (CustomBondForce (cf\<lparr>force_terms := force_terms cf @ map (bond_term self) bs\<rparr>)) self'"
  using assms
proof (induction bs arbitrary: self cf)
  case Nil
  then show ?case by (simp add: updates_refl)
next
  case (Cons b bs)
  obtain p1 p2 len k where b: "b = (p1, p2, len, k)" by (cases b) auto
  let ?cf1 = "cf\<lparr>force_terms := force_terms cf @ [bond_term self b]\<rparr>"
  let ?m = "addBond p1 p2 [len, k, real_of_int (get_identifier self (Particles [p1, p2]))]"
  have "?m (CustomBondForce cf) = Inr ((), CustomBondForce ?cf1)"
    by (simp add: b del: get_identifier.simps)
  with call_out_force_unit_spec[of self "''CustomBondForce''" "CustomBondForce cf" ?m "CustomBondForce ?cf1"]
    Cons.prems
  obtain s1 where s1: "call_out_force_unit ''CustomBondForce'' ?m self = Inr s1"
    and u1: "updates self ''CustomBondForce'' (CustomBondForce ?cf1) s1"
    by blast
  from Cons.IH[OF updates_out_wf[OF u1] updates_out_force[OF u1]]
  obtain s2 where s2: "add_bonds_loop bs s1 = Inr s2"
    and u2: "updates s1 ''CustomBondForce''
        (CustomBondForce (?cf1\<lparr>force_terms := force_terms ?cf1 @ map (bond_term s1) bs\<rparr>)) s2"
    by blast
  have bt: "bond_term s1 = bond_term self"
    by (rule bond_term_frame[OF updates_frame[OF u1]])
  have run: "add_bonds_loop (b # bs) self = Inr s2"
    using s1 s2 by (simp add: b Let_def del: get_identifier.simps)
  have "updates self ''CustomBondForce''
        (CustomBondForce (cf\<lparr>force_terms := force_terms cf @ map (bond_term self) (b # bs)\<rparr>)) s2"
    using updates_trans[OF u1 u2] unfolding bt by simp
  with run show ?case by blast
qed

lemma add_angles_loop_spec:
  assumes "out_wf self" "out_force self ''CustomAngleForce'' = Some (CustomAngleForce cf)"
  shows "\<exists>self'. add_angles_loop bs self = Inr self' \<and>
     updates self ''CustomAngleForce''
       (CustomAngleForce (cf\<lparr>force_terms := force_terms cf @ map (angle_term self) bs\<rparr>)) self'"
  using assms
proof (induction bs arbitrary: self cf)
  case Nil
  then show ?case by (simp add: updates_refl)
next
  case (Cons b bs)
  obtain p1 p2 p3 theta0 k where b: "b = (p1, p2, p3, theta0, k)" by (cases b) auto
  let ?cf1 = "cf\<lparr>force_terms := force_terms cf @ [angle_term self b]\<rparr>"
  let ?m = "addAngle p1 p2 p3 [theta0, k, real_of_int (get_identifier self (Particles [p1, p2, p3]))]"
  have "?m (CustomAngleForce cf) = Inr ((), CustomAngleForce ?cf1)"
    by (simp add: b del: get_identifier.simps)
  with call_out_force_unit_spec[of self "''CustomAngleForce''" "CustomAngleForce cf" ?m "CustomAngleForce ?cf1"]
    Cons.prems
  obtain s1 where s1: "call_out_force_unit ''CustomAngleForce'' ?m self = Inr s1"
    and u1: "updates self ''CustomAngleForce'' (CustomAngleForce ?cf1) s1"
    by blast
  from Cons.IH[OF updates_out_wf[OF u1] updates_out_force[OF u1]]
  obtain s2 where s2: "add_angles_loop bs s1 = Inr s2"
    and u2: "updates s1 ''CustomAngleForce''
        (CustomAngleForce (?cf1\<lparr>force_terms := force_terms ?cf1 @ map (angle_term s1) bs\<rparr>)) s2"
    by blast
  have bt: "angle_term s1 = angle_term self"
    by (rule angle_term_frame[OF updates_frame[OF u1]])
  have run: "add_angles_loop (b # bs) self = Inr s2"
    using s1 s2 by (simp add: b Let_def del: get_identifier.simps)
  have "updates self ''CustomAngleForce''
        (CustomAngleForce (cf\<lparr>force_terms := force_terms cf @ map (angle_term self) (b # bs)\<rparr>)) s2"
    using updates_trans[OF u1 u2] unfolding bt by simp
  with run show ?case by blast
qed

lemma add_torsions_loop_spec:
  assumes "out_wf self" "out_force self ''CustomTorsionForce'' = Some (CustomTorsionForce cf)"
  shows "\<exists>self'. add_torsions_loop bs self = Inr self' \<and>
     updates self ''CustomTorsionForce''
       (CustomTorsionForce (cf\<lparr>force_terms := force_terms cf @ map (torsion_term self) bs\<rparr>)) self'"
  using assms
proof (induction bs arbitrary: self cf)
  case Nil
  then show ?case by (simp add: updates_refl)
next
  case (Cons b bs)
  obtain p1 p2 p3 p4 per phase k where b: "b = (p1, p2, p3, p4, per, phase, k)" by (cases b) auto
  let ?cf1 = "cf\<lparr>force_terms := force_terms cf @ [torsion_term self b]\<rparr>"
  let ?m = "addTorsion p1 p2 p3 p4
     [real_of_int per, phase, k, real_of_int (get_identifier self (Particles [p1, p2, p3, p4]))]"
  have "?m (CustomTorsionForce cf) = Inr ((), CustomTorsionForce ?cf1)"
    by (simp add: b del: get_identifier.simps)
  with call_out_force_unit_spec[of self "''CustomTorsionForce''" "CustomTorsionForce cf" ?m "CustomTorsionForce ?cf1"]
    Cons.prems
  obtain s1 where s1: "call_out_force_unit ''CustomTorsionForce'' ?m self = Inr s1"
    and u1: "updates self ''CustomTorsionForce'' (CustomTorsionForce ?cf1) s1"
    by blast
  from Cons.IH[OF updates_out_wf[OF u1] updates_out_force[OF u1]]
  obtain s2 where s2: "add_torsions_loop bs s1 = Inr s2"
    and u2: "updates s1 ''CustomTorsionForce''
        (CustomTorsionForce (?cf1\<lparr>force_terms := force_terms ?cf1 @ map (torsion_term s1) bs\<rparr>)) s2"
    by blast
  have bt: "torsion_term s1 = torsion_term self"
    by (rule torsion_term_frame[OF updates_frame[OF u1]])
  have run: "add_torsions_loop (b # bs) self = Inr s2"
    using s1 s2 by (simp add: b Let_def del: get_identifier.simps)
  have "updates self ''CustomTorsionForce''
        (CustomTorsionForce (cf\<lparr>force_terms := force_terms cf @ map (torsion_term self) (b # bs)\<rparr>)) s2"
    using updates_trans[OF u1 u2] unfolding bt by simp
  with run show ?case by blast
qed

lemma particle_body_spec:
  assumes "out_wf self" "out_force self ''NonbondedForce'' = Some (NonbondedForce nb)"
    and "nb_particles og_nb ! i = (q, sigma, epsilon)"
  shows "\<exists>self'.
     (if get_identifier self (OneParticle (int i)) = 1 then
        call_out_force_unit ''NonbondedForce'' (addNonbondedParticle q sigma epsilon) self
      else
        run_steps
          [call_out_force_unit ''NonbondedForce'' (addNonbondedParticle q sigma epsilon),
           call_out_force_unit ''NonbondedForce''
             (addParticleParameterOffset ''electrostatic_scale'' (int i) q (0 * sigma) (epsilon * 0)),
           call_out_force_unit ''NonbondedForce''
             (addParticleParameterOffset ''steric_scale'' (int i) (q * 0) (0 * sigma) epsilon)]
          self) = Inr self' \<and>
     updates self ''NonbondedForce''
       (NonbondedForce (nb\<lparr>nb_particles := nb_particles nb @ [nb_particles og_nb ! i],
          particle_parameter_offsets :=
            particle_parameter_offsets nb @ particle_offsets self og_nb i\<rparr>)) self'"
proof -
  let ?nb1 = "nb\<lparr>nb_particles := nb_particles nb @ [(q, sigma, epsilon)]\<rparr>"
  have m1: "addNonbondedParticle q sigma epsilon (NonbondedForce nb) = Inr ((), NonbondedForce ?nb1)"
    by simp
  from call_out_force_unit_spec[of self "''NonbondedForce''" "NonbondedForce nb"
      "addNonbondedParticle q sigma epsilon" "NonbondedForce ?nb1"] assms(1,2) m1
  obtain s1 where s1: "call_out_force_unit ''NonbondedForce''
       (addNonbondedParticle q sigma epsilon) self = Inr s1"
    and u1: "updates self ''NonbondedForce'' (NonbondedForce ?nb1) s1"
    by blast
  show ?thesis
  proof (cases "get_identifier self (OneParticle (int i)) = 1")
    case True
    have "?nb1 = nb\<lparr>nb_particles := nb_particles nb @ [nb_particles og_nb ! i],
          particle_parameter_offsets :=
            particle_parameter_offsets nb @ particle_offsets self og_nb i\<rparr>"
      using True assms(3) by (simp add: particle_offsets_def del: get_identifier.simps)
    with True s1 u1 show ?thesis by (auto simp del: get_identifier.simps)
  next
    case False
    let ?nb2 = "?nb1\<lparr>particle_parameter_offsets := particle_parameter_offsets ?nb1 @
        [(''electrostatic_scale'', int i, q, 0 * sigma, epsilon * 0)]\<rparr>"
    let ?nb3 = "?nb2\<lparr>particle_parameter_offsets := particle_parameter_offsets ?nb2 @
        [(''steric_scale'', int i, q * 0, 0 * sigma, epsilon)]\<rparr>"
    have m2: "addParticleParameterOffset ''electrostatic_scale'' (int i) q (0 * sigma) (epsilon * 0)
        (NonbondedForce ?nb1) = Inr ((), NonbondedForce ?nb2)"
      by simp
    from call_chain[where meth = "addParticleParameterOffset ''electrostatic_scale'' (int i) q (0 * sigma) (epsilon * 0)", OF u1 m2] obtain s2 where s2: "call_out_force_unit ''NonbondedForce''
        (addParticleParameterOffset ''electrostatic_scale'' (int i) q (0 * sigma) (epsilon * 0)) s1 = Inr s2"
      and u2: "updates self ''NonbondedForce'' (NonbondedForce ?nb2) s2"
      by blast
    have m3: "addParticleParameterOffset ''steric_scale'' (int i) (q * 0) (0 * sigma) epsilon
        (NonbondedForce ?nb2) = Inr ((), NonbondedForce ?nb3)"
      by simp
    from call_chain[where meth = "addParticleParameterOffset ''steric_scale'' (int i) (q * 0) (0 * sigma) epsilon", OF u2 m3] obtain s3 where s3: "call_out_force_unit ''NonbondedForce''
        (addParticleParameterOffset ''steric_scale'' (int i) (q * 0) (0 * sigma) epsilon) s2 = Inr s3"
      and u3: "updates self ''NonbondedForce'' (NonbondedForce ?nb3) s3"
      by blast
    have "?nb3 = nb\<lparr>nb_particles := nb_particles nb @ [nb_particles og_nb ! i],
          particle_parameter_offsets :=
            particle_parameter_offsets nb @ particle_offsets self og_nb i\<rparr>"
      using False assms(3) by (simp add: particle_offsets_def del: get_identifier.simps)
    with False s1 s2 s3 u3 show ?thesis by (auto simp del: get_identifier.simps)
  qed
qed

lemma add_nonbonded_particles_loop_spec:
  assumes "out_wf self" "out_force self ''NonbondedForce'' = Some (NonbondedForce nb)"
    and "list_all (\<lambda>i. i < length (nb_particles og_nb)) idxs"
  shows "\<exists>self'. add_nonbonded_particles_loop og_nb idxs self = Inr self' \<and>
     updates self ''NonbondedForce''
       (NonbondedForce (nb\<lparr>nb_particles := nb_particles nb @ map ((!) (nb_particles og_nb)) idxs,
          particle_parameter_offsets :=
            particle_parameter_offsets nb @ concat (map (particle_offsets self og_nb) idxs)\<rparr>))
       self'"
  using assms
proof (induction idxs arbitrary: self nb)
  case Nil
  then show ?case by (simp add: updates_refl)
next
  case (Cons i idxs)
  obtain q sigma epsilon where p: "nb_particles og_nb ! i = (q, sigma, epsilon)"
    by (cases "nb_particles og_nb ! i") auto
  from Cons.prems(3) have lt: "i < length (nb_particles og_nb)"
    and rest: "list_all (\<lambda>i. i < length (nb_particles og_nb)) idxs" by simp_all
  let ?nb1 = "nb\<lparr>nb_particles := nb_particles nb @ [nb_particles og_nb ! i],
          particle_parameter_offsets :=
            particle_parameter_offsets nb @ particle_offsets self og_nb i\<rparr>"
  from particle_body_spec[OF Cons.prems(1) Cons.prems(2) p]
  obtain s1 where s1: "(if get_identifier self (OneParticle (int i)) = 1 then
        call_out_force_unit ''NonbondedForce'' (addNonbondedParticle q sigma epsilon) self
      else
        run_steps
          [call_out_force_unit ''NonbondedForce'' (addNonbondedParticle q sigma epsilon),
           call_out_force_unit ''NonbondedForce''
             (addParticleParameterOffset ''electrostatic_scale'' (int i) q (0 * sigma) (epsilon * 0)),
           call_out_force_unit ''NonbondedForce''
             (addParticleParameterOffset ''steric_scale'' (int i) (q * 0) (0 * sigma) epsilon)]
          self) = Inr s1"
    and u1: "updates self ''NonbondedForce'' (NonbondedForce ?nb1) s1"
    by blast
  from Cons.IH[OF updates_out_wf[OF u1] updates_out_force[OF u1] rest]
  obtain s2 where s2: "add_nonbonded_particles_loop og_nb idxs s1 = Inr s2"
    and u2: "updates s1 ''NonbondedForce''
       (NonbondedForce (?nb1\<lparr>nb_particles := nb_particles ?nb1 @ map ((!) (nb_particles og_nb)) idxs,
          particle_parameter_offsets :=
            particle_parameter_offsets ?nb1 @ concat (map (particle_offsets s1 og_nb) idxs)\<rparr>)) s2"
    by blast
  have po: "particle_offsets s1 = particle_offsets self"
    by (rule particle_offsets_frame[OF updates_frame[OF u1]])
  have run: "add_nonbonded_particles_loop og_nb (i # idxs) self = Inr s2"
    using s1 s2 lt p
    by (simp add: getParticleParameters_def Let_def del: get_identifier.simps run_steps.simps)
  have "updates self ''NonbondedForce''
       (NonbondedForce (nb\<lparr>nb_particles := nb_particles nb @ map ((!) (nb_particles og_nb)) (i # idxs),
          particle_parameter_offsets :=
            particle_parameter_offsets nb @ concat (map (particle_offsets self og_nb) (i # idxs))\<rparr>))
       s2"
    using updates_trans[OF u1 u2] unfolding po by simp
  with run show ?case by blast
qed

lemma add_nonbonded_exceptions_loop_spec:
  assumes "out_wf self" "out_force self ''NonbondedForce'' = Some (NonbondedForce nb)"
  shows "\<exists>self'. add_nonbonded_exceptions_loop excs self = Inr self' \<and>
     updates self ''NonbondedForce''
       (NonbondedForce (nb\<lparr>nb_exceptions := nb_exceptions nb @ excs,
          exception_parameter_offsets :=
            exception_parameter_offsets nb @
            concat (map (exception_offsets self) (enumerate (length (nb_exceptions nb)) excs))\<rparr>))
       self'"
  using assms
proof (induction excs arbitrary: self nb)
  case Nil
  then show ?case by (simp add: updates_refl)
next
  case (Cons e excs)
  obtain p1 p2 cp sigma epsilon where e: "e = (p1, p2, cp, sigma, epsilon)" by (cases e) auto
  let ?n = "length (nb_exceptions nb)"
  let ?nb1 = "nb\<lparr>nb_exceptions := nb_exceptions nb @ [e]\<rparr>"
  let ?nb2 = "?nb1\<lparr>exception_parameter_offsets :=
       exception_parameter_offsets nb @ exception_offsets self (?n, e)\<rparr>"
  let ?id = "get_identifier self (Particles [p1, p2])"
  have m1: "addException p1 p2 cp sigma epsilon (NonbondedForce nb) = Inr (?n, NonbondedForce ?nb1)"
    by (simp add: e)
  from call_out_force_spec[of self "''NonbondedForce''" "NonbondedForce nb"
      "addException p1 p2 cp sigma epsilon" ?n "NonbondedForce ?nb1"] Cons.prems m1
  obtain s1 where s1: "call_out_force ''NonbondedForce''
       (addException p1 p2 cp sigma epsilon) self = Inr (?n, s1)"
    and u1: "updates self ''NonbondedForce'' (NonbondedForce ?nb1) s1"
    by blast
  let ?body = "(if ?id = 1 then Inr s1
     else if ?id = 0 then
       call_out_force_unit ''NonbondedForce''
         (addExceptionParameterOffset ''steric_scale'' ?n cp (0 * sigma) epsilon) s1
     else if ?id = 2 then
       call_out_force_unit ''NonbondedForce''
         (addExceptionParameterOffset ''electrostatic_scale'' ?n cp (0 * sigma) epsilon) s1
     else Inr s1)"
  have "\<exists>s2. ?body = Inr s2 \<and> updates self ''NonbondedForce'' (NonbondedForce ?nb2) s2"
  proof -
    consider (solvent) "?id = 1" | (solute) "?id = 0" | (inter) "?id = 2"
      | (other) "?id \<noteq> 1" "?id \<noteq> 0" "?id \<noteq> 2" by blast
    then show ?thesis
    proof cases
      case solvent
      then have "?nb2 = ?nb1" by (simp add: e del: get_identifier.simps)
      with solvent u1 show ?thesis by (auto simp del: get_identifier.simps)
    next
      case solute
      have m: "addExceptionParameterOffset ''steric_scale'' ?n cp (0 * sigma) epsilon
          (NonbondedForce ?nb1) = Inr ((), NonbondedForce ?nb2)"
        using solute by (simp add: e del: get_identifier.simps)
      from call_chain[where meth = "addExceptionParameterOffset ''steric_scale'' ?n cp (0 * sigma) epsilon", OF u1 m] solute show ?thesis by (auto simp del: get_identifier.simps)
    next
      case inter
      have m: "addExceptionParameterOffset ''electrostatic_scale'' ?n cp (0 * sigma) epsilon
          (NonbondedForce ?nb1) = Inr ((), NonbondedForce ?nb2)"
        using inter by (simp add: e del: get_identifier.simps)
      from call_chain[where meth = "addExceptionParameterOffset ''electrostatic_scale'' ?n cp (0 * sigma) epsilon", OF u1 m] inter show ?thesis by (auto simp del: get_identifier.simps)
    next
      case other
      then have "?nb2 = ?nb1" by (simp add: e del: get_identifier.simps)
      with other u1 show ?thesis by (auto simp del: get_identifier.simps)
    qed
  qed
  then obtain s2 where s2: "?body = Inr s2"
    and u2: "updates self ''NonbondedForce'' (NonbondedForce ?nb2) s2" by blast
  from Cons.IH[OF updates_out_wf[OF u2] updates_out_force[OF u2]]
  obtain s3 where s3: "add_nonbonded_exceptions_loop excs s2 = Inr s3"
    and u3: "updates s2 ''NonbondedForce''
       (NonbondedForce (?nb2\<lparr>nb_exceptions := nb_exceptions ?nb2 @ excs,
          exception_parameter_offsets :=
            exception_parameter_offsets ?nb2 @
            concat (map (exception_offsets s2) (enumerate (length (nb_exceptions ?nb2)) excs))\<rparr>)) s3"
    by blast
  have eo: "exception_offsets s2 = exception_offsets self"
    by (rule exception_offsets_frame[OF updates_frame[OF u2]])
  have run: "add_nonbonded_exceptions_loop (e # excs) self = Inr s3"
    using s1 s2 s3 by (simp add: e Let_def del: get_identifier.simps)
  have "updates self ''NonbondedForce''
       (NonbondedForce (nb\<lparr>nb_exceptions := nb_exceptions nb @ (e # excs),
          exception_parameter_offsets :=
            exception_parameter_offsets nb @
            concat (map (exception_offsets self) (enumerate (length (nb_exceptions nb)) (e # excs)))\<rparr>))
       s3"
    using updates_trans[OF u2 u3] unfolding eo by (simp del: exception_offsets.simps)
  with run show ?case by blast
qed

lemma copy_particles_foldl:
  "og_system s = og \<Longrightarrow> n \<le> length (particles og) \<Longrightarrow>
   foldl (\<lambda>self particle_idx. self\<lparr>out_system :=
       snd (addParticle (particles (og_system self) ! particle_idx) (out_system self))\<rparr>) s [0..<n] =
   s\<lparr>out_system := (out_system s)\<lparr>particles := particles (out_system s) @ take n (particles og)\<rparr>\<rparr>"
proof (induction n)
  case 0
  then show ?case by simp
next
  case (Suc n)
  then show ?case by (simp add: addParticle_def take_Suc_conv_app_nth)
qed

lemma copy_particles_eq:
  "num_particles self = length (particles (og_system self)) \<Longrightarrow>
   copy_particles self = Inr (self\<lparr>out_system :=
     (out_system self)\<lparr>particles := particles (out_system self) @ particles (og_system self)\<rparr>\<rparr>)"
  using copy_particles_foldl[of self "og_system self" "num_particles self"]
  by (simp add: copy_particles_def)

lemma handle_constraints_foldl:
  "foldl (\<lambda>self (atom1, atom2, len).
      self\<lparr>out_system := addConstraint atom1 atom2 len (out_system self)\<rparr>) s cs =
   s\<lparr>out_system := (out_system s)\<lparr>constraints := constraints (out_system s) @ cs\<rparr>\<rparr>"
  by (induction cs arbitrary: s) (auto simp: addConstraint_def)

lemma handle_constraints_eq:
  "handle_constraints self = Inr (self\<lparr>out_system :=
     (out_system self)\<lparr>constraints := constraints (out_system self) @ constraints (og_system self)\<rparr>\<rparr>)"
  by (simp add: handle_constraints_def handle_constraints_foldl)

lemma out_view_global_params [simp]:
  "frame (self\<lparr>global_params := g\<rparr>) = frame self"
  "out_wf (self\<lparr>global_params := g\<rparr>) = out_wf self"
  "out_force (self\<lparr>global_params := g\<rparr>) = out_force self"
  by (simp_all add: frame_def out_wf_def out_force_def fun_eq_iff)

lemma updates_global_params:
  "updates a n g b \<Longrightarrow> updates a n g (b\<lparr>global_params := x\<rparr>)"
  by (simp add: updates_def)

lemma add_bond_force_terms_spec:
  assumes "out_wf self"
  shows "\<exists>self'. add_bond_force_terms self = Inr self' \<and>
     updates self ''CustomBondForce''
       (CustomBondForce (custom_force_0 bond_energy_expression [''length'', ''k'', ''identifier'']))
       self'"
proof -
  let ?f = "CustomBondForce (custom_force_0 bond_energy_expression [''length'', ''k'', ''identifier''])"
  let ?s = "self\<lparr>global_params := global_params self @ [''solute_scale'', ''inter_scale'']\<rparr>"
  have "add_bond_force_terms self = Inr (install_force ?f ?s)"
    by (simp add: add_bond_force_terms_def add_global_parameters_def addGlobalParameter_def
        addPerTermParameter_def CustomForce_new_def custom_force_0_def)
  moreover have "updates ?s (type_name ?f) ?f (install_force ?f ?s)"
    using assms by (intro install_force_updates) simp
  then have "updates self ''CustomBondForce'' ?f (install_force ?f ?s)"
    by (simp add: updates_def)
  ultimately show ?thesis by blast
qed

lemma add_angle_force_terms_spec:
  assumes "out_wf self"
  shows "\<exists>self'. add_angle_force_terms self = Inr self' \<and>
     updates self ''CustomAngleForce''
       (CustomAngleForce (custom_force_0 angle_energy_expression [''theta0'', ''k'', ''identifier'']))
       self'"
proof -
  let ?f = "CustomAngleForce (custom_force_0 angle_energy_expression [''theta0'', ''k'', ''identifier''])"
  let ?s = "self\<lparr>global_params := global_params self @ [''solute_scale'', ''inter_scale'']\<rparr>"
  have "add_angle_force_terms self = Inr (install_force ?f ?s)"
    by (simp add: add_angle_force_terms_def add_global_parameters_def addGlobalParameter_def
        addPerTermParameter_def CustomForce_new_def custom_force_0_def)
  moreover have "updates ?s (type_name ?f) ?f (install_force ?f ?s)"
    using assms by (intro install_force_updates) simp
  then have "updates self ''CustomAngleForce'' ?f (install_force ?f ?s)"
    by (simp add: updates_def)
  ultimately show ?thesis by blast
qed

lemma add_torsion_force_terms_spec:
  assumes "out_wf self"
  shows "\<exists>self'. add_torsion_force_terms self = Inr self' \<and>
     updates self ''CustomTorsionForce''
       (CustomTorsionForce (custom_force_0 torsion_energy_expression
          [''periodicity'', ''phase'', ''k'', ''identifier'']))
       self'"
proof -
  let ?f = "CustomTorsionForce (custom_force_0 torsion_energy_expression
          [''periodicity'', ''phase'', ''k'', ''identifier''])"
  let ?s = "self\<lparr>global_params := global_params self @ [''solute_scale'', ''inter_scale'']\<rparr>"
  have "add_torsion_force_terms self = Inr (install_force ?f ?s)"
    by (simp add: add_torsion_force_terms_def add_global_parameters_def addGlobalParameter_def
        addPerTermParameter_def CustomForce_new_def custom_force_0_def)
  moreover have "updates ?s (type_name ?f) ?f (install_force ?f ?s)"
    using assms by (intro install_force_updates) simp
  then have "updates self ''CustomTorsionForce'' ?f (install_force ?f ?s)"
    by (simp add: updates_def)
  ultimately show ?thesis by blast
qed

lemma add_bonds_spec:
  assumes "out_wf self" "out_force self ''CustomBondForce'' = Some (CustomBondForce cf)"
    and "og_system_forces self ''HarmonicBondForce'' = Some (HarmonicBondForce bs)"
  shows "\<exists>self'. add_bonds self = Inr self' \<and>
     updates self ''CustomBondForce''
       (CustomBondForce (cf\<lparr>force_terms := force_terms cf @ map (bond_term self) bs\<rparr>)) self'"
  using add_bonds_loop_spec[OF assms(1,2)] assms(3) by (simp add: add_bonds_def)

lemma add_angles_spec:
  assumes "out_wf self" "out_force self ''CustomAngleForce'' = Some (CustomAngleForce cf)"
    and "og_system_forces self ''HarmonicAngleForce'' = Some (HarmonicAngleForce bs)"
  shows "\<exists>self'. add_angles self = Inr self' \<and>
     updates self ''CustomAngleForce''
       (CustomAngleForce (cf\<lparr>force_terms := force_terms cf @ map (angle_term self) bs\<rparr>)) self'"
  using add_angles_loop_spec[OF assms(1,2)] assms(3) by (simp add: add_angles_def)

lemma add_torsions_spec:
  assumes "out_wf self" "out_force self ''CustomTorsionForce'' = Some (CustomTorsionForce cf)"
    and "og_system_forces self ''PeriodicTorsionForce'' = Some (PeriodicTorsionForce bs)"
  shows "\<exists>self'. add_torsions self = Inr self' \<and>
     updates self ''CustomTorsionForce''
       (CustomTorsionForce (cf\<lparr>force_terms := force_terms cf @ map (torsion_term self) bs\<rparr>)) self'"
  using add_torsions_loop_spec[OF assms(1,2)] assms(3) by (simp add: add_torsions_def)

lemma install_force_replace:
  assumes "type_name g = type_name f"
  shows "(install_force f self)\<lparr>out_system := (out_system (install_force f self))
       \<lparr>forces := (forces (out_system (install_force f self)))
          [length (forces (out_system self)) := g]\<rparr>\<rparr> = install_force g self"
  using assms by (simp add: install_force_def addForce_def)

lemma copy_nonbonded_settings_lists:
  "nb_global_parameters (copy_nonbonded_settings m og nb) = nb_global_parameters nb"
  "nb_particles (copy_nonbonded_settings m og nb) = nb_particles nb"
  "particle_parameter_offsets (copy_nonbonded_settings m og nb) = particle_parameter_offsets nb"
  "nb_exceptions (copy_nonbonded_settings m og nb) = nb_exceptions nb"
  "exception_parameter_offsets (copy_nonbonded_settings m og nb) = exception_parameter_offsets nb"
  by (simp_all add: copy_nonbonded_settings_def Let_def)

lemma add_nonbonded_force_terms_spec:
  assumes "out_wf self"
    and "og_system_forces self ''NonbondedForce'' = Some (NonbondedForce og_nb)"
  shows "\<exists>self'. add_nonbonded_force_terms self = Inr self' \<and>
     updates self ''NonbondedForce'' (NonbondedForce (nonbonded_0 self og_nb)) self'"
proof -
  let ?nbc = "copy_nonbonded_settings (nonbonded_method self) og_nb NonbondedForce_new"
  let ?s1 = "install_force (NonbondedForce ?nbc) self"
  have u1: "updates self ''NonbondedForce'' (NonbondedForce ?nbc) ?s1"
    using install_force_updates[OF assms(1), of "NonbondedForce ?nbc"] by simp
  let ?d = "nb_use_dispersion_correction og_nb \<and> use_dispersion_correction self"
  let ?nb2 = "?nbc\<lparr>nb_use_dispersion_correction := ?d\<rparr>"
  let ?nb3 = "?nb2\<lparr>nb_global_parameters := nb_global_parameters ?nb2 @ [(''electrostatic_scale'', 0)]\<rparr>"
  let ?nb4 = "?nb3\<lparr>nb_global_parameters := nb_global_parameters ?nb3 @ [(''steric_scale'', 0)]\<rparr>"
  have m2: "setUseDispersionCorrection ?d (NonbondedForce ?nbc) = Inr ((), NonbondedForce ?nb2)"
    by simp
  from call_chain[where meth = "setUseDispersionCorrection ?d", OF u1 m2]
  obtain s2 where s2: "call_out_force_unit ''NonbondedForce'' (setUseDispersionCorrection ?d) ?s1 = Inr s2"
    and u2: "updates self ''NonbondedForce'' (NonbondedForce ?nb2) s2" by blast
  have m3: "addNonbondedGlobalParameter ''electrostatic_scale'' 0 (NonbondedForce ?nb2) =
      Inr ((), NonbondedForce ?nb3)" by simp
  from call_chain[where meth = "addNonbondedGlobalParameter ''electrostatic_scale'' 0", OF u2 m3]
  obtain s3 where s3: "call_out_force_unit ''NonbondedForce''
      (addNonbondedGlobalParameter ''electrostatic_scale'' 0) s2 = Inr s3"
    and u3: "updates self ''NonbondedForce'' (NonbondedForce ?nb3) s3" by blast
  let ?s4 = "s3\<lparr>global_params := global_params s3 @ [''electrostatic_scale'']\<rparr>"
  have u4: "updates self ''NonbondedForce'' (NonbondedForce ?nb3) ?s4"
    by (rule updates_global_params[OF u3])
  have m5: "addNonbondedGlobalParameter ''steric_scale'' 0 (NonbondedForce ?nb3) =
      Inr ((), NonbondedForce ?nb4)" by simp
  from call_chain[where meth = "addNonbondedGlobalParameter ''steric_scale'' 0", OF u4 m5]
  obtain s5 where s5: "call_out_force_unit ''NonbondedForce''
      (addNonbondedGlobalParameter ''steric_scale'' 0) ?s4 = Inr s5"
    and u5: "updates self ''NonbondedForce'' (NonbondedForce ?nb4) s5" by blast
  let ?s6 = "s5\<lparr>global_params := global_params s5 @ [''steric_scale'']\<rparr>"
  have u6: "updates self ''NonbondedForce'' (NonbondedForce ?nb4) ?s6"
    by (rule updates_global_params[OF u5])
  have nb4: "?nb4 = nonbonded_0 self og_nb"
    by (simp add: nonbonded_0_def copy_nonbonded_settings_lists NonbondedForce_new_def)
  have repl: "(install_force (NonbondedForce NonbondedForce_new) self)
      \<lparr>out_system := (out_system (install_force (NonbondedForce NonbondedForce_new) self))
       \<lparr>forces := (forces (out_system (install_force (NonbondedForce NonbondedForce_new) self)))
          [length (forces (out_system self)) := NonbondedForce ?nbc]\<rparr>\<rparr> = ?s1"
    by (rule install_force_replace) simp
  have "add_nonbonded_force_terms self =
     run_steps
       [call_out_force_unit ''NonbondedForce'' (setUseDispersionCorrection ?d),
        call_out_force_unit ''NonbondedForce''
          (addNonbondedGlobalParameter ''electrostatic_scale'' 0),
        append_global_param ''electrostatic_scale'',
        call_out_force_unit ''NonbondedForce''
          (addNonbondedGlobalParameter ''steric_scale'' 0),
        append_global_param ''steric_scale''] ?s1"
    using assms(2) unfolding repl[symmetric]
    by (simp add: add_nonbonded_force_terms_def install_force_def addForce_def
        del: run_steps.simps)
  also have "\<dots> = Inr ?s6"
    using s2 s3 s5 by (simp add: append_global_param_def)
  finally show ?thesis using u6 nb4 by auto
qed

lemma map_nth_upt_take: "n \<le> length xs \<Longrightarrow> map ((!) xs) [0..<n] = take n xs"
  by (rule nth_equalityI) simp_all

lemma add_nonbondeds_spec:
  assumes "out_wf self" "out_force self ''NonbondedForce'' = Some (NonbondedForce nb)"
    and "og_system_forces self ''NonbondedForce'' = Some (NonbondedForce og_nb)"
    and "num_particles self \<le> length (nb_particles og_nb)"
  shows "\<exists>self'. add_nonbondeds self = Inr self' \<and>
     updates self ''NonbondedForce''
       (NonbondedForce (nb\<lparr>nb_particles := nb_particles nb @ take (num_particles self) (nb_particles og_nb),
          particle_parameter_offsets := particle_parameter_offsets nb @
            concat (map (particle_offsets self og_nb) [0..<num_particles self]),
          nb_exceptions := nb_exceptions nb @ nb_exceptions og_nb,
          exception_parameter_offsets := exception_parameter_offsets nb @
            concat (map (exception_offsets self)
              (enumerate (length (nb_exceptions nb)) (nb_exceptions og_nb)))\<rparr>)) self'"
proof -
  let ?N = "num_particles self"
  let ?nb1 = "nb\<lparr>nb_particles := nb_particles nb @ map ((!) (nb_particles og_nb)) [0..<?N],
          particle_parameter_offsets :=
            particle_parameter_offsets nb @ concat (map (particle_offsets self og_nb) [0..<?N])\<rparr>"
  have "list_all (\<lambda>i. i < length (nb_particles og_nb)) [0..<?N]"
    using assms(4) by (simp add: list_all_iff)
  from add_nonbonded_particles_loop_spec[OF assms(1,2) this]
  obtain s1 where s1: "add_nonbonded_particles_loop og_nb [0..<?N] self = Inr s1"
    and u1: "updates self ''NonbondedForce'' (NonbondedForce ?nb1) s1" by blast
  from add_nonbonded_exceptions_loop_spec[OF updates_out_wf[OF u1] updates_out_force[OF u1],
      of "nb_exceptions og_nb"]
  obtain s2 where s2: "add_nonbonded_exceptions_loop (nb_exceptions og_nb) s1 = Inr s2"
    and u2: "updates s1 ''NonbondedForce''
       (NonbondedForce (?nb1\<lparr>nb_exceptions := nb_exceptions ?nb1 @ nb_exceptions og_nb,
          exception_parameter_offsets := exception_parameter_offsets ?nb1 @
            concat (map (exception_offsets s1)
              (enumerate (length (nb_exceptions ?nb1)) (nb_exceptions og_nb)))\<rparr>)) s2" by blast
  have eo: "exception_offsets s1 = exception_offsets self"
    by (rule exception_offsets_frame[OF updates_frame[OF u1]])
  have run: "add_nonbondeds self = Inr s2"
    using assms(3) s1 s2 by (simp add: add_nonbondeds_def)
  have "updates self ''NonbondedForce''
       (NonbondedForce (nb\<lparr>nb_particles := nb_particles nb @ take ?N (nb_particles og_nb),
          particle_parameter_offsets := particle_parameter_offsets nb @
            concat (map (particle_offsets self og_nb) [0..<?N]),
          nb_exceptions := nb_exceptions nb @ nb_exceptions og_nb,
          exception_parameter_offsets := exception_parameter_offsets nb @
            concat (map (exception_offsets self)
              (enumerate (length (nb_exceptions nb)) (nb_exceptions og_nb)))\<rparr>)) s2"
    using updates_trans[OF u1 u2] unfolding eo
    by (simp add: map_nth_upt_take[OF assms(4)])
  with run show ?thesis by blast
qed

lemma out_view_out_system [simp]:
  "out_wf (self\<lparr>out_system := (out_system self)\<lparr>particles := p\<rparr>\<rparr>) = out_wf self"
  "out_wf (self\<lparr>out_system := (out_system self)\<lparr>constraints := c\<rparr>\<rparr>) = out_wf self"
  "out_wf (self\<lparr>out_system := (out_system self)\<lparr>default_periodic_box_vectors := v\<rparr>\<rparr>) = out_wf self"
  "out_force (self\<lparr>out_system := (out_system self)\<lparr>particles := p\<rparr>\<rparr>) = out_force self"
  "out_force (self\<lparr>out_system := (out_system self)\<lparr>constraints := c\<rparr>\<rparr>) = out_force self"
  "out_force (self\<lparr>out_system := (out_system self)\<lparr>default_periodic_box_vectors := v\<rparr>\<rparr>) = out_force self"
  by (simp_all add: out_wf_def out_force_def fun_eq_iff)

lemma frame_fields:
  assumes "frame a = frame b"
  shows "use_dispersion_correction a = use_dispersion_correction b"
    "num_particles a = num_particles b" "og_system a = og_system b"
    "og_system_forces a = og_system_forces b" "solute_region a = solute_region b"
    "solvent_region a = solvent_region b" "nonbonded_method a = nonbonded_method b"
    "particles (out_system a) = particles (out_system b)"
    "constraints (out_system a) = constraints (out_system b)"
    "default_periodic_box_vectors (out_system a) = default_periodic_box_vectors (out_system b)"
  using assms by (simp_all add: frame_def)

lemma init_phase:
  fixes sys solute udc og_nb
  defines "s0 \<equiv> \<lparr>use_dispersion_correction = udc,
                   num_particles = length (particles sys),
                   og_system = sys,
                   og_system_forces = og_forces sys,
                   out_system_forces = Map.empty,
                   solute_region = solute,
                   solvent_region =
                     filter (\<lambda>i. i \<notin> set solute) (map int [0..<length (particles sys)]),
                   global_params = [],
                   nonbonded_method = nb_method og_nb,
                   out_system = System\<rparr>"
  assumes known: "dom (og_forces sys) \<subseteq> known_forces"
  shows "\<exists>s4. run_steps [copy_particles, copy_barostat, copy_box_vectors, check_unknown_forces,
            handle_constraints] s0 = Inr s4 \<and>
     out_wf s4 \<and>
     out_force s4 = Map.empty(''MonteCarloBarostat'' := og_forces sys ''MonteCarloBarostat'') \<and>
     frame s4 = (udc, length (particles sys), sys, og_forces sys, solute,
        filter (\<lambda>i. i \<notin> set solute) (map int [0..<length (particles sys)]), nb_method og_nb,
        particles sys, constraints sys, default_periodic_box_vectors sys)"
proof -
  let ?s1 = "s0\<lparr>out_system := (out_system s0)\<lparr>particles := particles (out_system s0) @ particles (og_system s0)\<rparr>\<rparr>"
  have c1: "copy_particles s0 = Inr ?s1"
    by (rule copy_particles_eq) (simp add: s0_def)
  have w0: "out_wf s0" by (simp add: out_wf_def s0_def)
  have o0: "out_force s0 = Map.empty" by (simp add: out_force_def s0_def fun_eq_iff)
  have w1: "out_wf ?s1" using w0 by simp
  have o1: "out_force ?s1 = Map.empty" using o0 by simp
  have f1: "frame ?s1 = (udc, length (particles sys), sys, og_forces sys, solute,
        filter (\<lambda>i. i \<notin> set solute) (map int [0..<length (particles sys)]), nb_method og_nb,
        particles sys, [], ((2, 0, 0), (0, 2, 0), (0, 0, 2)))"
    by (simp add: frame_def s0_def System_def)
  obtain s2 where c2: "copy_barostat ?s1 = Inr s2" and w2: "out_wf s2"
    and o2: "out_force s2 = Map.empty(''MonteCarloBarostat'' := og_forces sys ''MonteCarloBarostat'')"
    and f2: "frame s2 = frame ?s1"
  proof (cases "og_forces sys ''MonteCarloBarostat''")
    case None
    have "copy_barostat ?s1 = Inr ?s1" using None by (simp add: copy_barostat_def s0_def)
    moreover have "out_force ?s1 = Map.empty(''MonteCarloBarostat'' := og_forces sys ''MonteCarloBarostat'')"
      using o1 None by simp
    ultimately show ?thesis using that w1 by blast
  next
    case (Some b)
    then have tn: "type_name b = ''MonteCarloBarostat''" by (rule og_forces_type_name)
    have "copy_barostat ?s1 = Inr (install_force b ?s1)"
      using Some by (simp add: copy_barostat_def s0_def)
    moreover from install_force_spec[OF w1, of b]
    have "frame (install_force b ?s1) = frame ?s1" "out_wf (install_force b ?s1)"
      "out_force (install_force b ?s1) = (out_force ?s1)(type_name b \<mapsto> b)" by simp_all
    ultimately show ?thesis using that Some tn o1 by simp
  qed
  let ?s3 = "s2\<lparr>out_system := (out_system s2)\<lparr>default_periodic_box_vectors :=
       default_periodic_box_vectors (og_system s2)\<rparr>\<rparr>"
  have c3: "copy_box_vectors s2 = Inr ?s3" by (simp add: copy_box_vectors_def)
  have og2: "og_system s2 = sys" "og_system_forces s2 = og_forces sys"
    using frame_fields[OF f2] by (simp_all add: s0_def)
  have c4: "check_unknown_forces ?s3 = Inr ?s3"
    using known og2 by (auto simp: check_unknown_forces_def Let_def)
  let ?s4 = "?s3\<lparr>out_system := (out_system ?s3)\<lparr>constraints :=
       constraints (out_system ?s3) @ constraints (og_system ?s3)\<rparr>\<rparr>"
  have c5: "handle_constraints ?s3 = Inr ?s4" by (rule handle_constraints_eq)
  have w4: "out_wf ?s4" using w2 by (simp add: out_wf_def)
  have o4: "out_force ?s4 = out_force s2" by (simp add: out_force_def fun_eq_iff)
  have f4: "frame ?s4 = (udc, length (particles sys), sys, og_forces sys, solute,
        filter (\<lambda>i. i \<notin> set solute) (map int [0..<length (particles sys)]), nb_method og_nb,
        particles sys, constraints sys, default_periodic_box_vectors sys)"
    using f2 f1 by (simp add: frame_def s0_def System_def)
  have "run_steps [copy_particles, copy_barostat, copy_box_vectors, check_unknown_forces,
            handle_constraints] s0 = Inr ?s4"
    using c1 c2 c3 c4 c5 by simp
  with w4 o4 o2 f4 show ?thesis by (intro exI[of _ ?s4]) simp
qed

lemma run_steps_append:
  "run_steps (xs @ ys) s = (case run_steps xs s of Inl e \<Rightarrow> Inl e | Inr s' \<Rightarrow> run_steps ys s')"
  by (induction xs arbitrary: s) (auto split: sum.splits)

lemma assemble:
  assumes valid: "set solute \<subseteq> set (map int [0..<length (particles sys)])"
    and nbf: "og_forces sys ''NonbondedForce'' = Some (NonbondedForce og_nb)"
    and hbf: "og_forces sys ''HarmonicBondForce'' = Some (HarmonicBondForce og_bonds)"
    and haf: "og_forces sys ''HarmonicAngleForce'' = Some (HarmonicAngleForce og_angles)"
    and ptf: "og_forces sys ''PeriodicTorsionForce'' = Some (PeriodicTorsionForce og_torsions)"
    and known: "dom (og_forces sys) \<subseteq> known_forces"
    and enough: "length (particles sys) \<le> length (nb_particles og_nb)"
  shows "\<exists>self. RESTFactory sys solute udc = Inr self \<and>
     assembled sys solute udc og_nb og_bonds og_angles og_torsions self"
proof -
  define s0 where "s0 = \<lparr>use_dispersion_correction = udc,
                   num_particles = length (particles sys),
                   og_system = sys,
                   og_system_forces = og_forces sys,
                   out_system_forces = Map.empty,
                   solute_region = solute,
                   solvent_region =
                     filter (\<lambda>i. i \<notin> set solute) (map int [0..<length (particles sys)]),
                   global_params = [],
                   nonbonded_method = nb_method og_nb,
                   out_system = System\<rparr>"
  let ?first = "[copy_particles, copy_barostat, copy_box_vectors, check_unknown_forces,
            handle_constraints]"
  let ?second = "[add_bond_force_terms, add_bonds, add_angle_force_terms, add_angles,
                   add_torsion_force_terms, add_torsions, add_nonbonded_force_terms, add_nonbondeds]"
  have R: "RESTFactory sys solute udc = run_steps (?first @ ?second) s0"
    using valid nbf
    by (simp add: RESTFactory_def Let_def og_forces_def s0_def del: run_steps.simps)
  from init_phase[OF known, of udc solute og_nb]
  obtain s4 where r4: "run_steps ?first s0 = Inr s4" and w4: "out_wf s4"
    and o4: "out_force s4 = Map.empty(''MonteCarloBarostat'' := og_forces sys ''MonteCarloBarostat'')"
    and f4: "frame s4 = (udc, length (particles sys), sys, og_forces sys, solute,
        filter (\<lambda>i. i \<notin> set solute) (map int [0..<length (particles sys)]), nb_method og_nb,
        particles sys, constraints sys, default_periodic_box_vectors sys)"
    unfolding s0_def by blast
  \<comment> \<open>bonds\<close>
  let ?b0 = "custom_force_0 bond_energy_expression [''length'', ''k'', ''identifier'']"
  from add_bond_force_terms_spec[OF w4]
  obtain s5 where r5: "add_bond_force_terms s4 = Inr s5"
    and u5: "updates s4 ''CustomBondForce'' (CustomBondForce ?b0) s5" by blast
  have og5: "og_system_forces s5 = og_forces sys"
    using frame_fields(4)[OF updates_frame[OF u5]] f4 by (simp add: frame_def)
  from add_bonds_spec[OF updates_out_wf[OF u5] updates_out_force[OF u5], of og_bonds] og5 hbf
  obtain s6 where r6: "add_bonds s5 = Inr s6"
    and u6': "updates s5 ''CustomBondForce''
       (CustomBondForce (?b0\<lparr>force_terms := force_terms ?b0 @ map (bond_term s5) og_bonds\<rparr>)) s6"
    by auto
  have u6: "updates s4 ''CustomBondForce''
       (CustomBondForce (?b0\<lparr>force_terms := map (bond_term s5) og_bonds\<rparr>)) s6"
    using updates_trans[OF u5 u6'] by (simp add: custom_force_0_def)
  \<comment> \<open>angles\<close>
  let ?a0 = "custom_force_0 angle_energy_expression [''theta0'', ''k'', ''identifier'']"
  from add_angle_force_terms_spec[OF updates_out_wf[OF u6]]
  obtain s7 where r7: "add_angle_force_terms s6 = Inr s7"
    and u7: "updates s6 ''CustomAngleForce'' (CustomAngleForce ?a0) s7" by blast
  have f7: "frame s7 = frame s4"
    using updates_frame[OF u7] updates_frame[OF u6] by simp
  have og7: "og_system_forces s7 = og_forces sys"
    using frame_fields(4)[OF f7] f4 by (simp add: frame_def)
  from add_angles_spec[OF updates_out_wf[OF u7] updates_out_force[OF u7], of og_angles] og7 haf
  obtain s8 where r8: "add_angles s7 = Inr s8"
    and u8': "updates s7 ''CustomAngleForce''
       (CustomAngleForce (?a0\<lparr>force_terms := force_terms ?a0 @ map (angle_term s7) og_angles\<rparr>)) s8"
    by auto
  have u8: "updates s6 ''CustomAngleForce''
       (CustomAngleForce (?a0\<lparr>force_terms := map (angle_term s7) og_angles\<rparr>)) s8"
    using updates_trans[OF u7 u8'] by (simp add: custom_force_0_def)
  \<comment> \<open>torsions\<close>
  let ?t0 = "custom_force_0 torsion_energy_expression
      [''periodicity'', ''phase'', ''k'', ''identifier'']"
  from add_torsion_force_terms_spec[OF updates_out_wf[OF u8]]
  obtain s9 where r9: "add_torsion_force_terms s8 = Inr s9"
    and u9: "updates s8 ''CustomTorsionForce'' (CustomTorsionForce ?t0) s9" by blast
  have f9: "frame s9 = frame s4"
    using updates_frame[OF u9] updates_frame[OF u8] updates_frame[OF u6] by simp
  have og9: "og_system_forces s9 = og_forces sys"
    using frame_fields(4)[OF f9] f4 by (simp add: frame_def)
  from add_torsions_spec[OF updates_out_wf[OF u9] updates_out_force[OF u9], of og_torsions] og9 ptf
  obtain s10 where r10: "add_torsions s9 = Inr s10"
    and u10': "updates s9 ''CustomTorsionForce''
       (CustomTorsionForce (?t0\<lparr>force_terms := force_terms ?t0 @ map (torsion_term s9) og_torsions\<rparr>)) s10"
    by auto
  have u10: "updates s8 ''CustomTorsionForce''
       (CustomTorsionForce (?t0\<lparr>force_terms := map (torsion_term s9) og_torsions\<rparr>)) s10"
    using updates_trans[OF u9 u10'] by (simp add: custom_force_0_def)
  \<comment> \<open>nonbonded\<close>
  have f10: "frame s10 = frame s4"
    using updates_frame[OF u10] updates_frame[OF u8] updates_frame[OF u6] by simp
  have og10: "og_system_forces s10 = og_forces sys"
    using frame_fields(4)[OF f10] f4 by (simp add: frame_def)
  from add_nonbonded_force_terms_spec[OF updates_out_wf[OF u10], of og_nb] og10 nbf
  obtain s11 where r11: "add_nonbonded_force_terms s10 = Inr s11"
    and u11: "updates s10 ''NonbondedForce'' (NonbondedForce (nonbonded_0 s10 og_nb)) s11"
    by auto
  have f11: "frame s11 = frame s4"
    using updates_frame[OF u11] f10 by simp
  have og11: "og_system_forces s11 = og_forces sys" "num_particles s11 = length (particles sys)"
    using frame_fields[OF f11] f4 by (simp_all add: frame_def)
  from add_nonbondeds_spec[OF updates_out_wf[OF u11] updates_out_force[OF u11], of og_nb]
    og11 nbf enough
  obtain s12 where r12: "add_nonbondeds s11 = Inr s12"
    and u12': "updates s11 ''NonbondedForce''
       (NonbondedForce ((nonbonded_0 s10 og_nb)\<lparr>nb_particles :=
            nb_particles (nonbonded_0 s10 og_nb) @ take (num_particles s11) (nb_particles og_nb),
          particle_parameter_offsets := particle_parameter_offsets (nonbonded_0 s10 og_nb) @
            concat (map (particle_offsets s11 og_nb) [0..<num_particles s11]),
          nb_exceptions := nb_exceptions (nonbonded_0 s10 og_nb) @ nb_exceptions og_nb,
          exception_parameter_offsets := exception_parameter_offsets (nonbonded_0 s10 og_nb) @
            concat (map (exception_offsets s11)
              (enumerate (length (nb_exceptions (nonbonded_0 s10 og_nb))) (nb_exceptions og_nb)))\<rparr>))
       s12"
    by auto
  have f12: "frame s12 = frame s4"
    using updates_frame[OF u12'] f11 by simp
  \<comment> \<open>the frames agree, so the terms are those of the final object\<close>
  have fr: "frame s5 = frame s12" "frame s7 = frame s12" "frame s9 = frame s12"
    "frame s10 = frame s12" "frame s11 = frame s12"
    using f12 f11 f10 f9 f7 updates_frame[OF u5] by simp_all
  have n0: "nonbonded_0 s10 og_nb = nonbonded_0 s12 og_nb"
    using frame_fields[OF fr(4)] by (simp add: nonbonded_0_def)
  have np: "num_particles s11 = num_particles s12" using frame_fields[OF fr(5)] by simp
  have u12: "updates s10 ''NonbondedForce'' (NonbondedForce (rewritten_nonbonded s12 og_nb)) s12"
    using updates_trans[OF u11 u12']
    unfolding n0 np particle_offsets_frame[OF fr(5)] exception_offsets_frame[OF fr(5)]
    by (simp add: rewritten_nonbonded_def nonbonded_0_def copy_nonbonded_settings_lists
        NonbondedForce_new_def)
  have of12: "out_force s12 = (Map.empty(''MonteCarloBarostat'' := og_forces sys ''MonteCarloBarostat''))
      (''CustomBondForce'' \<mapsto> CustomBondForce (?b0\<lparr>force_terms := map (bond_term s12) og_bonds\<rparr>),
       ''CustomAngleForce'' \<mapsto> CustomAngleForce (?a0\<lparr>force_terms := map (angle_term s12) og_angles\<rparr>),
       ''CustomTorsionForce'' \<mapsto>
          CustomTorsionForce (?t0\<lparr>force_terms := map (torsion_term s12) og_torsions\<rparr>),
       ''NonbondedForce'' \<mapsto> NonbondedForce (rewritten_nonbonded s12 og_nb))"
    using u12 u10 u8 u6 o4
    unfolding bond_term_frame[OF fr(1)] angle_term_frame[OF fr(2)] torsion_term_frame[OF fr(3)]
    by (simp add: updates_def)
  have run: "RESTFactory sys solute udc = Inr s12"
    unfolding R run_steps_append using r4 r5 r6 r7 r8 r9 r10 r11 r12 by simp
  have "assembled sys solute udc og_nb og_bonds og_angles og_torsions s12"
    unfolding assembled_def of12 using frame_fields[OF f12] f4
    by (simp add: frame_def)
  with run show ?thesis by blast
qed

section \<open>The protocol\<close>

lemma temperature_at:
  "evaluate (at_lambda lam) (temperature_expression T_min T_max) = Some (spec_T T_min T_max lam)"
proof -
  have e: "exp (1::real) - 1 \<noteq> 0" by simp
  show ?thesis
  proof (cases "lam < 1 / 2")
    case True
    then show ?thesis using e
      by (simp add: temperature_expression_def base_temperature_expression_def at_lambda_def
          spec_T_def)
  next
    case False
    show ?thesis
    proof (cases "lam = 1 / 2")
      case True
      then show ?thesis using e
        by (simp add: temperature_expression_def base_temperature_expression_def at_lambda_def
            spec_T_def)
    next
      case False
      with \<open>\<not> lam < 1 / 2\<close> have "1 / 2 < lam" by simp
      then show ?thesis using e
        by (simp add: temperature_expression_def base_temperature_expression_def at_lambda_def
            spec_T_def)
    qed
  qed
qed

lemma spec_T_ends: "spec_T T_min T_max 0 = T_min" "spec_T T_min T_max 1 = T_min"
  "spec_T T_min T_max (1 / 2) = T_max"
  by (simp_all add: spec_T_def)

text \<open>
  Claim C6, amended. In exact real arithmetic, for every \<open>T_min < T_max\<close> with
  \<open>T_min \<noteq> 0\<close>, the four expressions of \<^verbatim>\<open>get_protocol(T_min, T_max)\<close> have at
  \<open>lambda = 0\<close> and at \<open>lambda = 1\<close> the values \<open>solute_scale = 1\<close>, \<open>inter_scale = 1\<close>,
  \<open>steric_scale = 0\<close> and \<open>electrostatic_scale = 0\<close>; the temperature expression has at
  \<open>lambda = 1/2\<close> the value \<open>T_max\<close>, and at every \<open>lambda\<close> the value of the
  specification's \<open>T(lambda)\<close>. The statement is about the values of the expressions as
  real numbers; it says nothing of rounding or overflow in double precision. At
  \<open>T_min = 0\<close> the temperature at the end points is 0 and the quotient \<open>T_min / T\<close> is
  \<open>0 / 0\<close>, which has no value in the reals: the value of \<open>solute_scale\<close> there is not 1.
\<close>

theorem protocol_boundary_values:
  assumes "T_min < T_max" and "T_min \<noteq> 0"
  shows "protocol_value (get_protocol T_min T_max) ''solute_scale'' 0 = Some 1 \<and>
         protocol_value (get_protocol T_min T_max) ''inter_scale'' 0 = Some 1 \<and>
         protocol_value (get_protocol T_min T_max) ''steric_scale'' 0 = Some 0 \<and>
         protocol_value (get_protocol T_min T_max) ''electrostatic_scale'' 0 = Some 0 \<and>
         protocol_value (get_protocol T_min T_max) ''solute_scale'' 1 = Some 1 \<and>
         protocol_value (get_protocol T_min T_max) ''inter_scale'' 1 = Some 1 \<and>
         protocol_value (get_protocol T_min T_max) ''steric_scale'' 1 = Some 0 \<and>
         protocol_value (get_protocol T_min T_max) ''electrostatic_scale'' 1 = Some 0 \<and>
         evaluate (at_lambda (1 / 2)) (temperature_expression T_min T_max) = Some T_max \<and>
         evaluate (at_lambda lam) (temperature_expression T_min T_max) =
           Some (spec_T T_min T_max lam)"
  using assms(2)
  by (simp add: protocol_value_def get_protocol_def temperature_at spec_T_ends)

theorem protocol_boundary_values_witness:
  "(300::real) < 1200 \<and> (300::real) \<noteq> 0 \<and>
   protocol_value (get_protocol 300 1200) ''solute_scale'' 0 = Some 1 \<and>
   protocol_value (get_protocol 300 1200) ''inter_scale'' 1 = Some 1 \<and>
   protocol_value (get_protocol 300 1200) ''steric_scale'' 0 = Some 0 \<and>
   protocol_value (get_protocol 300 1200) ''electrostatic_scale'' 1 = Some 0 \<and>
   evaluate (at_lambda (1 / 2)) (temperature_expression 300 1200) = Some 1200"
proof -
  have h1: "(300::real) < 1200" and h2: "(300::real) \<noteq> 0" by simp_all
  from protocol_boundary_values[OF h1 h2, of 0] h1 h2 show ?thesis by simp
qed

theorem protocol_zero_T_min_counterexample:
  "protocol_value (get_protocol 0 1) ''solute_scale'' 0 \<noteq> Some 1"
  by (simp add: protocol_value_def get_protocol_def temperature_at spec_T_ends)

text \<open>
  Claim C7, amended. \<^verbatim>\<open>get_protocol\<close> checks nothing: for every pair of temperatures,
  \<open>T_max \<le> T_min\<close> included, it raises no error and returns the dictionary of the four
  scale-factor expressions.
\<close>

theorem get_protocol_never_raises:
  "\<not> isl (get_protocol T_min T_max) \<and>
   dom (projr (get_protocol T_min T_max)) =
     {''solute_scale'', ''inter_scale'', ''steric_scale'', ''electrostatic_scale''}"
  by (auto simp: get_protocol_def)

theorem get_protocol_reversed_range_counterexample:
  "\<not> isl (get_protocol 400 300)"
  by (simp add: get_protocol_def)

section \<open>Assemblies\<close>

lemma assemble_equipped:
  assumes "valid_region sys solute" "equipped sys og_nb og_bonds og_angles og_torsions"
  shows "\<exists>self. RESTFactory sys solute udc = Inr self \<and>
     assembled sys solute udc og_nb og_bonds og_angles og_torsions self"
  using assms by (intro assemble) (simp_all add: valid_region_def equipped_def)

lemma example_equipped:
  "equipped example_system example_nonbonded example_bonds example_angles example_torsions"
  by (simp add: equipped_def og_forces_def example_system_def known_forces_def
      example_nonbonded_def dom_map_of_conv_image_fst)

lemma example_valid_region: "valid_region example_system [0, 1]"
  by (simp add: valid_region_def example_system_def)

lemma example_valid_empty_region: "valid_region example_system []"
  by (simp add: valid_region_def)

lemma get_identifier_particles:
  assumes "solvent_region self = filter (\<lambda>i. i \<notin> set (solute_region self)) (map int [0..<n])"
    and "ps \<noteq> []" and "set ps \<subseteq> set (map int [0..<n])"
  shows "(get_identifier self (Particles ps) = 1 \<longleftrightarrow> set ps \<subseteq> set (solvent_region self))"
    "(get_identifier self (Particles ps) = 0 \<longleftrightarrow> set ps \<subseteq> set (solute_region self))"
    "(get_identifier self (Particles ps) = 2 \<longleftrightarrow>
        \<not> set ps \<subseteq> set (solvent_region self) \<and> \<not> set ps \<subseteq> set (solute_region self))"
    "get_identifier self (Particles ps) = 2 \<Longrightarrow>
        (\<exists>a\<in>set ps. a \<in> set (solute_region self)) \<and> (\<exists>b\<in>set ps. b \<in> set (solvent_region self))"
proof -
  from assms(2) obtain x where x: "x \<in> set ps" by (cases ps) auto
  have disj: "set (solvent_region self) \<inter> set (solute_region self) = {}"
    using assms(1) by auto
  have cover: "set ps \<subseteq> set (solvent_region self) \<union> set (solute_region self)"
    using assms(1,3) by auto
  have not_both: "\<not> (set ps \<subseteq> set (solvent_region self) \<and> set ps \<subseteq> set (solute_region self))"
    using x disj by blast
  show "(get_identifier self (Particles ps) = 1 \<longleftrightarrow> set ps \<subseteq> set (solvent_region self))"
    by (auto simp: list_all_iff)
  show "(get_identifier self (Particles ps) = 0 \<longleftrightarrow> set ps \<subseteq> set (solute_region self))"
    using not_both by (auto simp: list_all_iff)
  show "(get_identifier self (Particles ps) = 2 \<longleftrightarrow>
        \<not> set ps \<subseteq> set (solvent_region self) \<and> \<not> set ps \<subseteq> set (solute_region self))"
    by (auto simp: list_all_iff)
  show "get_identifier self (Particles ps) = 2 \<Longrightarrow>
        (\<exists>a\<in>set ps. a \<in> set (solute_region self)) \<and> (\<exists>b\<in>set ps. b \<in> set (solvent_region self))"
    using cover by (auto simp: list_all_iff split: if_splits)
qed

text \<open>
  Claim C4. The classifier of an assembled factory is a function of the particles alone.
  A single particle is SoluteOnly if and only if its index is in the solute region, and
  SolventOnly otherwise. A nonempty sequence of valid particle indices is SolventOnly if
  and only if all of them are in the solvent region, SoluteOnly if and only if all of them
  are in the solute region, and Inter otherwise, and then one of them is in the solute
  and one in the solvent region.
\<close>

theorem classifier_categories:
  assumes "valid_region sys solute" and "equipped sys og_nb og_bonds og_angles og_torsions"
    and "ps \<noteq> []" and "set ps \<subseteq> set (map int [0..<length (particles sys)])"
  shows "\<exists>self. RESTFactory sys solute udc = Inr self \<and>
     set (solute_region self) = set solute \<and>
     set (solvent_region self) = set (map int [0..<length (particles sys)]) - set solute \<and>
     get_identifier self (OneParticle p) =
       (if p \<in> set (solute_region self) then SoluteOnly else SolventOnly) \<and>
     (get_identifier self (Particles ps) = SolventOnly \<longleftrightarrow>
        set ps \<subseteq> set (solvent_region self)) \<and>
     (get_identifier self (Particles ps) = SoluteOnly \<longleftrightarrow>
        set ps \<subseteq> set (solute_region self)) \<and>
     (get_identifier self (Particles ps) = Inter \<longleftrightarrow>
        \<not> set ps \<subseteq> set (solvent_region self) \<and> \<not> set ps \<subseteq> set (solute_region self)) \<and>
     (get_identifier self (Particles ps) = Inter \<longrightarrow>
        (\<exists>a\<in>set ps. a \<in> set (solute_region self)) \<and>
        (\<exists>b\<in>set ps. b \<in> set (solvent_region self)))"
proof -
  from assemble_equipped[OF assms(1,2), of udc]
  obtain self where run: "RESTFactory sys solute udc = Inr self"
    and a: "assembled sys solute udc og_nb og_bonds og_angles og_torsions self" by blast
  from a have sol: "solute_region self = solute"
    and solv: "solvent_region self =
       filter (\<lambda>i. i \<notin> set (solute_region self)) (map int [0..<length (particles sys)])"
    by (simp_all add: assembled_def)
  have s2: "set (solvent_region self) = set (map int [0..<length (particles sys)]) - set solute"
    unfolding solv sol by auto
  have one: "get_identifier self (OneParticle p) =
       (if p \<in> set (solute_region self) then SoluteOnly else SolventOnly)"
    by (simp add: SoluteOnly_def SolventOnly_def)
  note gp = get_identifier_particles[OF solv assms(3,4)]
  show ?thesis
    using run sol s2 one gp
    by (intro exI[of _ self]) (simp add: SoluteOnly_def SolventOnly_def Inter_def
        del: get_identifier.simps)
qed

theorem classifier_categories_witness:
  "valid_region example_system [0, 1] \<and>
   equipped example_system example_nonbonded example_bonds example_angles example_torsions \<and>
   [1, 2] \<noteq> ([] :: int list) \<and>
   set [1, 2] \<subseteq> set (map int [0..<length (particles example_system)]) \<and>
   (\<exists>self. RESTFactory example_system [0, 1] False = Inr self \<and>
      get_identifier self (OneParticle 0) = SoluteOnly \<and>
      get_identifier self (Particles [1, 2]) = Inter)"
proof -
  have h3: "[1, 2] \<noteq> ([] :: int list)" by simp
  have h4: "set [1, 2] \<subseteq> set (map int [0..<length (particles example_system)])"
    by (simp add: example_system_def)
  from classifier_categories[OF example_valid_region example_equipped h3 h4, of False 0]
  obtain self where run: "RESTFactory example_system [0, 1] False = Inr self"
    and sol: "set (solute_region self) = set [0, 1]"
    and solv: "set (solvent_region self) =
        set (map int [0..<length (particles example_system)]) - set [0, 1]"
    and one: "get_identifier self (OneParticle 0) =
       (if 0 \<in> set (solute_region self) then SoluteOnly else SolventOnly)"
    and inter: "(get_identifier self (Particles [1, 2]) = Inter \<longleftrightarrow>
        \<not> set [1, 2] \<subseteq> set (solvent_region self) \<and> \<not> set [1, 2] \<subseteq> set (solute_region self))"
    by blast
  from one sol have one': "get_identifier self (OneParticle 0) = SoluteOnly"
    by (simp del: get_identifier.simps)
  from inter sol solv have inter': "get_identifier self (Particles [1, 2]) = Inter"
    by (simp add: example_system_def del: get_identifier.simps)
  from run one' inter' example_valid_region example_equipped h3 h4 show ?thesis by blast
qed

text \<open>
  Claim C9, amended. For every original system that holds a nonbonded, a bond, an angle
  and a torsion force and no force outside the five known kinds (the barostat may be
  absent), whose nonbonded force has parameters for each particle, and whose solute region
  is a subset of the particle indices, the assembly completes without raising.
\<close>

theorem assembly_succeeds:
  assumes "valid_region sys solute" and "equipped sys og_nb og_bonds og_angles og_torsions"
  shows "\<not> isl (RESTFactory sys solute udc)"
  using assemble_equipped[OF assms, of udc] by auto

theorem assembly_succeeds_witness:
  "valid_region example_system [0, 1] \<and>
   equipped example_system example_nonbonded example_bonds example_angles example_torsions \<and>
   \<not> isl (RESTFactory example_system [0, 1] False)"
  using assembly_succeeds[OF example_valid_region example_equipped, of False]
    example_valid_region example_equipped by blast

theorem missing_nonbonded_force_counterexample:
  "dom (og_forces no_nonbonded_system) \<subseteq> known_forces \<and>
   valid_region no_nonbonded_system [] \<and>
   isl (RESTFactory no_nonbonded_system [] False) \<and>
   fst (projl (RESTFactory no_nonbonded_system [] False)) = KeyError ''NonbondedForce''"
  by (simp add: RESTFactory_def no_nonbonded_system_def og_forces_def known_forces_def
      valid_region_def dom_map_of_conv_image_fst Let_def)

section \<open>An unknown force\<close>

lemma copy_phase:
  fixes sys solute udc og_nb
  defines "s0 \<equiv> \<lparr>use_dispersion_correction = udc,
                   num_particles = length (particles sys),
                   og_system = sys,
                   og_system_forces = og_forces sys,
                   out_system_forces = Map.empty,
                   solute_region = solute,
                   solvent_region =
                     filter (\<lambda>i. i \<notin> set solute) (map int [0..<length (particles sys)]),
                   global_params = [],
                   nonbonded_method = nb_method og_nb,
                   out_system = System\<rparr>"
  shows "\<exists>s3. run_steps [copy_particles, copy_barostat, copy_box_vectors] s0 = Inr s3 \<and>
     og_system_forces s3 = og_forces sys \<and>
     particles (out_system s3) = particles sys \<and>
     constraints (out_system s3) = [] \<and>
     default_periodic_box_vectors (out_system s3) = default_periodic_box_vectors sys \<and>
     out_force s3 ''MonteCarloBarostat'' = og_forces sys ''MonteCarloBarostat'' \<and>
     forces (out_system s3) =
       (case og_forces sys ''MonteCarloBarostat'' of None \<Rightarrow> [] | Some b \<Rightarrow> [b])"
proof -
  let ?s1 = "s0\<lparr>out_system := (out_system s0)\<lparr>particles := particles (out_system s0) @ particles (og_system s0)\<rparr>\<rparr>"
  have c1: "copy_particles s0 = Inr ?s1"
    by (rule copy_particles_eq) (simp add: s0_def)
  have w1: "out_wf ?s1" by (simp add: out_wf_def s0_def)
  obtain s2 where c2: "copy_barostat ?s1 = Inr s2"
    and f2: "frame s2 = frame ?s1"
    and o2: "out_force s2 ''MonteCarloBarostat'' = og_forces sys ''MonteCarloBarostat''"
    and l2: "forces (out_system s2) =
       (case og_forces sys ''MonteCarloBarostat'' of None \<Rightarrow> [] | Some b \<Rightarrow> [b])"
  proof (cases "og_forces sys ''MonteCarloBarostat''")
    case None
    have "copy_barostat ?s1 = Inr ?s1" using None by (simp add: copy_barostat_def s0_def)
    moreover have "out_force ?s1 ''MonteCarloBarostat'' = og_forces sys ''MonteCarloBarostat''"
      using None by (simp add: out_force_def s0_def)
    moreover have "forces (out_system ?s1) =
       (case og_forces sys ''MonteCarloBarostat'' of None \<Rightarrow> [] | Some b \<Rightarrow> [b])"
      using None by (simp add: s0_def System_def)
    ultimately show ?thesis using that by blast
  next
    case (Some b)
    then have tn: "type_name b = ''MonteCarloBarostat''" by (rule og_forces_type_name)
    have "copy_barostat ?s1 = Inr (install_force b ?s1)"
      using Some by (simp add: copy_barostat_def s0_def)
    moreover from install_force_spec[OF w1, of b]
    have "frame (install_force b ?s1) = frame ?s1"
      "out_force (install_force b ?s1) = (out_force ?s1)(type_name b \<mapsto> b)" by simp_all
    moreover have "forces (out_system (install_force b ?s1)) = [b]"
      by (simp add: install_force_def addForce_def s0_def System_def)
    ultimately show ?thesis using that Some tn by simp
  qed
  let ?s3 = "s2\<lparr>out_system := (out_system s2)\<lparr>default_periodic_box_vectors :=
       default_periodic_box_vectors (og_system s2)\<rparr>\<rparr>"
  have c3: "copy_box_vectors s2 = Inr ?s3" by (simp add: copy_box_vectors_def)
  have run: "run_steps [copy_particles, copy_barostat, copy_box_vectors] s0 = Inr ?s3"
    using c1 c2 c3 by simp
  have f1: "frame ?s1 = (udc, length (particles sys), sys, og_forces sys, solute,
        filter (\<lambda>i. i \<notin> set solute) (map int [0..<length (particles sys)]), nb_method og_nb,
        particles sys, [], ((2, 0, 0), (0, 2, 0), (0, 0, 2)))"
    by (simp add: frame_def s0_def System_def)
  have og2: "og_system_forces s2 = og_forces sys" "og_system s2 = sys"
    "particles (out_system s2) = particles sys" "constraints (out_system s2) = []"
    using f2 f1 by (simp_all add: frame_def s0_def System_def)
  have o3: "out_force ?s3 = out_force s2" by (simp add: out_force_def fun_eq_iff)
  have "og_system_forces ?s3 = og_forces sys \<and>
     particles (out_system ?s3) = particles sys \<and>
     constraints (out_system ?s3) = [] \<and>
     default_periodic_box_vectors (out_system ?s3) = default_periodic_box_vectors sys \<and>
     out_force ?s3 ''MonteCarloBarostat'' = og_forces sys ''MonteCarloBarostat'' \<and>
     forces (out_system ?s3) =
       (case og_forces sys ''MonteCarloBarostat'' of None \<Rightarrow> [] | Some b \<Rightarrow> [b])"
    unfolding o3 using og2 o2 l2 by simp
  with run show ?thesis by blast
qed

lemma unknown_force_raise:
  assumes "valid_region sys solute"
    and "og_forces sys ''NonbondedForce'' = Some (NonbondedForce og_nb)"
    and "\<not> dom (og_forces sys) \<subseteq> known_forces"
  shows "\<exists>self. RESTFactory sys solute udc =
        Inl (ValueError (dom (og_forces sys) - known_forces), self) \<and>
     particles (out_system self) = particles sys \<and>
     default_periodic_box_vectors (out_system self) = default_periodic_box_vectors sys \<and>
     out_force self ''MonteCarloBarostat'' = og_forces sys ''MonteCarloBarostat'' \<and>
     constraints (out_system self) = [] \<and>
     forces (out_system self) =
       (case og_forces sys ''MonteCarloBarostat'' of None \<Rightarrow> [] | Some b \<Rightarrow> [b])"
proof -
  define s0 where "s0 = \<lparr>use_dispersion_correction = udc,
                   num_particles = length (particles sys),
                   og_system = sys,
                   og_system_forces = og_forces sys,
                   out_system_forces = Map.empty,
                   solute_region = solute,
                   solvent_region =
                     filter (\<lambda>i. i \<notin> set solute) (map int [0..<length (particles sys)]),
                   global_params = [],
                   nonbonded_method = nb_method og_nb,
                   out_system = System\<rparr>"
  let ?first = "[copy_particles, copy_barostat, copy_box_vectors]"
  let ?second = "[check_unknown_forces, handle_constraints,
                   add_bond_force_terms, add_bonds, add_angle_force_terms, add_angles,
                   add_torsion_force_terms, add_torsions, add_nonbonded_force_terms, add_nonbondeds]"
  have R: "RESTFactory sys solute udc = run_steps (?first @ ?second) s0"
    using assms(1,2)
    by (simp add: RESTFactory_def Let_def og_forces_def s0_def valid_region_def
        del: run_steps.simps)
  from copy_phase[of udc sys solute og_nb]
  obtain s3 where r3: "run_steps ?first s0 = Inr s3"
    and og3: "og_system_forces s3 = og_forces sys"
    and rest: "particles (out_system s3) = particles sys"
      "constraints (out_system s3) = []"
      "default_periodic_box_vectors (out_system s3) = default_periodic_box_vectors sys"
      "out_force s3 ''MonteCarloBarostat'' = og_forces sys ''MonteCarloBarostat''"
      "forces (out_system s3) =
         (case og_forces sys ''MonteCarloBarostat'' of None \<Rightarrow> [] | Some b \<Rightarrow> [b])"
    unfolding s0_def by blast
  have c: "check_unknown_forces s3 = Inl (ValueError (dom (og_forces sys) - known_forces), s3)"
    using assms(3) og3 by (auto simp: check_unknown_forces_def Let_def)
  have "RESTFactory sys solute udc = Inl (ValueError (dom (og_forces sys) - known_forces), s3)"
    unfolding R run_steps_append using r3 c by simp
  with rest show ?thesis by blast
qed

lemma unknown_force_system_facts:
  "valid_region unknown_force_system [0, 1]"
  "og_forces unknown_force_system ''NonbondedForce'' = Some (NonbondedForce example_nonbonded)"
  "\<not> dom (og_forces unknown_force_system) \<subseteq> known_forces"
  "dom (og_forces unknown_force_system) - known_forces = {''CMMotionRemover''}"
  "particles unknown_force_system = [12, 1, 16, 1]"
  "default_periodic_box_vectors unknown_force_system = ((3, 0, 0), (0, 3, 0), (0, 0, 3))"
  "og_forces unknown_force_system ''MonteCarloBarostat'' = Some (MonteCarloBarostat (1, 300, 50))"
proof -
  have d: "dom (og_forces unknown_force_system) =
     {''HarmonicBondForce'', ''HarmonicAngleForce'', ''PeriodicTorsionForce'',
      ''NonbondedForce'', ''MonteCarloBarostat'', ''CMMotionRemover''}"
    by (simp add: unknown_force_system_def example_system_def og_forces_def
        dom_map_of_conv_image_fst insert_commute)
  show "valid_region unknown_force_system [0, 1]"
    by (simp add: valid_region_def unknown_force_system_def example_system_def)
  show "og_forces unknown_force_system ''NonbondedForce'' = Some (NonbondedForce example_nonbonded)"
    by (simp add: unknown_force_system_def example_system_def og_forces_def)
  show "\<not> dom (og_forces unknown_force_system) \<subseteq> known_forces"
    unfolding d by (simp add: known_forces_def)
  show "dom (og_forces unknown_force_system) - known_forces = {''CMMotionRemover''}"
    unfolding d by (simp add: known_forces_def)
  show "particles unknown_force_system = [12, 1, 16, 1]"
    by (simp add: unknown_force_system_def example_system_def)
  show "default_periodic_box_vectors unknown_force_system = ((3, 0, 0), (0, 3, 0), (0, 0, 3))"
    by (simp add: unknown_force_system_def example_system_def)
  show "og_forces unknown_force_system ''MonteCarloBarostat'' = Some (MonteCarloBarostat (1, 300, 50))"
    by (simp add: unknown_force_system_def example_system_def og_forces_def)
qed

text \<open>
  Claim C8, amended. Whenever the input system contains a force kind outside the five
  known kinds, its solute region is valid and it has a nonbonded force, the assembly
  raises the error that names exactly the offending kinds. It raises it after the particle
  masses, the barostat (if there is one) and the box vectors have been copied into the
  output system, and before any constraint or term is copied and before any other force
  is added. The factory of a failed assembly never reaches the caller.
\<close>

theorem unknown_force_kind_raised:
  assumes "valid_region sys solute"
    and "og_forces sys ''NonbondedForce'' = Some (NonbondedForce og_nb)"
    and "\<not> dom (og_forces sys) \<subseteq> known_forces"
  shows "\<exists>self. RESTFactory sys solute udc =
        Inl (ValueError (dom (og_forces sys) - known_forces), self) \<and>
     particles (out_system self) = particles sys \<and>
     default_periodic_box_vectors (out_system self) = default_periodic_box_vectors sys \<and>
     out_force self ''MonteCarloBarostat'' = og_forces sys ''MonteCarloBarostat'' \<and>
     constraints (out_system self) = [] \<and>
     forces (out_system self) =
       (case og_forces sys ''MonteCarloBarostat'' of None \<Rightarrow> [] | Some b \<Rightarrow> [b])"
  using assms by (rule unknown_force_raise)

theorem unknown_force_kind_raised_witness:
  "valid_region unknown_force_system [0, 1] \<and>
   og_forces unknown_force_system ''NonbondedForce'' = Some (NonbondedForce example_nonbonded) \<and>
   \<not> dom (og_forces unknown_force_system) \<subseteq> known_forces \<and>
   (\<exists>self. RESTFactory unknown_force_system [0, 1] False =
        Inl (ValueError {''CMMotionRemover''}, self) \<and>
      constraints (out_system self) = [] \<and>
      forces (out_system self) = [MonteCarloBarostat (1, 300, 50)])"
proof -
  from unknown_force_kind_raised[OF unknown_force_system_facts(1,2,3), of False]
  obtain self where "RESTFactory unknown_force_system [0, 1] False =
        Inl (ValueError (dom (og_forces unknown_force_system) - known_forces), self)"
    and "constraints (out_system self) = []"
    and "forces (out_system self) =
       (case og_forces unknown_force_system ''MonteCarloBarostat'' of None \<Rightarrow> [] | Some b \<Rightarrow> [b])"
    by blast
  then have "RESTFactory unknown_force_system [0, 1] False =
        Inl (ValueError {''CMMotionRemover''}, self) \<and>
      constraints (out_system self) = [] \<and>
      forces (out_system self) = [MonteCarloBarostat (1, 300, 50)]"
    by (simp add: unknown_force_system_facts(4,7))
  with unknown_force_system_facts(1,2,3) show ?thesis by blast
qed

theorem unknown_force_after_copy_counterexample:
  "isl (RESTFactory unknown_force_system [0, 1] False) \<and>
   particles (out_system (snd (projl (RESTFactory unknown_force_system [0, 1] False)))) =
     [12, 1, 16, 1] \<and>
   default_periodic_box_vectors
     (out_system (snd (projl (RESTFactory unknown_force_system [0, 1] False)))) =
     ((3, 0, 0), (0, 3, 0), (0, 0, 3)) \<and>
   forces (out_system (snd (projl (RESTFactory unknown_force_system [0, 1] False)))) =
     [MonteCarloBarostat (1, 300, 50)]"
proof -
  from unknown_force_raise[OF unknown_force_system_facts(1,2,3), of False]
  obtain self where r: "RESTFactory unknown_force_system [0, 1] False =
        Inl (ValueError (dom (og_forces unknown_force_system) - known_forces), self)"
    and p: "particles (out_system self) = particles unknown_force_system"
      "default_periodic_box_vectors (out_system self) =
         default_periodic_box_vectors unknown_force_system"
      "forces (out_system self) =
       (case og_forces unknown_force_system ''MonteCarloBarostat'' of None \<Rightarrow> [] | Some b \<Rightarrow> [b])"
    by blast
  show ?thesis
    unfolding r using p by (simp add: unknown_force_system_facts(5,6,7))
qed

section \<open>The offsets of the nonbonded force\<close>

lemma concat_map_single:
  "i < n \<Longrightarrow> concat (map (\<lambda>j. if j = i then f j else []) [0..<n]) = f i"
proof (induction n)
  case 0
  then show ?case by simp
next
  case (Suc n)
  show ?case
  proof (cases "i = n")
    case True
    have "concat (map (\<lambda>j. if j = i then f j else []) [0..<n]) = []"
      unfolding True by (induction n) auto
    then show ?thesis using True by simp
  next
    case False
    with Suc have "concat (map (\<lambda>j. if j = i then f j else []) [0..<n]) = f i" by simp
    then show ?thesis using False by simp
  qed
qed

lemma filter_particle_offsets:
  "filter (\<lambda>offset. fst (snd offset) = int i) (particle_offsets self og j) =
     (if j = i then particle_offsets self og j else [])"
  by (cases "nb_particles og ! j") (auto simp: particle_offsets_def simp del: get_identifier.simps)

lemma offsets_of_particle_rewritten:
  assumes "i < num_particles self"
  shows "offsets_of_particle (rewritten_nonbonded self og) i = particle_offsets self og i"
proof -
  have "offsets_of_particle (rewritten_nonbonded self og) i =
      concat (map (\<lambda>j. filter (\<lambda>offset. fst (snd offset) = int i) (particle_offsets self og j))
        [0..<num_particles self])"
    by (simp add: offsets_of_particle_def rewritten_nonbonded_def filter_concat comp_def)
  also have "\<dots> = concat (map (\<lambda>j. if j = i then particle_offsets self og j else [])
        [0..<num_particles self])"
    by (simp only: filter_particle_offsets)
  also have "\<dots> = particle_offsets self og i"
    using assms by (rule concat_map_single)
  finally show ?thesis .
qed

lemma filter_exception_offsets:
  "filter (\<lambda>offset. fst (snd offset) = k) (exception_offsets self (j, e)) =
     (if j = k then exception_offsets self (j, e) else [])"
  by (cases e) (auto simp: Let_def simp del: get_identifier.simps)

lemma exception_offsets_enumerate:
  "k < length excs \<Longrightarrow>
   concat (map (\<lambda>x. filter (\<lambda>offset. fst (snd offset) = k) (exception_offsets self x))
     (enumerate 0 excs)) = exception_offsets self (k, excs ! k)"
proof (induction excs rule: rev_induct)
  case Nil
  then show ?case by simp
next
  case (snoc e excs)
  show ?case
  proof (cases "k = length excs")
    case True
    have "concat (map (\<lambda>x. filter (\<lambda>offset. fst (snd offset) = k) (exception_offsets self x))
        (enumerate 0 excs)) = []"
      unfolding True
      by (auto simp: filter_exception_offsets in_set_enumerate_eq simp del: exception_offsets.simps)
    then show ?thesis using True
      by (simp add: enumerate_append_eq filter_exception_offsets del: exception_offsets.simps)
  next
    case False
    with snoc.prems have lt: "k < length excs" by simp
    from snoc.IH[OF lt] show ?thesis using lt False
      by (simp add: enumerate_append_eq filter_exception_offsets nth_append
          del: exception_offsets.simps)
  qed
qed

lemma offsets_of_exception_rewritten:
  assumes "k < length (nb_exceptions og)"
  shows "offsets_of_exception (rewritten_nonbonded self og) k =
     exception_offsets self (k, nb_exceptions og ! k)"
proof -
  have "offsets_of_exception (rewritten_nonbonded self og) k =
      concat (map (\<lambda>x. filter (\<lambda>offset. fst (snd offset) = k) (exception_offsets self x))
        (enumerate 0 (nb_exceptions og)))"
    by (simp add: offsets_of_exception_def rewritten_nonbonded_def filter_concat comp_def)
  also have "\<dots> = exception_offsets self (k, nb_exceptions og ! k)"
    using assms by (rule exception_offsets_enumerate)
  finally show ?thesis .
qed

lemma rewritten_nonbonded_lists:
  "nb_particles (rewritten_nonbonded self og) = take (num_particles self) (nb_particles og)"
  "nb_exceptions (rewritten_nonbonded self og) = nb_exceptions og"
  by (simp_all add: rewritten_nonbonded_def)

lemma particle_offsets_assembled:
  assumes "valid_region sys solute" and "equipped sys og_nb og_bonds og_angles og_torsions"
    and "i < length (particles sys)"
  shows "\<exists>self. RESTFactory sys solute udc = Inr self \<and>
     nb_particles (nonbonded_of (out_force self ''NonbondedForce'')) ! i = nb_particles og_nb ! i \<and>
     get_identifier self (OneParticle (int i)) =
       (if int i \<in> set solute then SoluteOnly else SolventOnly) \<and>
     offsets_of_particle (nonbonded_of (out_force self ''NonbondedForce'')) i =
       (if get_identifier self (OneParticle (int i)) = SoluteOnly
        then [(''electrostatic_scale'', int i, fst (nb_particles og_nb ! i), 0, 0),
              (''steric_scale'', int i, 0, 0, snd (snd (nb_particles og_nb ! i)))]
        else [])"
proof -
  from assemble_equipped[OF assms(1,2), of udc]
  obtain self where run: "RESTFactory sys solute udc = Inr self"
    and a: "assembled sys solute udc og_nb og_bonds og_angles og_torsions self" by blast
  from a have nb: "out_force self ''NonbondedForce'' = Some (NonbondedForce (rewritten_nonbonded self og_nb))"
    and n: "num_particles self = length (particles sys)"
    and sol: "solute_region self = solute"
    by (simp_all add: assembled_def)
  have p: "nb_particles (nonbonded_of (out_force self ''NonbondedForce'')) ! i = nb_particles og_nb ! i"
    using assms(3) n by (simp add: nb rewritten_nonbonded_lists)
  have c: "get_identifier self (OneParticle (int i)) =
       (if int i \<in> set solute then SoluteOnly else SolventOnly)"
    by (simp add: sol SoluteOnly_def SolventOnly_def)
  have o: "offsets_of_particle (nonbonded_of (out_force self ''NonbondedForce'')) i =
       (if get_identifier self (OneParticle (int i)) = SoluteOnly
        then [(''electrostatic_scale'', int i, fst (nb_particles og_nb ! i), 0, 0),
              (''steric_scale'', int i, 0, 0, snd (snd (nb_particles og_nb ! i)))]
        else [])"
    using assms(3) n
    by (cases "nb_particles og_nb ! i")
      (auto simp: nb offsets_of_particle_rewritten particle_offsets_def SoluteOnly_def)
  from run p c o show ?thesis by blast
qed

lemma exception_offsets_assembled:
  assumes "valid_region sys solute" and "equipped sys og_nb og_bonds og_angles og_torsions"
    and "k < length (nb_exceptions og_nb)"
  shows "\<exists>self. RESTFactory sys solute udc = Inr self \<and>
     nb_exceptions (nonbonded_of (out_force self ''NonbondedForce'')) = nb_exceptions og_nb \<and>
     offsets_of_exception (nonbonded_of (out_force self ''NonbondedForce'')) k =
       (if get_identifier self (Particles (exception_particles (nb_exceptions og_nb ! k))) = SoluteOnly
        then [(''steric_scale'', k, fst (snd (snd (nb_exceptions og_nb ! k))), 0,
               snd (snd (snd (snd (nb_exceptions og_nb ! k)))))]
        else if get_identifier self (Particles (exception_particles (nb_exceptions og_nb ! k))) = Inter
        then [(''electrostatic_scale'', k, fst (snd (snd (nb_exceptions og_nb ! k))), 0,
               snd (snd (snd (snd (nb_exceptions og_nb ! k)))))]
        else [])"
proof -
  from assemble_equipped[OF assms(1,2), of udc]
  obtain self where run: "RESTFactory sys solute udc = Inr self"
    and a: "assembled sys solute udc og_nb og_bonds og_angles og_torsions self" by blast
  from a have nb: "out_force self ''NonbondedForce'' = Some (NonbondedForce (rewritten_nonbonded self og_nb))"
    by (simp_all add: assembled_def)
  have e: "nb_exceptions (nonbonded_of (out_force self ''NonbondedForce'')) = nb_exceptions og_nb"
    by (simp add: nb rewritten_nonbonded_lists)
  obtain p1 p2 cp sigma epsilon where x: "nb_exceptions og_nb ! k = (p1, p2, cp, sigma, epsilon)"
    by (cases "nb_exceptions og_nb ! k") auto
  have r: "get_identifier self (Particles [p1, p2]) \<in> {0, 1, 2}" by auto
  have o: "offsets_of_exception (nonbonded_of (out_force self ''NonbondedForce'')) k =
       (if get_identifier self (Particles (exception_particles (nb_exceptions og_nb ! k))) = SoluteOnly
        then [(''steric_scale'', k, fst (snd (snd (nb_exceptions og_nb ! k))), 0,
               snd (snd (snd (snd (nb_exceptions og_nb ! k)))))]
        else if get_identifier self (Particles (exception_particles (nb_exceptions og_nb ! k))) = Inter
        then [(''electrostatic_scale'', k, fst (snd (snd (nb_exceptions og_nb ! k))), 0,
               snd (snd (snd (snd (nb_exceptions og_nb ! k)))))]
        else [])"
    using r
    by (simp add: nb offsets_of_exception_rewritten[OF assms(3)] x exception_particles_def
        SoluteOnly_def Inter_def Let_def del: get_identifier.simps)
  from run e o show ?thesis by blast
qed

lemma example_facts:
  "length (particles example_system) = 4"
  "nb_particles example_nonbonded ! 0 = (1 / 2, 3 / 10, 2 / 5)"
  "nb_particles example_nonbonded ! 2 = (0, 3 / 10, 3 / 5)"
  "length (nb_exceptions example_nonbonded) = 3"
  "nb_exceptions example_nonbonded ! 0 = (0, 1, - 1 / 8, 3 / 10, 1 / 5)"
  "nb_exceptions example_nonbonded ! 1 = (1, 2, - 1 / 10, 1 / 4, 1 / 3)"
  "nb_exceptions example_nonbonded ! Suc 0 = (1, 2, - 1 / 10, 1 / 4, 1 / 3)"
  "nb_exceptions example_nonbonded ! 2 = (2, 3, 0, 1 / 5, 0)"
  by (simp_all add: example_system_def example_nonbonded_def NonbondedForce_new_def)

text \<open>
  Claim C2, amended. For every nonbonded particle the assembler keeps the original
  (charge, sigma, epsilon). For a particle classified SoluteOnly it adds exactly two
  parameter offsets: one driven by \<open>electrostatic_scale\<close> that contributes the full charge,
  zero sigma and zero epsilon, and one driven by \<open>steric_scale\<close> that contributes zero
  charge, zero sigma and the full epsilon. For a particle classified SolventOnly it adds no
  offset.
\<close>

theorem particle_offsets_added:
  assumes "valid_region sys solute" and "equipped sys og_nb og_bonds og_angles og_torsions"
    and "i < length (particles sys)"
  shows "\<exists>self. RESTFactory sys solute udc = Inr self \<and>
     nb_particles (nonbonded_of (out_force self ''NonbondedForce'')) ! i = nb_particles og_nb ! i \<and>
     get_identifier self (OneParticle (int i)) =
       (if int i \<in> set solute then SoluteOnly else SolventOnly) \<and>
     offsets_of_particle (nonbonded_of (out_force self ''NonbondedForce'')) i =
       (if get_identifier self (OneParticle (int i)) = SoluteOnly
        then [(''electrostatic_scale'', int i, fst (nb_particles og_nb ! i), 0, 0),
              (''steric_scale'', int i, 0, 0, snd (snd (nb_particles og_nb ! i)))]
        else [])"
  using assms by (rule particle_offsets_assembled)

theorem particle_offsets_added_witness:
  "valid_region example_system [0, 1] \<and>
   equipped example_system example_nonbonded example_bonds example_angles example_torsions \<and>
   0 < length (particles example_system) \<and>
   (\<exists>self. RESTFactory example_system [0, 1] False = Inr self \<and>
      nb_particles (nonbonded_of (out_force self ''NonbondedForce'')) ! 0 = (1 / 2, 3 / 10, 2 / 5) \<and>
      get_identifier self (OneParticle 0) = SoluteOnly \<and>
      offsets_of_particle (nonbonded_of (out_force self ''NonbondedForce'')) 0 =
        [(''electrostatic_scale'', 0, 1 / 2, 0, 0), (''steric_scale'', 0, 0, 0, 2 / 5)])"
proof -
  have h3: "0 < length (particles example_system)" by (simp add: example_facts)
  from particle_offsets_added[OF example_valid_region example_equipped h3, of False]
  obtain self where run: "RESTFactory example_system [0, 1] False = Inr self"
    and p: "nb_particles (nonbonded_of (out_force self ''NonbondedForce'')) ! 0 =
        nb_particles example_nonbonded ! 0"
    and c: "get_identifier self (OneParticle (int 0)) =
       (if int 0 \<in> set [0, 1] then SoluteOnly else SolventOnly)"
    and o: "offsets_of_particle (nonbonded_of (out_force self ''NonbondedForce'')) 0 =
       (if get_identifier self (OneParticle (int 0)) = SoluteOnly
        then [(''electrostatic_scale'', int 0, fst (nb_particles example_nonbonded ! 0), 0, 0),
              (''steric_scale'', int 0, 0, 0, snd (snd (nb_particles example_nonbonded ! 0)))]
        else [])"
    by blast
  from c have c': "get_identifier self (OneParticle 0) = SoluteOnly"
    by (simp del: get_identifier.simps)
  from o c' have o': "offsets_of_particle (nonbonded_of (out_force self ''NonbondedForce'')) 0 =
        [(''electrostatic_scale'', 0, 1 / 2, 0, 0), (''steric_scale'', 0, 0, 0, 2 / 5)]"
    by (simp add: example_facts del: get_identifier.simps)
  from p have p': "nb_particles (nonbonded_of (out_force self ''NonbondedForce'')) ! 0 =
      (1 / 2, 3 / 10, 2 / 5)"
    by (simp add: example_facts)
  from run p' c' o' example_valid_region example_equipped h3 show ?thesis by blast
qed

theorem steric_offset_sigma_counterexample:
  "offsets_of_particle
     (nonbonded_of (out_force (projr (RESTFactory example_system [0, 1] False)) ''NonbondedForce'')) 0
   \<noteq> spec_particle_offsets 0 (nb_particles example_nonbonded ! 0)"
proof -
  have h3: "0 < length (particles example_system)" by (simp add: example_facts)
  from particle_offsets_assembled[OF example_valid_region example_equipped h3, of False]
  obtain self where run: "RESTFactory example_system [0, 1] False = Inr self"
    and c: "get_identifier self (OneParticle (int 0)) =
       (if int 0 \<in> set [0, 1] then SoluteOnly else SolventOnly)"
    and o: "offsets_of_particle (nonbonded_of (out_force self ''NonbondedForce'')) 0 =
       (if get_identifier self (OneParticle (int 0)) = SoluteOnly
        then [(''electrostatic_scale'', int 0, fst (nb_particles example_nonbonded ! 0), 0, 0),
              (''steric_scale'', int 0, 0, 0, snd (snd (nb_particles example_nonbonded ! 0)))]
        else [])"
    by blast
  from c have c': "get_identifier self (OneParticle 0) = SoluteOnly"
    by (simp del: get_identifier.simps)
  from o c' have o': "offsets_of_particle (nonbonded_of (out_force self ''NonbondedForce'')) 0 =
        [(''electrostatic_scale'', 0, 1 / 2, 0, 0), (''steric_scale'', 0, 0, 0, 2 / 5)]"
    by (simp add: example_facts del: get_identifier.simps)
  show ?thesis
    unfolding run using o' by (simp add: spec_particle_offsets_def example_facts)
qed

text \<open>
  Claim C3, amended. Every nonbonded exception is copied unconditionally with its
  original (chargeProd, sigma, epsilon). If its category is SoluteOnly it gains exactly one
  offset, driven by \<open>steric_scale\<close>, that contributes the full chargeProd, zero sigma and
  the full epsilon; if Inter, exactly one offset, driven by \<open>electrostatic_scale\<close>, that
  contributes the full chargeProd, zero sigma and the full epsilon; if SolventOnly, no
  offset.
\<close>

theorem exception_offsets_added:
  assumes "valid_region sys solute" and "equipped sys og_nb og_bonds og_angles og_torsions"
    and "k < length (nb_exceptions og_nb)"
  shows "\<exists>self. RESTFactory sys solute udc = Inr self \<and>
     nb_exceptions (nonbonded_of (out_force self ''NonbondedForce'')) = nb_exceptions og_nb \<and>
     offsets_of_exception (nonbonded_of (out_force self ''NonbondedForce'')) k =
       (if get_identifier self (Particles (exception_particles (nb_exceptions og_nb ! k))) = SoluteOnly
        then [(''steric_scale'', k, fst (snd (snd (nb_exceptions og_nb ! k))), 0,
               snd (snd (snd (snd (nb_exceptions og_nb ! k)))))]
        else if get_identifier self (Particles (exception_particles (nb_exceptions og_nb ! k))) = Inter
        then [(''electrostatic_scale'', k, fst (snd (snd (nb_exceptions og_nb ! k))), 0,
               snd (snd (snd (snd (nb_exceptions og_nb ! k)))))]
        else [])"
  using assms by (rule exception_offsets_assembled)

lemma example_exception_categories:
  assumes "solute_region self = [0, 1]"
    and "solvent_region self = filter (\<lambda>i. i \<notin> set [0, 1]) (map int [0..<4])"
  shows "get_identifier self (Particles [0, 1]) = SoluteOnly"
    "get_identifier self (Particles [1, 2]) = Inter"
    "get_identifier self (Particles [2, 3]) = SolventOnly"
  using assms by (simp_all add: SoluteOnly_def Inter_def SolventOnly_def)

lemma example_assembled_regions:
  assumes "assembled example_system [0, 1] udc og_nb og_bonds og_angles og_torsions self"
  shows "solute_region self = [0, 1]"
    "solvent_region self = filter (\<lambda>i. i \<notin> set [0, 1]) (map int [0..<4])"
  using assms by (simp_all add: assembled_def example_facts)

theorem exception_offsets_added_witness:
  "valid_region example_system [0, 1] \<and>
   equipped example_system example_nonbonded example_bonds example_angles example_torsions \<and>
   1 < length (nb_exceptions example_nonbonded) \<and>
   (\<exists>self. RESTFactory example_system [0, 1] False = Inr self \<and>
      nb_exceptions (nonbonded_of (out_force self ''NonbondedForce'')) =
        nb_exceptions example_nonbonded \<and>
      get_identifier self (Particles [1, 2]) = Inter \<and>
      offsets_of_exception (nonbonded_of (out_force self ''NonbondedForce'')) 1 =
        [(''electrostatic_scale'', 1, - 1 / 10, 0, 1 / 3)])"
proof -
  have h3: "1 < length (nb_exceptions example_nonbonded)" by (simp add: example_facts)
  from exception_offsets_added[OF example_valid_region example_equipped h3, of False]
  obtain self where run: "RESTFactory example_system [0, 1] False = Inr self"
    and e: "nb_exceptions (nonbonded_of (out_force self ''NonbondedForce'')) =
        nb_exceptions example_nonbonded"
    and o: "offsets_of_exception (nonbonded_of (out_force self ''NonbondedForce'')) 1 =
       (if get_identifier self (Particles (exception_particles (nb_exceptions example_nonbonded ! 1))) = SoluteOnly
        then [(''steric_scale'', 1, fst (snd (snd (nb_exceptions example_nonbonded ! 1))), 0,
               snd (snd (snd (snd (nb_exceptions example_nonbonded ! 1)))))]
        else if get_identifier self (Particles (exception_particles (nb_exceptions example_nonbonded ! 1))) = Inter
        then [(''electrostatic_scale'', 1, fst (snd (snd (nb_exceptions example_nonbonded ! 1))), 0,
               snd (snd (snd (snd (nb_exceptions example_nonbonded ! 1)))))]
        else [])"
    by blast
  from assemble_equipped[OF example_valid_region example_equipped, of False] run
  have a: "assembled example_system [0, 1] False example_nonbonded example_bonds example_angles
      example_torsions self" by auto
  note cat = example_exception_categories[OF example_assembled_regions[OF a]]
  from o cat(2) have o': "offsets_of_exception (nonbonded_of (out_force self ''NonbondedForce'')) 1 =
        [(''electrostatic_scale'', 1, - 1 / 10, 0, 1 / 3)]"
    by (simp add: example_facts exception_particles_def SoluteOnly_def Inter_def
        del: get_identifier.simps)
  from run e cat(2) o' example_valid_region example_equipped h3 show ?thesis by blast
qed

theorem exception_offsets_counterexample:
  "get_identifier (projr (RESTFactory example_system [0, 1] False)) (Particles [0, 1]) = SoluteOnly \<and>
   offsets_of_exception
     (nonbonded_of (out_force (projr (RESTFactory example_system [0, 1] False)) ''NonbondedForce'')) 0
   \<noteq> spec_exception_offsets SoluteOnly 0 (snd (snd (nb_exceptions example_nonbonded ! 0))) \<and>
   get_identifier (projr (RESTFactory example_system [0, 1] False)) (Particles [1, 2]) = Inter \<and>
   offsets_of_exception
     (nonbonded_of (out_force (projr (RESTFactory example_system [0, 1] False)) ''NonbondedForce'')) 1
   \<noteq> spec_exception_offsets Inter 1 (snd (snd (nb_exceptions example_nonbonded ! 1)))"
proof -
  from assemble_equipped[OF example_valid_region example_equipped, of False]
  obtain self where run: "RESTFactory example_system [0, 1] False = Inr self"
    and a: "assembled example_system [0, 1] False example_nonbonded example_bonds example_angles
      example_torsions self" by blast
  note cat = example_exception_categories[OF example_assembled_regions[OF a]]
  have h0: "0 < length (nb_exceptions example_nonbonded)"
    and h1: "1 < length (nb_exceptions example_nonbonded)" by (simp_all add: example_facts)
  from exception_offsets_assembled[OF example_valid_region example_equipped h0, of False] run cat(1)
  have o0: "offsets_of_exception (nonbonded_of (out_force self ''NonbondedForce'')) 0 =
      [(''steric_scale'', 0, - 1 / 8, 0, 1 / 5)]"
    by (auto simp: example_facts exception_particles_def simp del: get_identifier.simps)
  from exception_offsets_assembled[OF example_valid_region example_equipped h1, of False] run cat(2)
  have o1: "offsets_of_exception (nonbonded_of (out_force self ''NonbondedForce'')) 1 =
      [(''electrostatic_scale'', 1, - 1 / 10, 0, 1 / 3)]"
    by (auto simp: example_facts exception_particles_def SoluteOnly_def Inter_def
        simp del: get_identifier.simps)
  show ?thesis
    unfolding run using cat(1,2) o0 o1
    by (simp add: spec_exception_offsets_def example_facts SoluteOnly_def Inter_def
        del: get_identifier.simps)
qed

section \<open>The empty solute region\<close>

lemma valid_index_in_range: "0 \<le> p \<Longrightarrow> p < int n \<Longrightarrow> p \<in> set (map int [0..<n])"
proof -
  assume "0 \<le> p" "p < int n"
  then have "p = int (nat p)" "nat p < n" by simp_all
  then show ?thesis by (metis atLeast0LessThan image_eqI lessThan_iff set_map set_upt)
qed

lemma all_solvent:
  assumes "solute_region self = []" and "solvent_region self = map int [0..<n]"
    and "set ps \<subseteq> set (map int [0..<n])"
  shows "get_identifier self (Particles ps) = 1"
  using assms by (auto simp: list_all_iff)

lemma map_eq_replicate: "(\<And>x. x \<in> set xs \<Longrightarrow> f x = c) \<Longrightarrow> map f xs = replicate (length xs) c"
  by (induction xs) auto

lemma concat_map_empty: "(\<And>x. x \<in> set xs \<Longrightarrow> f x = []) \<Longrightarrow> concat (map f xs) = []"
  by (induction xs) auto

lemma empty_solute_assembled:
  assumes "equipped sys og_nb og_bonds og_angles og_torsions"
    and "valid_terms sys og_nb og_bonds og_angles og_torsions"
    and "set ps \<subseteq> set (map int [0..<length (particles sys)])"
  shows "\<exists>self. RESTFactory sys [] udc = Inr self \<and>
     get_identifier self (OneParticle p) = SolventOnly \<and>
     get_identifier self (Particles ps) = SolventOnly \<and>
     stored_identifiers (custom_of (out_force self ''CustomBondForce'')) =
       replicate (length og_bonds) 1 \<and>
     stored_identifiers (custom_of (out_force self ''CustomAngleForce'')) =
       replicate (length og_angles) 1 \<and>
     stored_identifiers (custom_of (out_force self ''CustomTorsionForce'')) =
       replicate (length og_torsions) 1 \<and>
     particle_parameter_offsets (nonbonded_of (out_force self ''NonbondedForce'')) = [] \<and>
     exception_parameter_offsets (nonbonded_of (out_force self ''NonbondedForce'')) = []"
proof -
  let ?N = "length (particles sys)"
  have v: "valid_region sys []" by (simp add: valid_region_def)
  from assemble_equipped[OF v assms(1), of udc]
  obtain self where run: "RESTFactory sys [] udc = Inr self"
    and a: "assembled sys [] udc og_nb og_bonds og_angles og_torsions self" by blast
  from a have sol: "solute_region self = []"
    and solv: "solvent_region self = map int [0..<?N]"
    and n: "num_particles self = ?N"
    and bf: "out_force self ''CustomBondForce'' =
        Some (CustomBondForce
          ((custom_force_0 bond_energy_expression [''length'', ''k'', ''identifier''])
             \<lparr>force_terms := map (bond_term self) og_bonds\<rparr>))"
    and af: "out_force self ''CustomAngleForce'' =
        Some (CustomAngleForce
          ((custom_force_0 angle_energy_expression [''theta0'', ''k'', ''identifier''])
             \<lparr>force_terms := map (angle_term self) og_angles\<rparr>))"
    and tf: "out_force self ''CustomTorsionForce'' =
        Some (CustomTorsionForce
          ((custom_force_0 torsion_energy_expression
              [''periodicity'', ''phase'', ''k'', ''identifier''])
             \<lparr>force_terms := map (torsion_term self) og_torsions\<rparr>))"
    and nb: "out_force self ''NonbondedForce'' = Some (NonbondedForce (rewritten_nonbonded self og_nb))"
    by (simp_all add: assembled_def)
  note solvent = all_solvent[OF sol solv]
  have one: "get_identifier self (OneParticle q) = 1" for q by (simp add: sol)
  have vi: "0 \<le> q \<Longrightarrow> q < int ?N \<Longrightarrow> q \<in> set (map int [0..<?N])" for q
    by (rule valid_index_in_range)
  have b: "last (snd (bond_term self x)) = 1" if "x \<in> set og_bonds" for x
  proof -
    obtain p1 p2 len k where x: "x = (p1, p2, len, k)" by (cases x) auto
    from assms(2) that have "set [p1, p2] \<subseteq> set (map int [0..<?N])"
      unfolding valid_terms_def Let_def list_all_iff x using vi by fastforce
    from solvent[OF this] show ?thesis by (simp add: x del: get_identifier.simps)
  qed
  have an: "last (snd (angle_term self x)) = 1" if "x \<in> set og_angles" for x
  proof -
    obtain p1 p2 p3 theta0 k where x: "x = (p1, p2, p3, theta0, k)" by (cases x) auto
    from assms(2) that have "set [p1, p2, p3] \<subseteq> set (map int [0..<?N])"
      unfolding valid_terms_def Let_def list_all_iff x using vi by fastforce
    from solvent[OF this] show ?thesis by (simp add: x del: get_identifier.simps)
  qed
  have t: "last (snd (torsion_term self x)) = 1" if "x \<in> set og_torsions" for x
  proof -
    obtain p1 p2 p3 p4 per phase k where x: "x = (p1, p2, p3, p4, per, phase, k)"
      by (cases x) auto
    from assms(2) that have "set [p1, p2, p3, p4] \<subseteq> set (map int [0..<?N])"
      unfolding valid_terms_def Let_def list_all_iff x using vi by fastforce
    from solvent[OF this] show ?thesis by (simp add: x del: get_identifier.simps)
  qed
  have e: "exception_offsets self x = []" if "x \<in> set (enumerate 0 (nb_exceptions og_nb))" for x
  proof -
    obtain k p1 p2 cp sigma epsilon where x: "x = (k, p1, p2, cp, sigma, epsilon)"
      by (cases x) auto
    from that have "k < length (nb_exceptions og_nb)"
      and "nb_exceptions og_nb ! k = (p1, p2, cp, sigma, epsilon)"
      by (simp_all add: x in_set_enumerate_eq)
    with nth_mem[of k "nb_exceptions og_nb"]
    have "(p1, p2, cp, sigma, epsilon) \<in> set (nb_exceptions og_nb)" by simp
    with assms(2) have "set [p1, p2] \<subseteq> set (map int [0..<?N])"
      unfolding valid_terms_def Let_def list_all_iff using vi by fastforce
    from solvent[OF this] show ?thesis by (simp add: x del: get_identifier.simps)
  qed
  have po: "particle_offsets self og_nb i = []" for i
    by (cases "nb_particles og_nb ! i") (simp add: particle_offsets_def one del: get_identifier.simps)
  have c1: "stored_identifiers (custom_of (out_force self ''CustomBondForce'')) =
       replicate (length og_bonds) 1"
    using map_eq_replicate[of og_bonds "\<lambda>x. last (snd (bond_term self x))" 1] b
    by (simp add: bf stored_identifiers_def comp_def)
  have c2: "stored_identifiers (custom_of (out_force self ''CustomAngleForce'')) =
       replicate (length og_angles) 1"
    using map_eq_replicate[of og_angles "\<lambda>x. last (snd (angle_term self x))" 1] an
    by (simp add: af stored_identifiers_def comp_def)
  have c3: "stored_identifiers (custom_of (out_force self ''CustomTorsionForce'')) =
       replicate (length og_torsions) 1"
    using map_eq_replicate[of og_torsions "\<lambda>x. last (snd (torsion_term self x))" 1] t
    by (simp add: tf stored_identifiers_def comp_def)
  have c4: "particle_parameter_offsets (nonbonded_of (out_force self ''NonbondedForce'')) = []"
    by (simp add: nb rewritten_nonbonded_def po)
  have c5: "exception_parameter_offsets (nonbonded_of (out_force self ''NonbondedForce'')) = []"
    using concat_map_empty[of "enumerate 0 (nb_exceptions og_nb)" "exception_offsets self"] e
    by (simp add: nb rewritten_nonbonded_def)
  from run one[of p] solvent[OF assms(3)] c1 c2 c3 c4 c5 show ?thesis
    by (intro exI[of _ self]) (simp add: SolventOnly_def del: get_identifier.simps)
qed

lemma example_valid_terms:
  "valid_terms example_system example_nonbonded example_bonds example_angles example_torsions"
  by (simp add: valid_terms_def example_system_def example_nonbonded_def example_bonds_def
      example_angles_def example_torsions_def)

text \<open>
  Claim C10. An empty solute region is accepted by the assembly of an equipped system. Then
  every particle, and every term over valid particle indices, is classified SolventOnly
  (identifier 1); where the terms of the system refer to its particles, every bonded term
  of the output carries the identifier 1, and the nonbonded force of the output has no
  particle parameter offset and no exception parameter offset.
\<close>

theorem empty_solute_region:
  assumes "equipped sys og_nb og_bonds og_angles og_torsions"
    and "valid_terms sys og_nb og_bonds og_angles og_torsions"
    and "set ps \<subseteq> set (map int [0..<length (particles sys)])"
  shows "\<exists>self. RESTFactory sys [] udc = Inr self \<and>
     get_identifier self (OneParticle p) = SolventOnly \<and>
     get_identifier self (Particles ps) = SolventOnly \<and>
     stored_identifiers (custom_of (out_force self ''CustomBondForce'')) =
       replicate (length og_bonds) 1 \<and>
     stored_identifiers (custom_of (out_force self ''CustomAngleForce'')) =
       replicate (length og_angles) 1 \<and>
     stored_identifiers (custom_of (out_force self ''CustomTorsionForce'')) =
       replicate (length og_torsions) 1 \<and>
     particle_parameter_offsets (nonbonded_of (out_force self ''NonbondedForce'')) = [] \<and>
     exception_parameter_offsets (nonbonded_of (out_force self ''NonbondedForce'')) = []"
  using assms by (rule empty_solute_assembled)

theorem empty_solute_region_witness:
  "equipped example_system example_nonbonded example_bonds example_angles example_torsions \<and>
   valid_terms example_system example_nonbonded example_bonds example_angles example_torsions \<and>
   set [0, 1] \<subseteq> set (map int [0..<length (particles example_system)]) \<and>
   (\<exists>self. RESTFactory example_system [] True = Inr self \<and>
      get_identifier self (OneParticle 0) = SolventOnly \<and>
      get_identifier self (Particles [0, 1]) = SolventOnly \<and>
      stored_identifiers (custom_of (out_force self ''CustomBondForce'')) = [1, 1, 1] \<and>
      particle_parameter_offsets (nonbonded_of (out_force self ''NonbondedForce'')) = [] \<and>
      exception_parameter_offsets (nonbonded_of (out_force self ''NonbondedForce'')) = [])"
proof -
  have h3: "set [0, 1] \<subseteq> set (map int [0..<length (particles example_system)])"
    by (simp add: example_system_def)
  have l: "replicate (length example_bonds) (1::real) = [1, 1, 1]"
    by (simp add: example_bonds_def numeral_3_eq_3)
  from empty_solute_region[OF example_equipped example_valid_terms h3, of True 0]
  have "\<exists>self. RESTFactory example_system [] True = Inr self \<and>
      get_identifier self (OneParticle 0) = SolventOnly \<and>
      get_identifier self (Particles [0, 1]) = SolventOnly \<and>
      stored_identifiers (custom_of (out_force self ''CustomBondForce'')) = [1, 1, 1] \<and>
      particle_parameter_offsets (nonbonded_of (out_force self ''NonbondedForce'')) = [] \<and>
      exception_parameter_offsets (nonbonded_of (out_force self ''NonbondedForce'')) = []"
    unfolding l by blast
  with example_equipped example_valid_terms h3 show ?thesis by blast
qed

section \<open>The energies of the rewritten terms\<close>

lemma get_identifier_range: "get_identifier self p \<in> {0, 1, 2}"
  by (cases p) auto

lemma bond_term_energy:
  "term_energy ((custom_force_0 bond_energy_expression [''length'', ''k'', ''identifier''])
       \<lparr>force_terms := ts\<rparr>) context ''r'' x (ps, [len, k, idn]) =
   Some ((k * (context ''solute_scale'' * (if idn = 0 then 1 else 0) +
               1 * (if 1 - idn = 0 then 1 else 0) +
               context ''inter_scale'' * (if 2 - idn = 0 then 1 else 0)) / 2) * (x - len) ^ 2)"
  by (simp add: term_energy_def term_environment_def custom_force_0_def bond_energy_expression_def
      scaling_expression_def evaluate_expression_def bind_definition_def)

lemma angle_term_energy:
  "term_energy ((custom_force_0 angle_energy_expression [''theta0'', ''k'', ''identifier''])
       \<lparr>force_terms := ts\<rparr>) context ''theta'' x (ps, [theta0, k, idn]) =
   Some ((k * (context ''solute_scale'' * (if idn = 0 then 1 else 0) +
               1 * (if 1 - idn = 0 then 1 else 0) +
               context ''inter_scale'' * (if 2 - idn = 0 then 1 else 0)) / 2) * (x - theta0) ^ 2)"
  by (simp add: term_energy_def term_environment_def custom_force_0_def angle_energy_expression_def
      scaling_expression_def evaluate_expression_def bind_definition_def)

lemma torsion_term_energy:
  "term_energy ((custom_force_0 torsion_energy_expression
        [''periodicity'', ''phase'', ''k'', ''identifier''])
       \<lparr>force_terms := ts\<rparr>) context ''theta'' x (ps, [per, phase, k, idn]) =
   Some ((k * (context ''solute_scale'' * (if idn = 0 then 1 else 0) +
               1 * (if 1 - idn = 0 then 1 else 0) +
               context ''inter_scale'' * (if 2 - idn = 0 then 1 else 0))) *
         (1 + cos (per * x - phase)))"
  by (simp add: term_energy_def term_environment_def custom_force_0_def torsion_energy_expression_def
      scaling_expression_def evaluate_expression_def bind_definition_def)

lemma selected_scale_factor:
  assumes "c \<in> {0, 1, 2}"
  shows "context ''solute_scale'' * (if real_of_int c = 0 then 1 else 0) +
         1 * (if 1 - real_of_int c = 0 then 1 else 0) +
         context ''inter_scale'' * (if 2 - real_of_int c = 0 then 1 else 0) =
         spec_scale_factor context c"
  using assms by (auto simp: spec_scale_factor_def SoluteOnly_def SolventOnly_def)

lemma bond_energy_spec:
  "term_energy ((custom_force_0 bond_energy_expression [''length'', ''k'', ''identifier''])
       \<lparr>force_terms := ts\<rparr>) context ''r'' x (bond_term self b) =
   Some (spec_bond_energy
     (spec_scale_factor context (get_identifier self (Particles (bond_particles b)))) b x)"
proof -
  obtain p1 p2 len k where b: "b = (p1, p2, len, k)" by (cases b) auto
  show ?thesis
    unfolding b bond_term.simps bond_term_energy
      selected_scale_factor[OF get_identifier_range, of "context" self "Particles [p1, p2]"]
    by (simp add: bond_particles_def del: get_identifier.simps)
qed

lemma angle_energy_spec:
  "term_energy ((custom_force_0 angle_energy_expression [''theta0'', ''k'', ''identifier''])
       \<lparr>force_terms := ts\<rparr>) context ''theta'' x (angle_term self a) =
   Some (spec_angle_energy
     (spec_scale_factor context (get_identifier self (Particles (angle_particles a)))) a x)"
proof -
  obtain p1 p2 p3 theta0 k where a: "a = (p1, p2, p3, theta0, k)" by (cases a) auto
  show ?thesis
    unfolding a angle_term.simps angle_term_energy
      selected_scale_factor[OF get_identifier_range, of "context" self "Particles [p1, p2, p3]"]
    by (simp add: angle_particles_def del: get_identifier.simps)
qed

lemma torsion_energy_spec:
  "term_energy ((custom_force_0 torsion_energy_expression
        [''periodicity'', ''phase'', ''k'', ''identifier''])
       \<lparr>force_terms := ts\<rparr>) context ''theta'' x (torsion_term self t) =
   Some (spec_torsion_energy
     (spec_scale_factor context (get_identifier self (Particles (torsion_particles t)))) t x)"
proof -
  obtain p1 p2 p3 p4 per phase k where t: "t = (p1, p2, p3, p4, per, phase, k)"
    by (cases t) auto
  show ?thesis
    unfolding t torsion_term.simps torsion_term_energy
      selected_scale_factor[OF get_identifier_range, of "context" self "Particles [p1, p2, p3, p4]"]
    by (simp add: torsion_particles_def del: get_identifier.simps)
qed

lemma stored_identifier_bond:
  "last (snd (bond_term self b)) = real_of_int (get_identifier self (Particles (bond_particles b)))"
  by (cases b) (simp add: bond_particles_def del: get_identifier.simps)

lemma stored_identifier_angle:
  "last (snd (angle_term self a)) = real_of_int (get_identifier self (Particles (angle_particles a)))"
  by (cases a) (simp add: angle_particles_def del: get_identifier.simps)

lemma stored_identifier_torsion:
  "last (snd (torsion_term self t)) =
     real_of_int (get_identifier self (Particles (torsion_particles t)))"
  by (cases t) (simp add: torsion_particles_def del: get_identifier.simps)

lemma bonded_energies_assembled:
  assumes "valid_region sys solute" and "equipped sys og_nb og_bonds og_angles og_torsions"
  shows "\<exists>self. RESTFactory sys solute udc = Inr self \<and>
     solute_region self = solute \<and>
     solvent_region self =
       filter (\<lambda>i. i \<notin> set solute) (map int [0..<length (particles sys)]) \<and>
     map fst (global_parameters (custom_of (out_force self ''CustomBondForce''))) =
       [''solute_scale'', ''inter_scale''] \<and>
     map fst (global_parameters (custom_of (out_force self ''CustomAngleForce''))) =
       [''solute_scale'', ''inter_scale''] \<and>
     map fst (global_parameters (custom_of (out_force self ''CustomTorsionForce''))) =
       [''solute_scale'', ''inter_scale''] \<and>
     stored_identifiers (custom_of (out_force self ''CustomBondForce'')) =
       map (\<lambda>b. real_of_int (get_identifier self (Particles (bond_particles b)))) og_bonds \<and>
     stored_identifiers (custom_of (out_force self ''CustomAngleForce'')) =
       map (\<lambda>a. real_of_int (get_identifier self (Particles (angle_particles a)))) og_angles \<and>
     stored_identifiers (custom_of (out_force self ''CustomTorsionForce'')) =
       map (\<lambda>t. real_of_int (get_identifier self (Particles (torsion_particles t)))) og_torsions \<and>
     map (term_energy (custom_of (out_force self ''CustomBondForce'')) context ''r'' x)
         (force_terms (custom_of (out_force self ''CustomBondForce''))) =
       map (\<lambda>b. Some (spec_bond_energy
              (spec_scale_factor context (get_identifier self (Particles (bond_particles b)))) b x))
         og_bonds \<and>
     map (term_energy (custom_of (out_force self ''CustomAngleForce'')) context ''theta'' x)
         (force_terms (custom_of (out_force self ''CustomAngleForce''))) =
       map (\<lambda>a. Some (spec_angle_energy
              (spec_scale_factor context (get_identifier self (Particles (angle_particles a)))) a x))
         og_angles \<and>
     map (term_energy (custom_of (out_force self ''CustomTorsionForce'')) context ''theta'' x)
         (force_terms (custom_of (out_force self ''CustomTorsionForce''))) =
       map (\<lambda>t. Some (spec_torsion_energy
              (spec_scale_factor context (get_identifier self (Particles (torsion_particles t)))) t x))
         og_torsions"
proof -
  from assemble_equipped[OF assms, of udc]
  obtain self where run: "RESTFactory sys solute udc = Inr self"
    and a: "assembled sys solute udc og_nb og_bonds og_angles og_torsions self" by blast
  from a have sol: "solute_region self = solute"
    and solv: "solvent_region self =
       filter (\<lambda>i. i \<notin> set solute) (map int [0..<length (particles sys)])"
    and bf: "out_force self ''CustomBondForce'' =
        Some (CustomBondForce
          ((custom_force_0 bond_energy_expression [''length'', ''k'', ''identifier''])
             \<lparr>force_terms := map (bond_term self) og_bonds\<rparr>))"
    and af: "out_force self ''CustomAngleForce'' =
        Some (CustomAngleForce
          ((custom_force_0 angle_energy_expression [''theta0'', ''k'', ''identifier''])
             \<lparr>force_terms := map (angle_term self) og_angles\<rparr>))"
    and tf: "out_force self ''CustomTorsionForce'' =
        Some (CustomTorsionForce
          ((custom_force_0 torsion_energy_expression
              [''periodicity'', ''phase'', ''k'', ''identifier''])
             \<lparr>force_terms := map (torsion_term self) og_torsions\<rparr>))"
    by (simp_all add: assembled_def)
  have i1: "stored_identifiers (custom_of (out_force self ''CustomBondForce'')) =
       map (\<lambda>b. real_of_int (get_identifier self (Particles (bond_particles b)))) og_bonds"
    by (simp add: bf stored_identifiers_def comp_def stored_identifier_bond)
  have i2: "stored_identifiers (custom_of (out_force self ''CustomAngleForce'')) =
       map (\<lambda>a. real_of_int (get_identifier self (Particles (angle_particles a)))) og_angles"
    by (simp add: af stored_identifiers_def comp_def stored_identifier_angle)
  have i3: "stored_identifiers (custom_of (out_force self ''CustomTorsionForce'')) =
       map (\<lambda>t. real_of_int (get_identifier self (Particles (torsion_particles t)))) og_torsions"
    by (simp add: tf stored_identifiers_def comp_def stored_identifier_torsion)
  have e1: "map (term_energy (custom_of (out_force self ''CustomBondForce'')) context ''r'' x)
         (force_terms (custom_of (out_force self ''CustomBondForce''))) =
       map (\<lambda>b. Some (spec_bond_energy
              (spec_scale_factor context (get_identifier self (Particles (bond_particles b)))) b x))
         og_bonds"
    by (simp add: bf comp_def bond_energy_spec)
  have e2: "map (term_energy (custom_of (out_force self ''CustomAngleForce'')) context ''theta'' x)
         (force_terms (custom_of (out_force self ''CustomAngleForce''))) =
       map (\<lambda>a. Some (spec_angle_energy
              (spec_scale_factor context (get_identifier self (Particles (angle_particles a)))) a x))
         og_angles"
    by (simp add: af comp_def angle_energy_spec)
  have e3: "map (term_energy (custom_of (out_force self ''CustomTorsionForce'')) context ''theta'' x)
         (force_terms (custom_of (out_force self ''CustomTorsionForce''))) =
       map (\<lambda>t. Some (spec_torsion_energy
              (spec_scale_factor context (get_identifier self (Particles (torsion_particles t)))) t x))
         og_torsions"
    by (simp add: tf comp_def torsion_energy_spec)
  have g1: "map fst (global_parameters (custom_of (out_force self ''CustomBondForce''))) =
       [''solute_scale'', ''inter_scale'']"
    by (simp add: bf custom_force_0_def)
  have g2: "map fst (global_parameters (custom_of (out_force self ''CustomAngleForce''))) =
       [''solute_scale'', ''inter_scale'']"
    by (simp add: af custom_force_0_def)
  have g3: "map fst (global_parameters (custom_of (out_force self ''CustomTorsionForce''))) =
       [''solute_scale'', ''inter_scale'']"
    by (simp add: tf custom_force_0_def)
  show ?thesis
    by (intro exI[of _ self] conjI)
      (rule run, rule sol, rule solv, rule g1, rule g2, rule g3, rule i1, rule i2, rule i3,
       rule e1, rule e2, rule e3)
qed

text \<open>
  Claim C5. For every rewritten bond, angle and torsion of an assembled system, and for all
  values of \<open>solute_scale\<close> and \<open>inter_scale\<close> in the context, the energy of the rewritten
  term (the value of its energy function in exact real arithmetic) is the original energy
  with the force constant multiplied by the scale factor that the term's stored identifier
  selects: \<open>solute_scale\<close> if the term is SoluteOnly, the constant 1 if it is SolventOnly,
  and \<open>inter_scale\<close> if it is Inter. The stored identifier is the category of the term's
  particles, and the global parameters of each of the three forces are \<open>solute_scale\<close> and
  \<open>inter_scale\<close> only: the factor of a SolventOnly term is no parameter of the force.
\<close>

theorem bonded_scale_factor:
  assumes "valid_region sys solute" and "equipped sys og_nb og_bonds og_angles og_torsions"
  shows "\<exists>self. RESTFactory sys solute udc = Inr self \<and>
     solute_region self = solute \<and>
     solvent_region self =
       filter (\<lambda>i. i \<notin> set solute) (map int [0..<length (particles sys)]) \<and>
     map fst (global_parameters (custom_of (out_force self ''CustomBondForce''))) =
       [''solute_scale'', ''inter_scale''] \<and>
     map fst (global_parameters (custom_of (out_force self ''CustomAngleForce''))) =
       [''solute_scale'', ''inter_scale''] \<and>
     map fst (global_parameters (custom_of (out_force self ''CustomTorsionForce''))) =
       [''solute_scale'', ''inter_scale''] \<and>
     stored_identifiers (custom_of (out_force self ''CustomBondForce'')) =
       map (\<lambda>b. real_of_int (get_identifier self (Particles (bond_particles b)))) og_bonds \<and>
     stored_identifiers (custom_of (out_force self ''CustomAngleForce'')) =
       map (\<lambda>a. real_of_int (get_identifier self (Particles (angle_particles a)))) og_angles \<and>
     stored_identifiers (custom_of (out_force self ''CustomTorsionForce'')) =
       map (\<lambda>t. real_of_int (get_identifier self (Particles (torsion_particles t)))) og_torsions \<and>
     map (term_energy (custom_of (out_force self ''CustomBondForce'')) context ''r'' x)
         (force_terms (custom_of (out_force self ''CustomBondForce''))) =
       map (\<lambda>b. Some (spec_bond_energy
              (spec_scale_factor context (get_identifier self (Particles (bond_particles b)))) b x))
         og_bonds \<and>
     map (term_energy (custom_of (out_force self ''CustomAngleForce'')) context ''theta'' x)
         (force_terms (custom_of (out_force self ''CustomAngleForce''))) =
       map (\<lambda>a. Some (spec_angle_energy
              (spec_scale_factor context (get_identifier self (Particles (angle_particles a)))) a x))
         og_angles \<and>
     map (term_energy (custom_of (out_force self ''CustomTorsionForce'')) context ''theta'' x)
         (force_terms (custom_of (out_force self ''CustomTorsionForce''))) =
       map (\<lambda>t. Some (spec_torsion_energy
              (spec_scale_factor context (get_identifier self (Particles (torsion_particles t)))) t x))
         og_torsions"
  using assms by (rule bonded_energies_assembled)

theorem bonded_scale_factor_witness:
  "valid_region example_system [0, 1] \<and>
   equipped example_system example_nonbonded example_bonds example_angles example_torsions \<and>
   (\<exists>self. RESTFactory example_system [0, 1] False = Inr self \<and>
      stored_identifiers (custom_of (out_force self ''CustomBondForce'')) = [0, 2, 1] \<and>
      map (term_energy (custom_of (out_force self ''CustomBondForce'')) tempered_context ''r'' 1)
          (force_terms (custom_of (out_force self ''CustomBondForce''))) =
        [Some (spec_bond_energy (1 / 4) (0, 1, 3 / 20, 1000) 1),
         Some (spec_bond_energy (1 / 2) (1, 2, 1 / 10, 2000) 1),
         Some (spec_bond_energy 1 (2, 3, 1 / 10, 3000) 1)])"
proof -
  from bonded_scale_factor[OF example_valid_region example_equipped, of False tempered_context 1]
  obtain self where run: "RESTFactory example_system [0, 1] False = Inr self"
    and sol: "solute_region self = [0, 1]"
    and solv: "solvent_region self =
       filter (\<lambda>i. i \<notin> set [0, 1]) (map int [0..<length (particles example_system)])"
    and ids: "stored_identifiers (custom_of (out_force self ''CustomBondForce'')) =
       map (\<lambda>b. real_of_int (get_identifier self (Particles (bond_particles b)))) example_bonds"
    and en: "map (term_energy (custom_of (out_force self ''CustomBondForce'')) tempered_context ''r'' 1)
         (force_terms (custom_of (out_force self ''CustomBondForce''))) =
       map (\<lambda>b. Some (spec_bond_energy
              (spec_scale_factor tempered_context
                 (get_identifier self (Particles (bond_particles b)))) b 1))
         example_bonds"
    by blast
  from solv have solv': "solvent_region self = filter (\<lambda>i. i \<notin> set [0, 1]) (map int [0..<4])"
    by (simp only: example_facts(1))
  note cat = example_exception_categories[OF sol solv']
  have c: "get_identifier self (Particles [0, 1]) = 0" "get_identifier self (Particles [1, 2]) = 2"
    "get_identifier self (Particles [2, 3]) = 1"
    using cat by (simp_all only: SoluteOnly_def Inter_def SolventOnly_def)
  have ids': "stored_identifiers (custom_of (out_force self ''CustomBondForce'')) = [0, 2, 1]"
    unfolding ids example_bonds_def bond_particles_def list.map fst_conv snd_conv c by simp
  have en': "map (term_energy (custom_of (out_force self ''CustomBondForce'')) tempered_context ''r'' 1)
          (force_terms (custom_of (out_force self ''CustomBondForce''))) =
        [Some (spec_bond_energy (1 / 4) (0, 1, 3 / 20, 1000) 1),
         Some (spec_bond_energy (1 / 2) (1, 2, 1 / 10, 2000) 1),
         Some (spec_bond_energy 1 (2, 3, 1 / 10, 3000) 1)]"
    unfolding en example_bonds_def bond_particles_def list.map fst_conv snd_conv c
    by (simp add: spec_scale_factor_def tempered_context_def SoluteOnly_def SolventOnly_def
        del: spec_bond_energy.simps)
  have ex: "\<exists>self. RESTFactory example_system [0, 1] False = Inr self \<and>
      stored_identifiers (custom_of (out_force self ''CustomBondForce'')) = [0, 2, 1] \<and>
      map (term_energy (custom_of (out_force self ''CustomBondForce'')) tempered_context ''r'' 1)
          (force_terms (custom_of (out_force self ''CustomBondForce''))) =
        [Some (spec_bond_energy (1 / 4) (0, 1, 3 / 20, 1000) 1),
         Some (spec_bond_energy (1 / 2) (1, 2, 1 / 10, 2000) 1),
         Some (spec_bond_energy 1 (2, 3, 1 / 10, 3000) 1)]"
    by (intro exI[of _ self] conjI) (rule run, rule ids', rule en')
  show ?thesis by (rule conjI[OF example_valid_region conjI[OF example_equipped ex]])
qed

section \<open>The reference point\<close>









end
